theory Spec2Isabelle
  imports
    Main
    "HOL-Library.Word"
    "HOL-Library.Multiset"
    "HOL-Library.Monad_Syntax"
    "HOL-Library.Char_ord"
    "HOL-Library.List_Lexorder"
    "HOL-Library.Product_Lexorder"
begin

section \<open>Values, documents, exceptions\<close>

text \<open>
  The handlers of \<^verbatim>\<open>main.py\<close> move Python dicts between the HTTP layer and the
  document store. A stored value is one of the BSON kinds below; a \<^verbatim>\<open>datetime\<close> is
  the number of microseconds since the epoch (an unbounded Python-style integer), an
  \<^verbatim>\<open>ObjectId\<close> is its twelve bytes. Floating point values are not modelled.
  The store keeps a datetime in whole milliseconds (see \<open>insert_one\<close>).
  A document is a dict: a finite map from keys to values.
\<close>

datatype bson =
    BNull
  | BBool bool
  | BInt int
  | BStr string
  | BDate int
  | BObjectId "96 word"
  | BArray "bson list"
  | BDoc "(string \<times> bson) list"

type_synonym document = "string \<rightharpoonup> bson"

text \<open>
  Exceptions are values. \<open>StoreError\<close> stands for whatever the driver raises when a call
  to the store does not go through; \<open>DuplicateKeyError\<close> and \<open>WriteError\<close> are the
  two rejections of an insert that depend on the stored data; \<open>ValidationError\<close> is
  what a pydantic model constructor raises (it carries the name of the model);
  \<open>TypeError\<close> is what \<^verbatim>\<open>ContactForm(**None)\<close> raises.
\<close>

datatype exn =
    StoreError string
  | DuplicateKeyError
  | WriteError
  | ValidationError string
  | TypeError

text \<open>\<^verbatim>\<open>HTTPException(status_code=..., detail=...)\<close>.\<close>

datatype http_error = HTTPException nat string

text \<open>
  \<^verbatim>\<open>logging.error(f"<prefix>{str(e)}")\<close> is recorded as the prefix together with the
  exception whose text is appended, so that no rendering of the exception is invented.
\<close>

datatype log_entry = LogError string exn

section \<open>\<^verbatim>\<open>str\<close> of a stored identifier\<close>

definition hex_digit :: "nat \<Rightarrow> char" where
  "hex_digit n = ''0123456789abcdef'' ! (n mod 16)"

text \<open>\<^verbatim>\<open>str(ObjectId)\<close>: the twelve bytes as 24 lower-case hexadecimal digits.\<close>

definition str_objectid :: "96 word \<Rightarrow> string" where
  "str_objectid w = map (\<lambda>i. hex_digit (unat (drop_bit (4 * i) w))) (rev [0..<24])"

fun digits10 :: "nat \<Rightarrow> nat \<Rightarrow> string" where
  "digits10 0 n = []"
| "digits10 (Suc fuel) n =
     (if n < 10 then [hex_digit n] else digits10 fuel (n div 10) @ [hex_digit (n mod 10)])"

text \<open>\<^verbatim>\<open>str(int)\<close>: decimal digits, with a sign for a negative number.\<close>

definition str_int :: "int \<Rightarrow> string" where
  "str_int i = (if i < 0 then CHR ''-'' # digits10 (Suc (nat (- i))) (nat (- i))
                else digits10 (Suc (nat i)) (nat i))"

text \<open>
  The text that \<^verbatim>\<open>str\<close> gives for a datetime, a list or a nested dict is not
  modelled: it is left as an unspecified function, about which nothing is known.
\<close>

definition str_unmodelled :: "bson \<Rightarrow> string" where
  "str_unmodelled = (SOME f. True)"

fun py_str :: "bson \<Rightarrow> string" where
  "py_str BNull = ''None''"
| "py_str (BBool b) = (if b then ''True'' else ''False'')"
| "py_str (BInt i) = str_int i"
| "py_str (BStr s) = s"
| "py_str (BObjectId w) = str_objectid w"
| "py_str v = str_unmodelled v"

section \<open>The utility function\<close>

text \<open>
  \<^verbatim>\<open>
  def convert_objectid(document):
      if document and "_id" in document:
          document["_id"] = str(document["_id"])
      return document
  \<close>
  on a dict. An empty dict has no \<^verbatim>\<open>_id\<close>, so the first test is subsumed by the
  second. (On \<^verbatim>\<open>None\<close> the function returns \<^verbatim>\<open>None\<close>; the one caller that can
  pass \<^verbatim>\<open>None\<close> handles it at the call.)
\<close>

definition convert_objectid :: "document \<Rightarrow> document" where
  "convert_objectid document =
     (case document ''_id'' of
        None \<Rightarrow> document
      | Some v \<Rightarrow> document(''_id'' \<mapsto> BStr (py_str v)))"

section \<open>The document store\<close>

text \<open>
  A collection is the list of its documents in insertion order. Every operation takes
  the fault of that call: \<open>Some e\<close> when the driver raises \<open>e\<close> instead of
  answering, \<open>None\<close> when the call goes through.

  An equality condition \<^verbatim>\<open>{key: v}\<close> matches a document whose field equals \<open>v\<close>, or
  is an array with \<open>v\<close> among its elements; a missing field matches only \<^verbatim>\<open>null\<close>.
\<close>

definition eq_match :: "string \<Rightarrow> bson \<Rightarrow> document \<Rightarrow> bool" where
  "eq_match key v d =
     (case d key of
        None \<Rightarrow> v = BNull
      | Some (BArray xs) \<Rightarrow> BArray xs = v \<or> v \<in> set xs
      | Some w \<Rightarrow> w = v)"

text \<open>
  \<^verbatim>\<open>{key: {"$gte": bound}}\<close> with a datetime bound: only dates are compared with a
  date; an array matches when one of its elements does.
\<close>

definition date_gte :: "int \<Rightarrow> bson \<Rightarrow> bool" where
  "date_gte bound v = (case v of BDate t \<Rightarrow> bound \<le> t | _ \<Rightarrow> False)"

definition gte_match :: "string \<Rightarrow> int \<Rightarrow> document \<Rightarrow> bool" where
  "gte_match key bound d =
     (case d key of
        None \<Rightarrow> False
      | Some (BArray xs) \<Rightarrow> list_ex (date_gte bound) xs
      | Some w \<Rightarrow> date_gte bound w)"

text \<open>
  The order of an ascending sort: values are compared by kind first (null and missing,
  then numbers, strings, objects, arrays, identifiers, booleans, dates), then within the
  kind; an array is placed by its least element and an empty array before everything.
  Nested objects and nested arrays are compared by kind only.
\<close>

fun elem_key :: "bson \<Rightarrow> nat \<times> int \<times> string" where
  "elem_key BNull = (1, 0, [])"
| "elem_key (BInt i) = (2, i, [])"
| "elem_key (BStr s) = (3, 0, s)"
| "elem_key (BDoc kvs) = (4, 0, [])"
| "elem_key (BArray xs) = (5, 0, [])"
| "elem_key (BObjectId w) = (7, uint w, [])"
| "elem_key (BBool b) = (8, (if b then 1 else 0), [])"
| "elem_key (BDate t) = (9, t, [])"

definition bson_sort_key :: "bson option \<Rightarrow> nat \<times> int \<times> string" where
  "bson_sort_key fv =
     (case fv of
        None \<Rightarrow> (1, 0, [])
      | Some (BArray []) \<Rightarrow> (0, 0, [])
      | Some (BArray (x # xs)) \<Rightarrow> fold (\<lambda>y k. min (elem_key y) k) xs (elem_key x)
      | Some v \<Rightarrow> elem_key v)"

text \<open>
  \<^verbatim>\<open>collection.find({key: v}).sort(sort_field, 1)\<close>, read to the end. Documents with
  equal sort keys keep their insertion order here; the store promises no order among
  them, and the theorems below state results up to that order.
\<close>

definition find_sorted ::
  "exn option \<Rightarrow> string \<Rightarrow> bson \<Rightarrow> string \<Rightarrow> document list \<Rightarrow> exn + document list" where
  "find_sorted fault key v sort_field coll =
     (case fault of
        Some e \<Rightarrow> Inl e
      | None \<Rightarrow> Inr (sort_key (\<lambda>d. bson_sort_key (d sort_field)) (filter (eq_match key v) coll)))"

text \<open>\<^verbatim>\<open>collection.find_one({key: v})\<close>: the first match, or \<^verbatim>\<open>None\<close>.\<close>

definition find_one ::
  "exn option \<Rightarrow> string \<Rightarrow> bson \<Rightarrow> document list \<Rightarrow> exn + document option" where
  "find_one fault key v coll =
     (case fault of
        Some e \<Rightarrow> Inl e
      | None \<Rightarrow> Inr (List.find (eq_match key v) coll))"

text \<open>
  A datetime has microseconds, the store keeps milliseconds: what the driver writes for
  the datetime \<open>t\<close> is \<open>millis t\<close>, the last whole millisecond not after it. That
  holds for every datetime of a document or of a query, also inside arrays and nested
  objects.
\<close>

definition millis :: "int \<Rightarrow> int" where
  "millis t = t - t mod 1000"

primrec bson_millis :: "bson \<Rightarrow> bson" where
  "bson_millis BNull = BNull"
| "bson_millis (BBool b) = BBool b"
| "bson_millis (BInt i) = BInt i"
| "bson_millis (BStr s) = BStr s"
| "bson_millis (BDate t) = BDate (millis t)"
| "bson_millis (BObjectId w) = BObjectId w"
| "bson_millis (BArray xs) = BArray (map bson_millis xs)"
| "bson_millis (BDoc kvs) = BDoc (map (map_prod id bson_millis) kvs)"

definition encode :: "document \<Rightarrow> document" where
  "encode d = (\<lambda>k. map_option bson_millis (d k))"

text \<open>
  \<^verbatim>\<open>collection.insert_one(doc)\<close>. A document without \<^verbatim>\<open>_id\<close> gets the fresh
  \<^verbatim>\<open>ObjectId\<close> \<open>oid\<close> that the driver generates for this call. The store rejects an
  array as identifier, and an identifier that a document of the collection already has.
  What is stored is the document as the driver writes it. The result is the
  \<^verbatim>\<open>inserted_id\<close> and the collection afterwards.
\<close>

definition insert_one ::
  "exn option \<Rightarrow> 96 word \<Rightarrow> document \<Rightarrow> document list \<Rightarrow> (exn + bson) \<times> document list" where
  "insert_one fault oid doc coll =
     (case fault of
        Some e \<Rightarrow> (Inl e, coll)
      | None \<Rightarrow>
          (let i = (case doc ''_id'' of None \<Rightarrow> BObjectId oid | Some v \<Rightarrow> v);
               doc' = encode (doc(''_id'' \<mapsto> i))
           in case i of
                BArray xs \<Rightarrow> (Inl WriteError, coll)
              | _ \<Rightarrow>
                  if list_ex (\<lambda>d. d ''_id'' = Some (bson_millis i)) coll
                  then (Inl DuplicateKeyError, coll)
                  else (Inr i, coll @ [doc'])))"

text \<open>\<^verbatim>\<open>collection.count_documents(filter)\<close>.\<close>

definition count_documents ::
  "exn option \<Rightarrow> (document \<Rightarrow> bool) \<Rightarrow> document list \<Rightarrow> exn + nat" where
  "count_documents fault flt coll =
     (case fault of
        Some e \<Rightarrow> Inl e
      | None \<Rightarrow> Inr (length (filter flt coll)))"

text \<open>The database: the five collections of the application and the analytics one.\<close>

record db =
  experiences_collection :: "document list"
  accomplishments_collection :: "document list"
  contacts_collection :: "document list"
  profile_collection :: "document list"
  testimonials_collection :: "document list"
  analytics :: "document list"

section \<open>The pydantic models\<close>

text \<open>
  A model constructor \<^verbatim>\<open>Model(**document)\<close> reads each declared field from the dict:
  a field without default must be present, a field with a default may be absent, and
  keys that the model does not declare are ignored. A value that has the declared type
  is taken as it is. What pydantic does with a value of another type depends on its
  version: it converts some (a numeric string for an \<^verbatim>\<open>int\<close>, a number or an ISO
  string for a \<^verbatim>\<open>datetime\<close>, 0 and 1 for a \<^verbatim>\<open>bool\<close>) and rejects others. That part
  is not modelled: its outcome is an unspecified function of the value, \<open>None\<close>
  standing for a rejection, and nothing below depends on it.
\<close>

definition coerce_str :: "bson \<Rightarrow> string option" where
  "coerce_str = (SOME f. True)"

definition coerce_int :: "bson \<Rightarrow> int option" where
  "coerce_int = (SOME f. True)"

definition coerce_bool :: "bson \<Rightarrow> bool option" where
  "coerce_bool = (SOME f. True)"

definition coerce_datetime :: "bson \<Rightarrow> int option" where
  "coerce_datetime = (SOME f. True)"

definition coerce_str_list :: "bson \<Rightarrow> string list option" where
  "coerce_str_list = (SOME f. True)"

text \<open>Each reader returns \<open>None\<close> when the field fails validation.\<close>

definition req_str :: "document \<Rightarrow> string \<Rightarrow> string option" where
  "req_str d k = (case d k of None \<Rightarrow> None | Some (BStr s) \<Rightarrow> Some s | Some v \<Rightarrow> coerce_str v)"

definition opt_str :: "document \<Rightarrow> string \<Rightarrow> string \<Rightarrow> string option" where
  "opt_str d k dflt =
     (case d k of None \<Rightarrow> Some dflt | Some (BStr s) \<Rightarrow> Some s | Some v \<Rightarrow> coerce_str v)"

definition opt_int :: "document \<Rightarrow> string \<Rightarrow> int \<Rightarrow> int option" where
  "opt_int d k dflt =
     (case d k of None \<Rightarrow> Some dflt | Some (BInt i) \<Rightarrow> Some i | Some v \<Rightarrow> coerce_int v)"

definition opt_bool :: "document \<Rightarrow> string \<Rightarrow> bool \<Rightarrow> bool option" where
  "opt_bool d k dflt =
     (case d k of None \<Rightarrow> Some dflt | Some (BBool b) \<Rightarrow> Some b | Some v \<Rightarrow> coerce_bool v)"

text \<open>\<^verbatim>\<open>Optional[datetime] = None\<close>.\<close>

definition opt_datetime :: "document \<Rightarrow> string \<Rightarrow> int option option" where
  "opt_datetime d k =
     (case d k of
        None \<Rightarrow> Some None
      | Some BNull \<Rightarrow> Some None
      | Some (BDate t) \<Rightarrow> Some (Some t)
      | Some v \<Rightarrow> map_option Some (coerce_datetime v))"

fun the_strs :: "bson list \<Rightarrow> string list option" where
  "the_strs [] = Some []"
| "the_strs (BStr s # xs) = map_option ((#) s) (the_strs xs)"
| "the_strs (_ # xs) = None"

text \<open>\<^verbatim>\<open>List[str]\<close>, no default: a list of strings is taken as it is.\<close>

definition req_str_list :: "document \<Rightarrow> string \<Rightarrow> string list option" where
  "req_str_list d k =
     (case d k of
        None \<Rightarrow> None
      | Some v \<Rightarrow>
          (case (case v of BArray xs \<Rightarrow> the_strs xs | _ \<Rightarrow> None) of
             Some ss \<Rightarrow> Some ss
           | None \<Rightarrow> coerce_str_list v))"

datatype ContactStatus = NEW | READ | RESPONDED

definition ContactStatus_value :: "ContactStatus \<Rightarrow> string" where
  "ContactStatus_value s = (case s of NEW \<Rightarrow> ''new'' | READ \<Rightarrow> ''read'' | RESPONDED \<Rightarrow> ''responded'')"

text \<open>
  \<^verbatim>\<open>status: ContactStatus = ContactStatus.NEW\<close>. An enumeration is validated by
  looking the value up among the values of its members, so anything but the three
  strings is rejected.
\<close>

definition opt_status :: "document \<Rightarrow> string \<Rightarrow> ContactStatus option" where
  "opt_status d k =
     (case d k of
        None \<Rightarrow> Some NEW
      | Some (BStr s) \<Rightarrow>
          (if s = ''new'' then Some NEW
           else if s = ''read'' then Some READ
           else if s = ''responded'' then Some RESPONDED
           else None)
      | _ \<Rightarrow> None)"

text \<open>
  The field \<^verbatim>\<open>id: str = Field(alias="_id")\<close> is read from the key \<^verbatim>\<open>_id\<close>. (A
  document that comes from the store always has that key, so population by the field
  name \<^verbatim>\<open>id\<close> never comes into play.) The fields of a record carry the name of their
  model as a prefix, since several models declare a field of the same name.
\<close>

record Experience =
  exp_id :: string
  exp_position :: string
  exp_company :: string
  exp_location :: string
  exp_period :: string
  exp_description :: string
  exp_achievements :: "string list"
  exp_order :: int
  exp_isActive :: bool
  exp_createdAt :: "int option"
  exp_updatedAt :: "int option"

definition Experience_of :: "document \<Rightarrow> exn + Experience" where
  "Experience_of d =
     (case do {
        i \<leftarrow> req_str d ''_id'';
        po \<leftarrow> req_str d ''position'';
        co \<leftarrow> req_str d ''company'';
        lo \<leftarrow> req_str d ''location'';
        pe \<leftarrow> req_str d ''period'';
        de \<leftarrow> req_str d ''description'';
        ac \<leftarrow> req_str_list d ''achievements'';
        od \<leftarrow> opt_int d ''order'' 0;
        ia \<leftarrow> opt_bool d ''isActive'' True;
        ca \<leftarrow> opt_datetime d ''createdAt'';
        ua \<leftarrow> opt_datetime d ''updatedAt'';
        Some \<lparr>exp_id = i, exp_position = po, exp_company = co, exp_location = lo,
              exp_period = pe, exp_description = de, exp_achievements = ac, exp_order = od,
              exp_isActive = ia, exp_createdAt = ca, exp_updatedAt = ua\<rparr>
      } of
        None \<Rightarrow> Inl (ValidationError ''Experience'')
      | Some e \<Rightarrow> Inr e)"

record Accomplishment =
  acc_id :: string
  acc_title :: string
  acc_description :: string
  acc_impact :: string
  acc_technologies :: "string list"
  acc_order :: int
  acc_isActive :: bool
  acc_createdAt :: "int option"
  acc_updatedAt :: "int option"

definition Accomplishment_of :: "document \<Rightarrow> exn + Accomplishment" where
  "Accomplishment_of d =
     (case do {
        i \<leftarrow> req_str d ''_id'';
        ti \<leftarrow> req_str d ''title'';
        de \<leftarrow> req_str d ''description'';
        im \<leftarrow> req_str d ''impact'';
        te \<leftarrow> req_str_list d ''technologies'';
        od \<leftarrow> opt_int d ''order'' 0;
        ia \<leftarrow> opt_bool d ''isActive'' True;
        ca \<leftarrow> opt_datetime d ''createdAt'';
        ua \<leftarrow> opt_datetime d ''updatedAt'';
        Some \<lparr>acc_id = i, acc_title = ti, acc_description = de, acc_impact = im,
              acc_technologies = te, acc_order = od, acc_isActive = ia,
              acc_createdAt = ca, acc_updatedAt = ua\<rparr>
      } of
        None \<Rightarrow> Inl (ValidationError ''Accomplishment'')
      | Some a \<Rightarrow> Inr a)"

text \<open>
  The request body of the contact endpoint. \<^verbatim>\<open>subject: Optional[str] = ""\<close>: an
  absent subject is the empty string, an explicit \<^verbatim>\<open>null\<close> is \<^verbatim>\<open>None\<close>.
\<close>

record ContactFormCreate =
  cfc_name :: string
  cfc_email :: string
  cfc_subject :: "string option"
  cfc_message :: string

definition opt_str_or_none :: "document \<Rightarrow> string \<Rightarrow> string \<Rightarrow> string option option" where
  "opt_str_or_none d k dflt =
     (case d k of
        None \<Rightarrow> Some (Some dflt)
      | Some BNull \<Rightarrow> Some None
      | Some (BStr s) \<Rightarrow> Some (Some s)
      | Some v \<Rightarrow> map_option Some (coerce_str v))"

definition ContactFormCreate_of :: "document \<Rightarrow> exn + ContactFormCreate" where
  "ContactFormCreate_of d =
     (case do {
        n \<leftarrow> req_str d ''name'';
        e \<leftarrow> req_str d ''email'';
        s \<leftarrow> opt_str_or_none d ''subject'' [];
        m \<leftarrow> req_str d ''message'';
        Some \<lparr>cfc_name = n, cfc_email = e, cfc_subject = s, cfc_message = m\<rparr>
      } of
        None \<Rightarrow> Inl (ValidationError ''ContactFormCreate'')
      | Some c \<Rightarrow> Inr c)"

text \<open>\<^verbatim>\<open>contact.dict()\<close>.\<close>

definition ContactFormCreate_dict :: "ContactFormCreate \<Rightarrow> document" where
  "ContactFormCreate_dict c =
     [''name'' \<mapsto> BStr (cfc_name c),
      ''email'' \<mapsto> BStr (cfc_email c),
      ''subject'' \<mapsto> (case cfc_subject c of None \<Rightarrow> BNull | Some s \<Rightarrow> BStr s),
      ''message'' \<mapsto> BStr (cfc_message c)]"

record ContactForm =
  cf_id :: string
  cf_name :: string
  cf_email :: string
  cf_subject :: string
  cf_message :: string
  cf_status :: ContactStatus
  cf_createdAt :: "int option"
  cf_updatedAt :: "int option"

definition ContactForm_of :: "document \<Rightarrow> exn + ContactForm" where
  "ContactForm_of d =
     (case do {
        i \<leftarrow> req_str d ''_id'';
        n \<leftarrow> req_str d ''name'';
        e \<leftarrow> req_str d ''email'';
        s \<leftarrow> opt_str d ''subject'' [];
        m \<leftarrow> req_str d ''message'';
        st \<leftarrow> opt_status d ''status'';
        ca \<leftarrow> opt_datetime d ''createdAt'';
        ua \<leftarrow> opt_datetime d ''updatedAt'';
        Some \<lparr>cf_id = i, cf_name = n, cf_email = e, cf_subject = s, cf_message = m,
              cf_status = st, cf_createdAt = ca, cf_updatedAt = ua\<rparr>
      } of
        None \<Rightarrow> Inl (ValidationError ''ContactForm'')
      | Some c \<Rightarrow> Inr c)"

record Profile =
  prof_id :: string
  prof_name :: string
  prof_title :: string
  prof_description :: string
  prof_location :: string
  prof_email :: string
  prof_phone :: string
  prof_isActive :: bool
  prof_updatedAt :: "int option"

definition Profile_of :: "document \<Rightarrow> exn + Profile" where
  "Profile_of d =
     (case do {
        i \<leftarrow> req_str d ''_id'';
        n \<leftarrow> req_str d ''name'';
        ti \<leftarrow> req_str d ''title'';
        de \<leftarrow> req_str d ''description'';
        lo \<leftarrow> req_str d ''location'';
        e \<leftarrow> req_str d ''email'';
        ph \<leftarrow> req_str d ''phone'';
        ia \<leftarrow> opt_bool d ''isActive'' True;
        ua \<leftarrow> opt_datetime d ''updatedAt'';
        Some \<lparr>prof_id = i, prof_name = n, prof_title = ti, prof_description = de,
              prof_location = lo, prof_email = e, prof_phone = ph, prof_isActive = ia,
              prof_updatedAt = ua\<rparr>
      } of
        None \<Rightarrow> Inl (ValidationError ''Profile'')
      | Some p \<Rightarrow> Inr p)"

record Testimonial =
  tst_id :: string
  tst_name :: string
  tst_title :: string
  tst_company :: string
  tst_testimonial :: string
  tst_relationship :: string
  tst_date :: string
  tst_order :: int
  tst_isActive :: bool
  tst_createdAt :: "int option"
  tst_updatedAt :: "int option"

definition Testimonial_of :: "document \<Rightarrow> exn + Testimonial" where
  "Testimonial_of d =
     (case do {
        i \<leftarrow> req_str d ''_id'';
        n \<leftarrow> req_str d ''name'';
        ti \<leftarrow> req_str d ''title'';
        co \<leftarrow> opt_str d ''company'' [];
        te \<leftarrow> req_str d ''testimonial'';
        re \<leftarrow> opt_str d ''relationship'' [];
        da \<leftarrow> opt_str d ''date'' [];
        od \<leftarrow> opt_int d ''order'' 0;
        ia \<leftarrow> opt_bool d ''isActive'' True;
        ca \<leftarrow> opt_datetime d ''createdAt'';
        ua \<leftarrow> opt_datetime d ''updatedAt'';
        Some \<lparr>tst_id = i, tst_name = n, tst_title = ti, tst_company = co,
              tst_testimonial = te, tst_relationship = re, tst_date = da, tst_order = od,
              tst_isActive = ia, tst_createdAt = ca, tst_updatedAt = ua\<rparr>
      } of
        None \<Rightarrow> Inl (ValidationError ''Testimonial'')
      | Some t \<Rightarrow> Inr t)"

text \<open>
  Serialising a model back to a dict (\<^verbatim>\<open>model.dict()\<close>, or the response encoder with
  \<open>by_alias\<close>): every declared field is written, under its alias when \<open>by_alias\<close>
  holds and under its name otherwise; an absent datetime is written as \<^verbatim>\<open>null\<close>.
\<close>

definition id_key :: "bool \<Rightarrow> string" where
  "id_key by_alias = (if by_alias then ''_id'' else ''id'')"

definition dump_datetime :: "int option \<Rightarrow> bson" where
  "dump_datetime t = (case t of None \<Rightarrow> BNull | Some x \<Rightarrow> BDate x)"

definition Experience_dump :: "bool \<Rightarrow> Experience \<Rightarrow> document" where
  "Experience_dump by_alias e =
     [id_key by_alias \<mapsto> BStr (exp_id e),
      ''position'' \<mapsto> BStr (exp_position e),
      ''company'' \<mapsto> BStr (exp_company e),
      ''location'' \<mapsto> BStr (exp_location e),
      ''period'' \<mapsto> BStr (exp_period e),
      ''description'' \<mapsto> BStr (exp_description e),
      ''achievements'' \<mapsto> BArray (map BStr (exp_achievements e)),
      ''order'' \<mapsto> BInt (exp_order e),
      ''isActive'' \<mapsto> BBool (exp_isActive e),
      ''createdAt'' \<mapsto> dump_datetime (exp_createdAt e),
      ''updatedAt'' \<mapsto> dump_datetime (exp_updatedAt e)]"

definition Accomplishment_dump :: "bool \<Rightarrow> Accomplishment \<Rightarrow> document" where
  "Accomplishment_dump by_alias a =
     [id_key by_alias \<mapsto> BStr (acc_id a),
      ''title'' \<mapsto> BStr (acc_title a),
      ''description'' \<mapsto> BStr (acc_description a),
      ''impact'' \<mapsto> BStr (acc_impact a),
      ''technologies'' \<mapsto> BArray (map BStr (acc_technologies a)),
      ''order'' \<mapsto> BInt (acc_order a),
      ''isActive'' \<mapsto> BBool (acc_isActive a),
      ''createdAt'' \<mapsto> dump_datetime (acc_createdAt a),
      ''updatedAt'' \<mapsto> dump_datetime (acc_updatedAt a)]"

definition ContactForm_dump :: "bool \<Rightarrow> ContactForm \<Rightarrow> document" where
  "ContactForm_dump by_alias c =
     [id_key by_alias \<mapsto> BStr (cf_id c),
      ''name'' \<mapsto> BStr (cf_name c),
      ''email'' \<mapsto> BStr (cf_email c),
      ''subject'' \<mapsto> BStr (cf_subject c),
      ''message'' \<mapsto> BStr (cf_message c),
      ''status'' \<mapsto> BStr (ContactStatus_value (cf_status c)),
      ''createdAt'' \<mapsto> dump_datetime (cf_createdAt c),
      ''updatedAt'' \<mapsto> dump_datetime (cf_updatedAt c)]"

definition Profile_dump :: "bool \<Rightarrow> Profile \<Rightarrow> document" where
  "Profile_dump by_alias p =
     [id_key by_alias \<mapsto> BStr (prof_id p),
      ''name'' \<mapsto> BStr (prof_name p),
      ''title'' \<mapsto> BStr (prof_title p),
      ''description'' \<mapsto> BStr (prof_description p),
      ''location'' \<mapsto> BStr (prof_location p),
      ''email'' \<mapsto> BStr (prof_email p),
      ''phone'' \<mapsto> BStr (prof_phone p),
      ''isActive'' \<mapsto> BBool (prof_isActive p),
      ''updatedAt'' \<mapsto> dump_datetime (prof_updatedAt p)]"

definition Testimonial_dump :: "bool \<Rightarrow> Testimonial \<Rightarrow> document" where
  "Testimonial_dump by_alias t =
     [id_key by_alias \<mapsto> BStr (tst_id t),
      ''name'' \<mapsto> BStr (tst_name t),
      ''title'' \<mapsto> BStr (tst_title t),
      ''company'' \<mapsto> BStr (tst_company t),
      ''testimonial'' \<mapsto> BStr (tst_testimonial t),
      ''relationship'' \<mapsto> BStr (tst_relationship t),
      ''date'' \<mapsto> BStr (tst_date t),
      ''order'' \<mapsto> BInt (tst_order t),
      ''isActive'' \<mapsto> BBool (tst_isActive t),
      ''createdAt'' \<mapsto> dump_datetime (tst_createdAt t),
      ''updatedAt'' \<mapsto> dump_datetime (tst_updatedAt t)]"

text \<open>
  The declarations of each model besides the identifier, as a table: the key, the
  declared type and the default as it is serialised (\<open>None\<close> for a field without
  default).
\<close>

datatype ftype = TStr | TInt | TBool | TOptDatetime | TStrList | TStatus

type_synonym fields = "(string \<times> ftype \<times> bson option) list"

definition Experience_fields :: fields where
  "Experience_fields =
     [(''position'', TStr, None), (''company'', TStr, None), (''location'', TStr, None),
      (''period'', TStr, None), (''description'', TStr, None), (''achievements'', TStrList, None),
      (''order'', TInt, Some (BInt 0)), (''isActive'', TBool, Some (BBool True)),
      (''createdAt'', TOptDatetime, Some BNull), (''updatedAt'', TOptDatetime, Some BNull)]"

definition Accomplishment_fields :: fields where
  "Accomplishment_fields =
     [(''title'', TStr, None), (''description'', TStr, None), (''impact'', TStr, None),
      (''technologies'', TStrList, None),
      (''order'', TInt, Some (BInt 0)), (''isActive'', TBool, Some (BBool True)),
      (''createdAt'', TOptDatetime, Some BNull), (''updatedAt'', TOptDatetime, Some BNull)]"

definition ContactForm_fields :: fields where
  "ContactForm_fields =
     [(''name'', TStr, None), (''email'', TStr, None), (''subject'', TStr, Some (BStr [])),
      (''message'', TStr, None), (''status'', TStatus, Some (BStr ''new'')),
      (''createdAt'', TOptDatetime, Some BNull), (''updatedAt'', TOptDatetime, Some BNull)]"

definition Profile_fields :: fields where
  "Profile_fields =
     [(''name'', TStr, None), (''title'', TStr, None), (''description'', TStr, None),
      (''location'', TStr, None), (''email'', TStr, None), (''phone'', TStr, None),
      (''isActive'', TBool, Some (BBool True)), (''updatedAt'', TOptDatetime, Some BNull)]"

definition Testimonial_fields :: fields where
  "Testimonial_fields =
     [(''name'', TStr, None), (''title'', TStr, None), (''company'', TStr, Some (BStr [])),
      (''testimonial'', TStr, None), (''relationship'', TStr, Some (BStr [])),
      (''date'', TStr, Some (BStr [])),
      (''order'', TInt, Some (BInt 0)), (''isActive'', TBool, Some (BBool True)),
      (''createdAt'', TOptDatetime, Some BNull), (''updatedAt'', TOptDatetime, Some BNull)]"

text \<open>A stored value has the declared type.\<close>

fun has_type :: "ftype \<Rightarrow> bson \<Rightarrow> bool" where
  "has_type TStr (BStr s) = True"
| "has_type TInt (BInt i) = True"
| "has_type TBool (BBool b) = True"
| "has_type TOptDatetime BNull = True"
| "has_type TOptDatetime (BDate t) = True"
| "has_type TStrList (BArray xs) = (the_strs xs \<noteq> None)"
| "has_type TStatus (BStr s) = (s = ''new'' \<or> s = ''read'' \<or> s = ''responded'')"
| "has_type _ _ = False"

text \<open>
  A document gives every declared field a value of the declared type: it has an
  identifier, each key it stores has the type of its declaration, and each key it lacks
  has a default.
\<close>

definition conforms :: "fields \<Rightarrow> document \<Rightarrow> bool" where
  "conforms fs d =
     (d ''_id'' \<noteq> None \<and>
      list_all (\<lambda>(k, t, dflt). case d k of None \<Rightarrow> dflt \<noteq> None | Some v \<Rightarrow> has_type t v) fs)"

section \<open>The handlers\<close>

text \<open>
  A handler returns its response, \<open>Inl\<close> an \<^verbatim>\<open>HTTPException\<close> that reaches the
  caller and \<open>Inr\<close> the body of a successful response, together with the lines it
  logged. The clause
  \<^verbatim>\<open>
      except Exception as e:
          logging.error(f"<prefix>{str(e)}")
          raise HTTPException(status_code=500, detail="<detail>")
  \<close>
  is shared by the listing, profile and contact handlers.
\<close>

type_synonym 'a response = "(http_error + 'a) \<times> log_entry list"

definition server_error :: "string \<Rightarrow> string \<Rightarrow> exn \<Rightarrow> 'a response" where
  "server_error log_prefix detail e = (Inl (HTTPException 500 detail), [LogError log_prefix e])"

text \<open>
  The loop of a listing handler,
  \<^verbatim>\<open>
      async for document in cursor:
          document = convert_objectid(document)
          experiences.append(Experience(**document))
  \<close>
  with the list built so far as accumulator; the first exception ends it.
\<close>

fun collect :: "(document \<Rightarrow> exn + 'a) \<Rightarrow> document list \<Rightarrow> 'a list \<Rightarrow> exn + 'a list" where
  "collect model [] acc = Inr acc"
| "collect model (document # cursor) acc =
     (case model (convert_objectid document) of
        Inl e \<Rightarrow> Inl e
      | Inr x \<Rightarrow> collect model cursor (acc @ [x]))"

text \<open>
  The three listing handlers have the same body, up to the collection, the model and
  the two messages.
\<close>

definition listing ::
  "(document \<Rightarrow> exn + 'a) \<Rightarrow> string \<Rightarrow> string \<Rightarrow> exn option \<Rightarrow> document list
     \<Rightarrow> 'a list response" where
  "listing model log_prefix detail fault coll =
     (case find_sorted fault ''isActive'' (BBool True) ''order'' coll of
        Inl e \<Rightarrow> server_error log_prefix detail e
      | Inr cursor \<Rightarrow>
          (case collect model cursor [] of
             Inl e \<Rightarrow> server_error log_prefix detail e
           | Inr xs \<Rightarrow> (Inr xs, [])))"

definition get_experiences :: "exn option \<Rightarrow> db \<Rightarrow> Experience list response" where
  "get_experiences fault store =
     listing Experience_of ''Error fetching experiences: '' ''Failed to fetch experiences''
       fault (experiences_collection store)"

definition get_accomplishments :: "exn option \<Rightarrow> db \<Rightarrow> Accomplishment list response" where
  "get_accomplishments fault store =
     listing Accomplishment_of ''Error fetching accomplishments: ''
       ''Failed to fetch accomplishments'' fault (accomplishments_collection store)"

definition get_testimonials :: "exn option \<Rightarrow> db \<Rightarrow> Testimonial list response" where
  "get_testimonials fault store =
     listing Testimonial_of ''Error fetching testimonials: '' ''Failed to fetch testimonials''
       fault (testimonials_collection store)"

text \<open>
  \<^verbatim>\<open>get_profile\<close>. \<^verbatim>\<open>if not document\<close> holds for \<^verbatim>\<open>None\<close> and for an empty dict.
  The 404 raised in the \<^verbatim>\<open>try\<close> block is re-raised as it is by the clause
  \<^verbatim>\<open>except HTTPException: raise\<close>, which comes before the general one.
\<close>

definition get_profile :: "exn option \<Rightarrow> db \<Rightarrow> Profile response" where
  "get_profile fault store =
     (case find_one fault ''isActive'' (BBool True) (profile_collection store) of
        Inl e \<Rightarrow> server_error ''Error fetching profile: '' ''Failed to fetch profile'' e
      | Inr None \<Rightarrow> (Inl (HTTPException 404 ''Profile not found''), [])
      | Inr (Some document) \<Rightarrow>
          if document = Map.empty then (Inl (HTTPException 404 ''Profile not found''), [])
          else
            (case Profile_of (convert_objectid document) of
               Inl e \<Rightarrow> server_error ''Error fetching profile: '' ''Failed to fetch profile'' e
             | Inr p \<Rightarrow> (Inr p, [])))"

text \<open>
  \<^verbatim>\<open>submit_contact_form\<close>. The two calls of \<^verbatim>\<open>datetime.utcnow()\<close> are the two clock
  readings \<open>now1\<close> and \<open>now2\<close>; \<open>fault1\<close> is the fault of \<^verbatim>\<open>insert_one\<close>,
  \<open>fault2\<close> that of \<^verbatim>\<open>find_one\<close>. The handler also returns the database afterwards.
  When \<^verbatim>\<open>find_one\<close> gives \<^verbatim>\<open>None\<close>, \<^verbatim>\<open>convert_objectid\<close> passes it on and the
  model constructor raises \<^verbatim>\<open>TypeError\<close>.
\<close>

definition submit_contact_form ::
  "exn option \<Rightarrow> exn option \<Rightarrow> 96 word \<Rightarrow> int \<Rightarrow> int \<Rightarrow> ContactFormCreate \<Rightarrow> db
     \<Rightarrow> ContactForm response \<times> db" where
  "submit_contact_form fault1 fault2 oid now1 now2 contact store =
     (let contact_data = (ContactFormCreate_dict contact)
            (''createdAt'' \<mapsto> BDate now1, ''updatedAt'' \<mapsto> BDate now2, ''status'' \<mapsto> BStr ''new'');
          (result, contacts') = insert_one fault1 oid contact_data (contacts_collection store);
          store' = store\<lparr>contacts_collection := contacts'\<rparr>
      in case result of
           Inl e \<Rightarrow>
             (server_error ''Error submitting contact form: '' ''Failed to submit contact form'' e,
              store')
         | Inr inserted_id \<Rightarrow>
             (case find_one fault2 ''_id'' inserted_id contacts' of
                Inl e \<Rightarrow>
                  (server_error ''Error submitting contact form: ''
                     ''Failed to submit contact form'' e, store')
              | Inr None \<Rightarrow>
                  (server_error ''Error submitting contact form: ''
                     ''Failed to submit contact form'' TypeError, store')
              | Inr (Some created_contact) \<Rightarrow>
                  (case ContactForm_of (convert_objectid created_contact) of
                     Inl e \<Rightarrow>
                       (server_error ''Error submitting contact form: ''
                          ''Failed to submit contact form'' e, store')
                   | Inr c \<Rightarrow> ((Inr c, []), store'))))"

text \<open>
  The request as the framework hands it to the handler: the JSON body is validated
  against \<^verbatim>\<open>ContactFormCreate\<close> first, and a body that fails never reaches the handler
  (the framework answers 422, nothing is logged by this program; the body of that
  answer is the framework's and is left empty here).
\<close>

definition post_contact ::
  "exn option \<Rightarrow> exn option \<Rightarrow> 96 word \<Rightarrow> int \<Rightarrow> int \<Rightarrow> document \<Rightarrow> db
     \<Rightarrow> ContactForm response \<times> db" where
  "post_contact fault1 fault2 oid now1 now2 body store =
     (case ContactFormCreate_of body of
        Inl e \<Rightarrow> ((Inl (HTTPException 422 []), []), store)
      | Inr contact \<Rightarrow> submit_contact_form fault1 fault2 oid now1 now2 contact store)"

text \<open>
  \<^verbatim>\<open>track_analytics\<close>: the payload is any dict; the response is a dict too. Both
  branches return a body, no branch raises.
\<close>

definition track_analytics ::
  "exn option \<Rightarrow> 96 word \<Rightarrow> int \<Rightarrow> document \<Rightarrow> db \<Rightarrow> document response \<times> db" where
  "track_analytics fault oid now analytics_data store =
     (let data = analytics_data(''createdAt'' \<mapsto> BDate now);
          (result, analytics') = insert_one fault oid data (analytics store);
          store' = store\<lparr>analytics := analytics'\<rparr>
      in case result of
           Inl e \<Rightarrow>
             ((Inr [''status'' \<mapsto> BStr ''error''], [LogError ''Error tracking analytics: '' e]),
              store')
         | Inr inserted_id \<Rightarrow> ((Inr [''status'' \<mapsto> BStr ''success''], []), store'))"

text \<open>\<^verbatim>\<open>timedelta(days=n)\<close> in microseconds.\<close>

definition timedelta_days :: "int \<Rightarrow> int" where
  "timedelta_days n = n * 86400000000"

text \<open>
  \<^verbatim>\<open>get_analytics_summary\<close>: \<open>fault1\<close> and \<open>fault2\<close> are the faults of the two
  counts, \<open>now1\<close> is the clock reading inside the second filter (written into the
  query in whole milliseconds) and \<open>now2\<close> the one written into the response.
\<close>

definition get_analytics_summary ::
  "exn option \<Rightarrow> exn option \<Rightarrow> int \<Rightarrow> int \<Rightarrow> db \<Rightarrow> document response" where
  "get_analytics_summary fault1 fault2 now1 now2 store =
     (case count_documents fault1 (\<lambda>d. True) (analytics store) of
        Inl e \<Rightarrow>
          (Inr [''total_visits'' \<mapsto> BInt 0, ''recent_visits'' \<mapsto> BInt 0],
           [LogError ''Error fetching analytics: '' e])
      | Inr total_visits \<Rightarrow>
          (case count_documents fault2
                  (gte_match ''timestamp'' (millis (now1 - timedelta_days 7))) (analytics store) of
             Inl e \<Rightarrow>
               (Inr [''total_visits'' \<mapsto> BInt 0, ''recent_visits'' \<mapsto> BInt 0],
                [LogError ''Error fetching analytics: '' e])
           | Inr recent_visits \<Rightarrow>
               (Inr [''total_visits'' \<mapsto> BInt (int total_visits),
                     ''recent_visits'' \<mapsto> BInt (int recent_visits),
                     ''timestamp'' \<mapsto> BDate now2], [])))"

text \<open>
  The condition \<^verbatim>\<open>{"isActive": True}\<close> of the listing and profile queries, as a
  predicate on documents.
\<close>

definition is_active :: "document \<Rightarrow> bool" where
  "is_active d = eq_match ''isActive'' (BBool True) d"

section \<open>Concrete documents\<close>

text \<open>Stored documents and request bodies on which the theorems below are run.\<close>

definition demo_experience :: "96 word \<Rightarrow> int \<Rightarrow> bool \<Rightarrow> document" where
  "demo_experience oid ord act =
     [''_id'' \<mapsto> BObjectId oid, ''position'' \<mapsto> BStr ''Engineer'', ''company'' \<mapsto> BStr ''Acme'',
      ''location'' \<mapsto> BStr ''Pune'', ''period'' \<mapsto> BStr ''2020'', ''description'' \<mapsto> BStr ''Work'',
      ''achievements'' \<mapsto> BArray [BStr ''Shipped''], ''order'' \<mapsto> BInt ord,
      ''isActive'' \<mapsto> BBool act]"

definition demo_accomplishment :: "96 word \<Rightarrow> int \<Rightarrow> bool \<Rightarrow> document" where
  "demo_accomplishment oid ord act =
     [''_id'' \<mapsto> BObjectId oid, ''title'' \<mapsto> BStr ''Migration'', ''description'' \<mapsto> BStr ''Moved'',
      ''impact'' \<mapsto> BStr ''Faster'', ''technologies'' \<mapsto> BArray [BStr ''Python''],
      ''order'' \<mapsto> BInt ord, ''isActive'' \<mapsto> BBool act]"

definition demo_testimonial :: "96 word \<Rightarrow> int \<Rightarrow> bool \<Rightarrow> document" where
  "demo_testimonial oid ord act =
     [''_id'' \<mapsto> BObjectId oid, ''name'' \<mapsto> BStr ''Ann'', ''title'' \<mapsto> BStr ''Lead'',
      ''testimonial'' \<mapsto> BStr ''Great'', ''order'' \<mapsto> BInt ord, ''isActive'' \<mapsto> BBool act]"

definition demo_profile :: "96 word \<Rightarrow> bool \<Rightarrow> document" where
  "demo_profile oid act =
     [''_id'' \<mapsto> BObjectId oid, ''name'' \<mapsto> BStr ''Dayal'', ''title'' \<mapsto> BStr ''Engineer'',
      ''description'' \<mapsto> BStr ''About'', ''location'' \<mapsto> BStr ''Pune'',
      ''email'' \<mapsto> BStr ''d@x.com'', ''phone'' \<mapsto> BStr ''123'', ''isActive'' \<mapsto> BBool act]"

definition demo_db :: db where
  "demo_db =
     \<lparr>experiences_collection =
        [demo_experience 1 2 True, demo_experience 2 1 False, demo_experience 3 1 True],
      accomplishments_collection = [demo_accomplishment 4 0 True],
      contacts_collection = [],
      profile_collection = [demo_profile 5 True],
      testimonials_collection = [demo_testimonial 6 0 False, demo_testimonial 7 3 True],
      analytics = []\<rparr>"

definition demo_contact :: "96 word \<Rightarrow> document" where
  "demo_contact oid =
     [''_id'' \<mapsto> BObjectId oid, ''name'' \<mapsto> BStr ''A'', ''email'' \<mapsto> BStr ''a@x.com'',
      ''subject'' \<mapsto> BStr [], ''message'' \<mapsto> BStr ''hi'', ''status'' \<mapsto> BStr ''new'',
      ''createdAt'' \<mapsto> BDate 1000, ''updatedAt'' \<mapsto> BDate 1002]"

text \<open>The contact request of the specification: name, email and message, no subject.\<close>

definition demo_contact_body :: document where
  "demo_contact_body = [''name'' \<mapsto> BStr ''A'', ''email'' \<mapsto> BStr ''a@x.com'', ''message'' \<mapsto> BStr ''hi'']"

definition demo_payload :: document where
  "demo_payload = [''page'' \<mapsto> BStr ''/home'']"

section \<open>Failures of the store\<close>

lemma listing_fault:
  "listing model log_prefix detail (Some e) coll =
     (Inl (HTTPException 500 detail), [LogError log_prefix e])"
  by (simp add: listing_def find_sorted_def server_error_def)

lemma insert_one_no_id:
  "doc ''_id'' = None \<Longrightarrow>
   insert_one None oid doc coll =
     (if list_ex (\<lambda>d. d ''_id'' = Some (BObjectId oid)) coll then (Inl DuplicateKeyError, coll)
      else (Inr (BObjectId oid), coll @ [encode (doc(''_id'' \<mapsto> BObjectId oid))]))"
  by (simp add: insert_one_def Let_def)

lemma contact_data_no_id:
  "((ContactFormCreate_dict contact)
      (''createdAt'' \<mapsto> a, ''updatedAt'' \<mapsto> b, ''status'' \<mapsto> c)) ''_id'' = None"
  by (simp add: ContactFormCreate_dict_def)

text \<open>
  C7. When the store fails during a listing or a contact operation, the handler answers
  with status 500 and a fixed detail, the same for every exception, and logs the
  exception. For the listing handlers the one store operation fails with \<open>e\<close>. For the
  contact handler either the insert fails with \<open>e\<close>, or the insert goes through and the
  read that follows fails with \<open>e\<close> (if the generated identifier is already in use, the
  store rejects the insert itself and that exception is the one handled).
\<close>

theorem store_failure_generic_500:
  "get_experiences (Some e) store =
     (Inl (HTTPException 500 ''Failed to fetch experiences''),
      [LogError ''Error fetching experiences: '' e])
   \<and> get_accomplishments (Some e) store =
     (Inl (HTTPException 500 ''Failed to fetch accomplishments''),
      [LogError ''Error fetching accomplishments: '' e])
   \<and> get_testimonials (Some e) store =
     (Inl (HTTPException 500 ''Failed to fetch testimonials''),
      [LogError ''Error fetching testimonials: '' e])
   \<and> fst (submit_contact_form (Some e) fault2 oid now1 now2 contact store) =
     (Inl (HTTPException 500 ''Failed to submit contact form''),
      [LogError ''Error submitting contact form: '' e])
   \<and> fst (submit_contact_form None (Some e) oid now1 now2 contact store) =
     (Inl (HTTPException 500 ''Failed to submit contact form''),
      [LogError ''Error submitting contact form: ''
         (if list_ex (\<lambda>d. d ''_id'' = Some (BObjectId oid)) (contacts_collection store)
          then DuplicateKeyError else e)])"
proof -
  have "fst (submit_contact_form (Some e) fault2 oid now1 now2 contact store) =
     (Inl (HTTPException 500 ''Failed to submit contact form''),
      [LogError ''Error submitting contact form: '' e])"
    by (simp add: submit_contact_form_def insert_one_def server_error_def Let_def)
  moreover have "fst (submit_contact_form None (Some e) oid now1 now2 contact store) =
     (Inl (HTTPException 500 ''Failed to submit contact form''),
      [LogError ''Error submitting contact form: ''
         (if list_ex (\<lambda>d. d ''_id'' = Some (BObjectId oid)) (contacts_collection store)
          then DuplicateKeyError else e)])"
    by (simp add: submit_contact_form_def insert_one_no_id contact_data_no_id
        find_one_def server_error_def Let_def del: fun_upd_apply)
  ultimately show ?thesis
    by (simp add: get_experiences_def get_accomplishments_def get_testimonials_def listing_fault)
qed

section \<open>The analytics endpoints\<close>

lemma insert_one_Inr:
  assumes "insert_one fault oid doc coll = (Inr i, coll')"
  shows "fault = None \<and> coll' = coll @ [encode (doc(''_id'' \<mapsto> i))] \<and>
         i = (case doc ''_id'' of None \<Rightarrow> BObjectId oid | Some v \<Rightarrow> v) \<and>
         \<not> list_ex (\<lambda>d. d ''_id'' = Some (bson_millis i)) coll"
  using assms
  by (auto simp: insert_one_def Let_def split: option.splits bson.splits if_splits)


lemma summary_ok:
  "get_analytics_summary None None now1 now2 store =
     (Inr [''total_visits'' \<mapsto> BInt (int (length (analytics store))),
           ''recent_visits'' \<mapsto> BInt (int (length
              (filter (gte_match ''timestamp'' (millis (now1 - timedelta_days 7))) (analytics store)))),
           ''timestamp'' \<mapsto> BDate now2], [])"
  by (simp add: get_analytics_summary_def count_documents_def)

lemma encode_apply [simp]: "encode d k = map_option bson_millis (d k)"
  by (simp add: encode_def)

lemma millis_le: "millis t \<le> t"
  by (simp add: millis_def)

lemma millis_eq: "millis t = 1000 * (t div 1000)"
  by (simp add: millis_def minus_mod_eq_mult_div)

lemma millis_mono: "a \<le> b \<Longrightarrow> millis a \<le> millis b"
  by (simp add: millis_eq zdiv_mono1)

lemma millis_days: "millis (t - timedelta_days n) = millis t - timedelta_days n"
proof -
  have "t - n * 86400000000 = t + (- n * 86400000) * 1000" by simp
  then have "(t - n * 86400000000) mod 1000 = t mod 1000"
    by (metis mod_mult_self1)
  then show ?thesis by (simp add: millis_def timedelta_days_def)
qed

lemma gte_match_stored:
  "gte_match ''timestamp'' b (encode (d(''_id'' \<mapsto> i))) =
     (case d ''timestamp'' of
        None \<Rightarrow> False
      | Some (BArray xs) \<Rightarrow> list_ex (date_gte b) (map bson_millis xs)
      | Some w \<Rightarrow> date_gte b (bson_millis w))"
  by (simp add: gte_match_def date_gte_def split: option.splits bson.splits)

lemma gte_match_now:
  assumes "d ''timestamp'' = Some (BDate now1)"
  shows "gte_match ''timestamp'' (millis (now1 - timedelta_days 7)) (encode (d(''_id'' \<mapsto> i)))"
proof -
  have "now1 - timedelta_days 7 \<le> now1" by (simp add: timedelta_days_def)
  then have "millis (now1 - timedelta_days 7) \<le> millis now1" by (rule millis_mono)
  then show ?thesis using assms by (simp add: gte_match_stored date_gte_def)
qed

lemma gte_match_ten_days:
  assumes "d ''timestamp'' = Some (BDate (now1 - timedelta_days 10))"
  shows "\<not> gte_match ''timestamp'' (millis (now1 - timedelta_days 7)) (encode (d(''_id'' \<mapsto> i)))"
proof -
  have "\<not> millis now1 - timedelta_days 7 \<le> millis now1 - timedelta_days 10"
    by (simp add: timedelta_days_def)
  then have "\<not> millis (now1 - timedelta_days 7) \<le> millis (now1 - timedelta_days 10)"
    unfolding millis_days .
  then show ?thesis using assms by (simp add: gte_match_stored date_gte_def)
qed

lemma gte_match_absent:
  assumes "d ''timestamp'' = None"
  shows "\<not> gte_match ''timestamp'' b (encode (d(''_id'' \<mapsto> i)))"
  using assms by (simp add: gte_match_stored)

text \<open>
  C10. When a count of the summary endpoint fails (the first, or the second after the
  first went through), the body is exactly the two zero counters: its keys are
  \<^verbatim>\<open>total_visits\<close> and \<^verbatim>\<open>recent_visits\<close>, and it has no \<^verbatim>\<open>timestamp\<close>. Every
  successful summary has the key \<^verbatim>\<open>timestamp\<close>, and the successful summary of an
  empty collection is the failure body with that key added. Both are ordinary bodies
  (\<open>Inr\<close>), so the key is the only difference a caller sees.
\<close>

theorem summary_failure_body:
  "get_analytics_summary (Some e) fault2 now1 now2 store =
     (Inr [''total_visits'' \<mapsto> BInt 0, ''recent_visits'' \<mapsto> BInt 0],
      [LogError ''Error fetching analytics: '' e])
   \<and> get_analytics_summary None (Some e) now1 now2 store =
     (Inr [''total_visits'' \<mapsto> BInt 0, ''recent_visits'' \<mapsto> BInt 0],
      [LogError ''Error fetching analytics: '' e])
   \<and> dom [''total_visits'' \<mapsto> BInt 0, ''recent_visits'' \<mapsto> BInt 0] = {''total_visits'', ''recent_visits''}
   \<and> [''total_visits'' \<mapsto> BInt 0, ''recent_visits'' \<mapsto> BInt 0] ''timestamp'' = None
   \<and> (\<exists>body. get_analytics_summary None None now1 now2 store = (Inr body, [])
          \<and> body ''timestamp'' = Some (BDate now2))
   \<and> get_analytics_summary None None now1 now2 (store\<lparr>analytics := []\<rparr>) =
     (Inr ([''total_visits'' \<mapsto> BInt 0, ''recent_visits'' \<mapsto> BInt 0](''timestamp'' \<mapsto> BDate now2)), [])"
  by (auto simp: get_analytics_summary_def count_documents_def)

lemma summary_after_insert:
  assumes "insert_one None oid d (analytics store) = (Inr i, coll')"
  shows "get_analytics_summary None None now1 now2 (store\<lparr>analytics := coll'\<rparr>) =
     (Inr [''total_visits'' \<mapsto> BInt (int (length (analytics store)) + 1),
           ''recent_visits'' \<mapsto> BInt (int (length
              (filter (gte_match ''timestamp'' (millis (now1 - timedelta_days 7))) (analytics store)))
              + (if gte_match ''timestamp'' (millis (now1 - timedelta_days 7))
                      (encode (d(''_id'' \<mapsto> i))) then 1 else 0)),
           ''timestamp'' \<mapsto> BDate now2], [])"
proof -
  from assms have c: "coll' = analytics store @ [encode (d(''_id'' \<mapsto> i))]"
    by (simp add: insert_one_Inr)
  show ?thesis
    unfolding c by (simp add: summary_ok add.commute del: fun_upd_apply encode_apply)
qed

text \<open>
  C5. With no analytics document the summary has \<^verbatim>\<open>total_visits\<close> 0 and
  \<^verbatim>\<open>recent_visits\<close> 0 (beside its \<^verbatim>\<open>timestamp\<close>). Inserting one document whose
  \<^verbatim>\<open>timestamp\<close> is the current time \<open>now1\<close> raises both counters by one; inserting
  one whose \<^verbatim>\<open>timestamp\<close> is ten days before \<open>now1\<close> raises \<^verbatim>\<open>total_visits\<close>
  only. The two insertions are separate cases.
\<close>

theorem summary_counts:
  "get_analytics_summary None None now1 now2 (store\<lparr>analytics := []\<rparr>) =
     (Inr [''total_visits'' \<mapsto> BInt 0, ''recent_visits'' \<mapsto> BInt 0,
           ''timestamp'' \<mapsto> BDate now2], [])
   \<and> (insert_one None oid d (analytics store) = (Inr i, coll')
        \<and> d ''timestamp'' = Some (BDate now1) \<longrightarrow>
      (\<exists>n m. get_analytics_summary None None now1 now2 store =
           (Inr [''total_visits'' \<mapsto> BInt n, ''recent_visits'' \<mapsto> BInt m,
                 ''timestamp'' \<mapsto> BDate now2], [])
         \<and> get_analytics_summary None None now1 now2 (store\<lparr>analytics := coll'\<rparr>) =
           (Inr [''total_visits'' \<mapsto> BInt (n + 1), ''recent_visits'' \<mapsto> BInt (m + 1),
                 ''timestamp'' \<mapsto> BDate now2], [])))
   \<and> (insert_one None oid2 d2 (analytics store2) = (Inr i2, coll2)
        \<and> d2 ''timestamp'' = Some (BDate (now1 - timedelta_days 10)) \<longrightarrow>
      (\<exists>n m. get_analytics_summary None None now1 now2 store2 =
           (Inr [''total_visits'' \<mapsto> BInt n, ''recent_visits'' \<mapsto> BInt m,
                 ''timestamp'' \<mapsto> BDate now2], [])
         \<and> get_analytics_summary None None now1 now2 (store2\<lparr>analytics := coll2\<rparr>) =
           (Inr [''total_visits'' \<mapsto> BInt (n + 1), ''recent_visits'' \<mapsto> BInt m,
                 ''timestamp'' \<mapsto> BDate now2], [])))"
proof (intro conjI impI)
  show "get_analytics_summary None None now1 now2 (store\<lparr>analytics := []\<rparr>) =
     (Inr [''total_visits'' \<mapsto> BInt 0, ''recent_visits'' \<mapsto> BInt 0,
           ''timestamp'' \<mapsto> BDate now2], [])"
    by (simp add: summary_ok)
next
  assume h: "insert_one None oid d (analytics store) = (Inr i, coll')
        \<and> d ''timestamp'' = Some (BDate now1)"
  then have g: "gte_match ''timestamp'' (millis (now1 - timedelta_days 7)) (encode (d(''_id'' \<mapsto> i)))"
    by (simp add: gte_match_now del: encode_apply fun_upd_apply)
  from h have ins: "insert_one None oid d (analytics store) = (Inr i, coll')" by simp
  show "\<exists>n m. get_analytics_summary None None now1 now2 store =
           (Inr [''total_visits'' \<mapsto> BInt n, ''recent_visits'' \<mapsto> BInt m,
                 ''timestamp'' \<mapsto> BDate now2], [])
         \<and> get_analytics_summary None None now1 now2 (store\<lparr>analytics := coll'\<rparr>) =
           (Inr [''total_visits'' \<mapsto> BInt (n + 1), ''recent_visits'' \<mapsto> BInt (m + 1),
                 ''timestamp'' \<mapsto> BDate now2], [])"
    using summary_ok [of now1 now2 store] summary_after_insert [OF ins, of now1 now2] g
    by (intro exI [of _ "int (length (analytics store))"]
          exI [of _ "int (length (filter (gte_match ''timestamp'' (millis (now1 - timedelta_days 7)))
                 (analytics store)))"]) (simp del: encode_apply fun_upd_apply)
next
  assume h: "insert_one None oid2 d2 (analytics store2) = (Inr i2, coll2)
        \<and> d2 ''timestamp'' = Some (BDate (now1 - timedelta_days 10))"
  then have g: "\<not> gte_match ''timestamp'' (millis (now1 - timedelta_days 7))
                    (encode (d2(''_id'' \<mapsto> i2)))"
    by (simp add: gte_match_ten_days del: encode_apply fun_upd_apply)
  from h have ins: "insert_one None oid2 d2 (analytics store2) = (Inr i2, coll2)" by simp
  show "\<exists>n m. get_analytics_summary None None now1 now2 store2 =
           (Inr [''total_visits'' \<mapsto> BInt n, ''recent_visits'' \<mapsto> BInt m,
                 ''timestamp'' \<mapsto> BDate now2], [])
         \<and> get_analytics_summary None None now1 now2 (store2\<lparr>analytics := coll2\<rparr>) =
           (Inr [''total_visits'' \<mapsto> BInt (n + 1), ''recent_visits'' \<mapsto> BInt m,
                 ''timestamp'' \<mapsto> BDate now2], [])"
    using summary_ok [of now1 now2 store2] summary_after_insert [OF ins, of now1 now2] g
    by (intro exI [of _ "int (length (analytics store2))"]
          exI [of _ "int (length (filter (gte_match ''timestamp'' (millis (now1 - timedelta_days 7)))
                 (analytics store2)))"]) (simp del: encode_apply fun_upd_apply)
qed

text \<open>
  The theorem at the empty analytics collection of \<open>demo_db\<close>, at the time 1000.
\<close>

theorem summary_counts_witness:
  "insert_one None 8 (demo_payload(''timestamp'' \<mapsto> BDate 1000)) (analytics demo_db) =
     (Inr (BObjectId 8),
      [encode (demo_payload(''timestamp'' \<mapsto> BDate 1000, ''_id'' \<mapsto> BObjectId 8))])
   \<and> (demo_payload(''timestamp'' \<mapsto> BDate 1000)) ''timestamp'' = Some (BDate 1000)
   \<and> insert_one None 9 (demo_payload(''timestamp'' \<mapsto> BDate (1000 - timedelta_days 10)))
       (analytics demo_db) =
     (Inr (BObjectId 9),
      [encode (demo_payload(''timestamp'' \<mapsto> BDate (1000 - timedelta_days 10),
         ''_id'' \<mapsto> BObjectId 9))])
   \<and> (demo_payload(''timestamp'' \<mapsto> BDate (1000 - timedelta_days 10))) ''timestamp'' =
       Some (BDate (1000 - timedelta_days 10))
   \<and> (\<exists>n m. get_analytics_summary None None 1000 1001 demo_db =
           (Inr [''total_visits'' \<mapsto> BInt n, ''recent_visits'' \<mapsto> BInt m,
                 ''timestamp'' \<mapsto> BDate 1001], [])
         \<and> get_analytics_summary None None 1000 1001 (demo_db\<lparr>analytics :=
              [encode (demo_payload(''timestamp'' \<mapsto> BDate 1000, ''_id'' \<mapsto> BObjectId 8))]\<rparr>) =
           (Inr [''total_visits'' \<mapsto> BInt (n + 1), ''recent_visits'' \<mapsto> BInt (m + 1),
                 ''timestamp'' \<mapsto> BDate 1001], []))
   \<and> (\<exists>n m. get_analytics_summary None None 1000 1001 demo_db =
           (Inr [''total_visits'' \<mapsto> BInt n, ''recent_visits'' \<mapsto> BInt m,
                 ''timestamp'' \<mapsto> BDate 1001], [])
         \<and> get_analytics_summary None None 1000 1001 (demo_db\<lparr>analytics :=
              [encode (demo_payload(''timestamp'' \<mapsto> BDate (1000 - timedelta_days 10),
                 ''_id'' \<mapsto> BObjectId 9))]\<rparr>) =
           (Inr [''total_visits'' \<mapsto> BInt (n + 1), ''recent_visits'' \<mapsto> BInt m,
                 ''timestamp'' \<mapsto> BDate 1001], []))"
proof -
  define d1 where "d1 = demo_payload(''timestamp'' \<mapsto> BDate 1000)"
  define d2 where "d2 = demo_payload(''timestamp'' \<mapsto> BDate (1000 - timedelta_days 10))"
  have a: "analytics demo_db = []" by (simp add: demo_db_def)
  have n1: "d1 ''_id'' = None" by (simp add: d1_def demo_payload_def)
  have n2: "d2 ''_id'' = None" by (simp add: d2_def demo_payload_def)
  have h1: "insert_one None 8 d1 (analytics demo_db) =
     (Inr (BObjectId 8), [encode (d1(''_id'' \<mapsto> BObjectId 8))])"
    by (simp add: insert_one_no_id [of d1, OF n1] a del: encode_apply fun_upd_apply)
  have h2: "d1 ''timestamp'' = Some (BDate 1000)"
    by (simp add: d1_def)
  have h3: "insert_one None 9 d2 (analytics demo_db) =
     (Inr (BObjectId 9), [encode (d2(''_id'' \<mapsto> BObjectId 9))])"
    by (simp add: insert_one_no_id [of d2, OF n2] a del: encode_apply fun_upd_apply)
  have h4: "d2 ''timestamp'' = Some (BDate (1000 - timedelta_days 10))"
    by (simp add: d2_def)
  note t = summary_counts [where ?now1.0 = 1000 and ?now2.0 = 1001 and store = demo_db
      and ?store2.0 = demo_db and oid = 8 and d = d1 and i = "BObjectId 8"
      and coll' = "[encode (d1(''_id'' \<mapsto> BObjectId 8))]"
      and ?oid2.0 = 9 and ?d2.0 = d2 and ?i2.0 = "BObjectId 9"
      and ?coll2.0 = "[encode (d2(''_id'' \<mapsto> BObjectId 9))]"]
  note c1 = t [THEN conjunct2, THEN conjunct1, THEN mp, OF conjI [OF h1 h2]]
  note c2 = t [THEN conjunct2, THEN conjunct2, THEN mp, OF conjI [OF h3 h4]]
  show ?thesis
    unfolding d1_def [symmetric] d2_def [symmetric]
    by (rule conjI [OF h1 conjI [OF h2 conjI [OF h3 conjI [OF h4 conjI [OF c1 c2]]]]])
qed

lemma track_analytics_Inr:
  assumes "fst (insert_one fault oid (payload(''createdAt'' \<mapsto> BDate now)) (analytics store)) = Inr i"
  shows "track_analytics fault oid now payload store =
           ((Inr [''status'' \<mapsto> BStr ''success''], []),
            store\<lparr>analytics := analytics store @
              [encode (payload(''createdAt'' \<mapsto> BDate now, ''_id'' \<mapsto> i))]\<rparr>)"
proof -
  obtain r c where rc: "insert_one fault oid (payload(''createdAt'' \<mapsto> BDate now)) (analytics store) = (r, c)"
    by (cases "insert_one fault oid (payload(''createdAt'' \<mapsto> BDate now)) (analytics store)")
  with assms have r: "r = Inr i" by simp
  from insert_one_Inr [OF rc [unfolded r]]
  have "c = analytics store @ [encode (payload(''createdAt'' \<mapsto> BDate now, ''_id'' \<mapsto> i))]"
    by blast
  with rc r show ?thesis by (simp add: track_analytics_def del: encode_apply fun_upd_apply)
qed





text \<open>
  C9. A payload without the key \<^verbatim>\<open>timestamp\<close>, once inserted by the track endpoint,
  is stored with \<^verbatim>\<open>createdAt\<close> (the clock reading, in the whole milliseconds that the
  store keeps) and without \<^verbatim>\<open>timestamp\<close>. Whatever the clock reading \<open>now1\<close> of a
  later summary, the document raises \<^verbatim>\<open>total_visits\<close> by one and leaves
  \<^verbatim>\<open>recent_visits\<close> as it was.
\<close>

theorem untimestamped_payload_never_recent:
  assumes "payload ''timestamp'' = None"
    and "fst (insert_one fault oid (payload(''createdAt'' \<mapsto> BDate now)) (analytics store)) = Inr i"
  shows "\<exists>doc. analytics (snd (track_analytics fault oid now payload store)) = analytics store @ [doc]
           \<and> doc ''createdAt'' = Some (BDate (millis now))
           \<and> doc ''timestamp'' = None
           \<and> (\<exists>n m. get_analytics_summary None None now1 now2 store =
                       (Inr [''total_visits'' \<mapsto> BInt n, ''recent_visits'' \<mapsto> BInt m,
                             ''timestamp'' \<mapsto> BDate now2], [])
                  \<and> get_analytics_summary None None now1 now2
                       (snd (track_analytics fault oid now payload store)) =
                       (Inr [''total_visits'' \<mapsto> BInt (n + 1), ''recent_visits'' \<mapsto> BInt m,
                             ''timestamp'' \<mapsto> BDate now2], []))"
proof -
  define data where "data = payload(''createdAt'' \<mapsto> BDate now)"
  define doc where "doc = encode (data(''_id'' \<mapsto> i))"
  let ?n = "int (length (analytics store))"
  let ?m = "int (length (filter (gte_match ''timestamp'' (millis (now1 - timedelta_days 7)))
                (analytics store)))"
  have t: "snd (track_analytics fault oid now payload store) =
             store\<lparr>analytics := analytics store @ [doc]\<rparr>"
    unfolding doc_def data_def by (simp add: track_analytics_Inr [OF assms(2)] del: encode_apply fun_upd_apply)
  have c: "doc ''createdAt'' = Some (BDate (millis now))" by (simp add: doc_def data_def)
  have dts: "data ''timestamp'' = None" using assms(1) by (simp add: data_def)
  then have ts: "doc ''timestamp'' = None" by (simp add: doc_def)
  have g: "\<not> gte_match ''timestamp'' (millis (now1 - timedelta_days 7)) doc"
    unfolding doc_def using dts by (rule gte_match_absent)
  have s2: "get_analytics_summary None None now1 now2
              (snd (track_analytics fault oid now payload store)) =
            (Inr [''total_visits'' \<mapsto> BInt (?n + 1), ''recent_visits'' \<mapsto> BInt ?m,
                  ''timestamp'' \<mapsto> BDate now2], [])"
    unfolding t using g by (simp add: summary_ok add.commute)
  have a: "analytics (snd (track_analytics fault oid now payload store)) = analytics store @ [doc]"
    unfolding t by simp
  show ?thesis
    apply (rule exI [of _ doc])
    apply (intro conjI)
       apply (rule a)
      apply (rule c)
     apply (rule ts)
    apply (rule exI [of _ ?n])
    apply (rule exI [of _ ?m])
    apply (rule conjI)
     apply (rule summary_ok)
    apply (rule s2)
    done
qed

text \<open>
  The theorem at \<open>demo_payload\<close>, with the summary taken at the very time of the
  insertion.
\<close>

theorem untimestamped_payload_never_recent_witness:
  "demo_payload ''timestamp'' = None
   \<and> fst (insert_one None 8 (demo_payload(''createdAt'' \<mapsto> BDate 1000)) (analytics demo_db)) =
       Inr (BObjectId 8)
   \<and> (\<exists>doc. analytics (snd (track_analytics None 8 1000 demo_payload demo_db)) = analytics demo_db @ [doc]
           \<and> doc ''createdAt'' = Some (BDate (millis 1000))
           \<and> doc ''timestamp'' = None
           \<and> (\<exists>n m. get_analytics_summary None None 1000 1000 demo_db =
                       (Inr [''total_visits'' \<mapsto> BInt n, ''recent_visits'' \<mapsto> BInt m,
                             ''timestamp'' \<mapsto> BDate 1000], [])
                  \<and> get_analytics_summary None None 1000 1000
                       (snd (track_analytics None 8 1000 demo_payload demo_db)) =
                       (Inr [''total_visits'' \<mapsto> BInt (n + 1), ''recent_visits'' \<mapsto> BInt m,
                             ''timestamp'' \<mapsto> BDate 1000], [])))"
proof -
  have a: "analytics demo_db = []" by (simp add: demo_db_def)
  have n: "demo_payload ''_id'' = None" by (simp add: demo_payload_def)
  have h1: "demo_payload ''timestamp'' = None" by (simp add: demo_payload_def)
  have h2: "fst (insert_one None 8 (demo_payload(''createdAt'' \<mapsto> BDate 1000)) (analytics demo_db)) =
     Inr (BObjectId 8)"
    by (simp add: insert_one_def Let_def a n)
  note c = untimestamped_payload_never_recent [OF h1 h2, of 1000 1000]
  show ?thesis
    by (rule conjI [OF h1 conjI [OF h2 c]])
qed

section \<open>The contact endpoint\<close>

lemma find_append_last:
  "\<not> list_ex P xs \<Longrightarrow> P x \<Longrightarrow> List.find P (xs @ [x]) = Some x"
  by (induction xs) auto

lemma eq_match_unused:
  "\<not> list_ex (eq_match ''_id'' (BObjectId oid)) coll \<Longrightarrow>
   \<not> list_ex (\<lambda>d. d ''_id'' = Some (BObjectId oid)) coll"
  by (induction coll) (auto simp: eq_match_def)

lemma length_str_objectid: "length (str_objectid w) = 24"
  by (simp add: str_objectid_def)

lemma hex_digit_inj:
  assumes "hex_digit m = hex_digit n"
  shows "m mod 16 = n mod 16"
proof -
  have d: "distinct ''0123456789abcdef''" by simp
  have l: "length ''0123456789abcdef'' = 16" by simp
  have "m mod 16 < length ''0123456789abcdef''" "n mod 16 < length ''0123456789abcdef''"
    unfolding l by simp_all
  with d assms show ?thesis
    unfolding hex_digit_def by (simp only: nth_eq_iff_index_eq)
qed

lemma str_objectid_nibbles:
  assumes "str_objectid a = str_objectid b" and "i < 24"
  shows "take_bit 4 (drop_bit (4 * i) a) = take_bit 4 (drop_bit (4 * i) b)"
proof -
  from assms(1) have "\<forall>i\<in>set (rev [0..<24]).
      hex_digit (unat (drop_bit (4 * i) a)) = hex_digit (unat (drop_bit (4 * i) b))"
    unfolding str_objectid_def by (simp only: map_eq_conv)
  with assms(2) have "hex_digit (unat (drop_bit (4 * i) a)) = hex_digit (unat (drop_bit (4 * i) b))"
    by simp
  then have "unat (drop_bit (4 * i) a) mod 16 = unat (drop_bit (4 * i) b) mod 16"
    by (rule hex_digit_inj)
  then have "unat (take_bit 4 (drop_bit (4 * i) a)) = unat (take_bit 4 (drop_bit (4 * i) b))"
    by (simp only: unsigned_take_bit_eq) (simp add: take_bit_eq_mod)
  then show ?thesis by (simp only: unsigned_word_eqI)
qed

lemma str_objectid_inj:
  assumes "str_objectid a = str_objectid b"
  shows "a = b"
proof (rule bit_word_eqI)
  fix n
  assume "n < LENGTH(96)"
  then have i: "n div 4 < 24" by simp
  have n: "n = 4 * (n div 4) + n mod 4" by simp
  have "bit a n = bit (take_bit 4 (drop_bit (4 * (n div 4)) a)) (n mod 4)"
    by (simp add: bit_take_bit_iff bit_drop_bit_eq)
  also have "\<dots> = bit (take_bit 4 (drop_bit (4 * (n div 4)) b)) (n mod 4)"
    by (simp only: str_objectid_nibbles [OF assms i])
  also have "\<dots> = bit b n"
    by (simp add: bit_take_bit_iff bit_drop_bit_eq)
  finally show "bit a n = bit b n" .
qed

lemma millis_close: "\<bar>millis b - millis a\<bar> \<le> \<bar>b - a\<bar> + 999"
proof -
  have "0 \<le> a mod 1000" "a mod 1000 < 1000" "0 \<le> b mod 1000" "b mod 1000 < 1000"
    by simp_all
  then show ?thesis unfolding millis_def by linarith
qed

lemma millis_same: "a div 1000 = b div 1000 \<Longrightarrow> millis a = millis b"
  by (simp add: millis_eq)

lemma ContactFormCreate_of_no_subject:
  assumes "body ''name'' = Some (BStr n)" and "body ''email'' = Some (BStr e)"
    and "body ''message'' = Some (BStr m)" and "body ''subject'' = None"
  shows "ContactFormCreate_of body =
           Inr \<lparr>cfc_name = n, cfc_email = e, cfc_subject = Some [], cfc_message = m\<rparr>"
  using assms by (simp add: ContactFormCreate_of_def req_str_def opt_str_or_none_def)

lemma ContactForm_of_created:
  "ContactForm_of (convert_objectid (encode
      ((ContactFormCreate_dict \<lparr>cfc_name = n, cfc_email = e, cfc_subject = Some s, cfc_message = m\<rparr>)
         (''createdAt'' \<mapsto> BDate now1, ''updatedAt'' \<mapsto> BDate now2, ''status'' \<mapsto> BStr ''new'',
          ''_id'' \<mapsto> BObjectId oid)))) =
   Inr \<lparr>cf_id = str_objectid oid, cf_name = n, cf_email = e, cf_subject = s, cf_message = m,
        cf_status = NEW, cf_createdAt = Some (millis now1), cf_updatedAt = Some (millis now2)\<rparr>"
  by (simp add: ContactForm_of_def convert_objectid_def ContactFormCreate_dict_def req_str_def
      opt_str_def opt_status_def opt_datetime_def)

lemma submit_contact_form_ok:
  assumes "\<not> list_ex (eq_match ''_id'' (BObjectId oid)) (contacts_collection store)"
  shows "submit_contact_form None None oid now1 now2
           \<lparr>cfc_name = n, cfc_email = e, cfc_subject = Some s, cfc_message = m\<rparr> store =
         ((Inr \<lparr>cf_id = str_objectid oid, cf_name = n, cf_email = e, cf_subject = s, cf_message = m,
                cf_status = NEW, cf_createdAt = Some (millis now1),
                cf_updatedAt = Some (millis now2)\<rparr>, []),
          store\<lparr>contacts_collection := contacts_collection store @
            [encode ((ContactFormCreate_dict
                \<lparr>cfc_name = n, cfc_email = e, cfc_subject = Some s, cfc_message = m\<rparr>)
               (''createdAt'' \<mapsto> BDate now1, ''updatedAt'' \<mapsto> BDate now2, ''status'' \<mapsto> BStr ''new'',
                ''_id'' \<mapsto> BObjectId oid))]\<rparr>)"
proof -
  define c where "c = \<lparr>cfc_name = n, cfc_email = e, cfc_subject = Some s, cfc_message = m\<rparr>"
  define data where "data = (ContactFormCreate_dict c)
     (''createdAt'' \<mapsto> BDate now1, ''updatedAt'' \<mapsto> BDate now2, ''status'' \<mapsto> BStr ''new'')"
  define doc where "doc = encode (data(''_id'' \<mapsto> BObjectId oid))"
  define r where "r = \<lparr>cf_id = str_objectid oid, cf_name = n, cf_email = e, cf_subject = s,
     cf_message = m, cf_status = NEW, cf_createdAt = Some (millis now1),
     cf_updatedAt = Some (millis now2)\<rparr>"
  have noid: "data ''_id'' = None"
    unfolding data_def by (rule contact_data_no_id)
  have fresh: "\<not> list_ex (\<lambda>d. d ''_id'' = Some (BObjectId oid)) (contacts_collection store)"
    using assms by (rule eq_match_unused)
  have ins: "insert_one None oid data (contacts_collection store) =
               (Inr (BObjectId oid), contacts_collection store @ [doc])"
    using fresh by (simp add: insert_one_no_id [of data, OF noid] doc_def del: fun_upd_apply encode_apply)
  have "doc ''_id'' = Some (BObjectId oid)" by (simp add: doc_def)
  then have m: "eq_match ''_id'' (BObjectId oid) doc" by (simp add: eq_match_def)
  have fnd: "find_one None ''_id'' (BObjectId oid) (contacts_collection store @ [doc]) = Inr (Some doc)"
    unfolding find_one_def
    using find_append_last [of "eq_match ''_id'' (BObjectId oid)", OF assms m] by simp
  have conv: "ContactForm_of (convert_objectid doc) = Inr r"
    unfolding doc_def data_def c_def r_def by (rule ContactForm_of_created)
  have "submit_contact_form None None oid now1 now2 c store =
          ((Inr r, []), store\<lparr>contacts_collection := contacts_collection store @ [doc]\<rparr>)"
    unfolding submit_contact_form_def data_def [symmetric] Let_def ins
    by (simp add: fnd conv)
  then show ?thesis
    unfolding doc_def data_def c_def r_def .
qed

text \<open>
  C3. A contact request with name, email and message and without subject, on a store
  that answers both calls and in which the generated identifier \<open>oid\<close> is not in use:
  the response has the empty subject, the status \<^verbatim>\<open>new\<close>, the 24 hexadecimal digits
  of \<open>oid\<close> as its non-empty \<^verbatim>\<open>id\<close>, and the submitted name, email and message.
  The response is made from the document as it is read back, so \<^verbatim>\<open>createdAt\<close> is the
  first clock reading and \<^verbatim>\<open>updatedAt\<close> the second, each in the whole milliseconds
  that the store keeps: they are equal when the two readings fall in the same
  millisecond, and they differ by less than a millisecond more than the two readings
  do. The contacts collection has exactly one more document; it maps to the response,
  and looking it up by the identifier returns it, for the identifier \<open>oid\<close> and so for
  any identifier that the \<^verbatim>\<open>id\<close> of the response is the text of.
\<close>

theorem contact_submission_without_subject:
  assumes "body ''name'' = Some (BStr n)" and "body ''email'' = Some (BStr e)"
    and "body ''message'' = Some (BStr m)" and "body ''subject'' = None"
    and "\<not> list_ex (eq_match ''_id'' (BObjectId oid)) (contacts_collection store)"
    and "\<bar>now2 - now1\<bar> \<le> tolerance"
  shows "\<exists>c doc. post_contact None None oid now1 now2 body store =
             ((Inr c, []), store\<lparr>contacts_collection := contacts_collection store @ [doc]\<rparr>)
           \<and> cf_subject c = [] \<and> cf_status c = NEW
           \<and> cf_id c = str_objectid oid \<and> length (cf_id c) = 24
           \<and> cf_name c = n \<and> cf_email c = e \<and> cf_message c = m
           \<and> cf_createdAt c = Some (millis now1) \<and> cf_updatedAt c = Some (millis now2)
           \<and> (\<exists>t u. cf_createdAt c = Some t \<and> cf_updatedAt c = Some u
                  \<and> \<bar>u - t\<bar> \<le> tolerance + 999
                  \<and> (now1 div 1000 = now2 div 1000 \<longrightarrow> t = u))
           \<and> doc ''_id'' = Some (BObjectId oid)
           \<and> (\<forall>oid'. str_objectid oid' = cf_id c \<longrightarrow>
                 find_one None ''_id'' (BObjectId oid') (contacts_collection store @ [doc]) =
                   Inr (Some doc))
           \<and> ContactForm_of (convert_objectid doc) = Inr c"
proof -
  define doc where "doc = encode
     ((ContactFormCreate_dict \<lparr>cfc_name = n, cfc_email = e, cfc_subject = Some [], cfc_message = m\<rparr>)
       (''createdAt'' \<mapsto> BDate now1, ''updatedAt'' \<mapsto> BDate now2, ''status'' \<mapsto> BStr ''new'',
        ''_id'' \<mapsto> BObjectId oid))"
  define r where "r = \<lparr>cf_id = str_objectid oid, cf_name = n, cf_email = e, cf_subject = [],
     cf_message = m, cf_status = NEW, cf_createdAt = Some (millis now1),
     cf_updatedAt = Some (millis now2)\<rparr>"
  have p: "post_contact None None oid now1 now2 body store =
             ((Inr r, []), store\<lparr>contacts_collection := contacts_collection store @ [doc]\<rparr>)"
    unfolding post_contact_def ContactFormCreate_of_no_subject [OF assms(1-4)] doc_def r_def
    using submit_contact_form_ok [OF assms(5), of now1 now2 n e "[]" m] by simp
  have i: "doc ''_id'' = Some (BObjectId oid)" by (simp add: doc_def)
  then have mt: "eq_match ''_id'' (BObjectId oid) doc" by (simp add: eq_match_def)
  have fnd: "find_one None ''_id'' (BObjectId oid) (contacts_collection store @ [doc]) = Inr (Some doc)"
    unfolding find_one_def
    using find_append_last [of "eq_match ''_id'' (BObjectId oid)", OF assms(5) mt] by simp
  have fnd': "\<forall>oid'. str_objectid oid' = cf_id r \<longrightarrow>
      find_one None ''_id'' (BObjectId oid') (contacts_collection store @ [doc]) = Inr (Some doc)"
  proof (intro allI impI)
    fix oid'
    assume "str_objectid oid' = cf_id r"
    then have "str_objectid oid' = str_objectid oid" by (simp add: r_def)
    then have "oid' = oid" by (rule str_objectid_inj)
    with fnd show "find_one None ''_id'' (BObjectId oid') (contacts_collection store @ [doc]) =
      Inr (Some doc)" by simp
  qed
  have conv: "ContactForm_of (convert_objectid doc) = Inr r"
    unfolding doc_def r_def by (rule ContactForm_of_created)
  have g: "cf_subject r = []" "cf_status r = NEW" "cf_id r = str_objectid oid"
    "length (cf_id r) = 24" "cf_name r = n" "cf_email r = e" "cf_message r = m"
    "cf_createdAt r = Some (millis now1)" "cf_updatedAt r = Some (millis now2)"
    by (simp_all add: r_def length_str_objectid)
  have "\<bar>millis now2 - millis now1\<bar> \<le> tolerance + 999"
    using millis_close [of now2 now1] assms(6) by linarith
  then have "cf_createdAt r = Some (millis now1) \<and> cf_updatedAt r = Some (millis now2)
                  \<and> \<bar>millis now2 - millis now1\<bar> \<le> tolerance + 999
                  \<and> (now1 div 1000 = now2 div 1000 \<longrightarrow> millis now1 = millis now2)"
    using g(8,9) millis_same [of now1 now2] by blast
  then have f3: "\<exists>t u. cf_createdAt r = Some t \<and> cf_updatedAt r = Some u
                  \<and> \<bar>u - t\<bar> \<le> tolerance + 999
                  \<and> (now1 div 1000 = now2 div 1000 \<longrightarrow> t = u)"
    by (intro exI)
  show ?thesis
    apply (rule exI [of _ r])
    apply (rule exI [of _ doc])
    apply (rule conjI [OF p])
    apply (rule conjI [OF g(1)])
    apply (rule conjI [OF g(2)])
    apply (rule conjI [OF g(3)])
    apply (rule conjI [OF g(4)])
    apply (rule conjI [OF g(5)])
    apply (rule conjI [OF g(6)])
    apply (rule conjI [OF g(7)])
    apply (rule conjI [OF g(8)])
    apply (rule conjI [OF g(9)])
    apply (rule conjI [OF f3])
    apply (rule conjI [OF i])
    apply (rule conjI [OF fnd' conv])
    done
qed

text \<open>
  The theorem at the request of the specification, \<^verbatim>\<open>{name: "A", email: "a@x.com",
  message: "hi"}\<close>, with clock readings 999 and 1001, two microseconds apart and on
  either side of a millisecond: the response has \<^verbatim>\<open>createdAt\<close> 0 and
  \<^verbatim>\<open>updatedAt\<close> 1000.
\<close>

theorem contact_submission_without_subject_witness:
  "demo_contact_body ''name'' = Some (BStr ''A'')
   \<and> demo_contact_body ''email'' = Some (BStr ''a@x.com'')
   \<and> demo_contact_body ''message'' = Some (BStr ''hi'')
   \<and> demo_contact_body ''subject'' = None
   \<and> \<not> list_ex (eq_match ''_id'' (BObjectId 8)) (contacts_collection demo_db)
   \<and> \<bar>1001 - 999 :: int\<bar> \<le> 2
   \<and> (\<exists>c doc. post_contact None None 8 999 1001 demo_contact_body demo_db =
             ((Inr c, []), demo_db\<lparr>contacts_collection := contacts_collection demo_db @ [doc]\<rparr>)
           \<and> cf_subject c = [] \<and> cf_status c = NEW
           \<and> cf_id c = str_objectid 8 \<and> length (cf_id c) = 24
           \<and> cf_name c = ''A'' \<and> cf_email c = ''a@x.com'' \<and> cf_message c = ''hi''
           \<and> cf_createdAt c = Some 0 \<and> cf_updatedAt c = Some 1000
           \<and> doc ''_id'' = Some (BObjectId 8)
           \<and> find_one None ''_id'' (BObjectId 8) (contacts_collection demo_db @ [doc]) = Inr (Some doc)
           \<and> ContactForm_of (convert_objectid doc) = Inr c)"
proof -
  have h1: "demo_contact_body ''name'' = Some (BStr ''A'')" by (simp add: demo_contact_body_def)
  have h2: "demo_contact_body ''email'' = Some (BStr ''a@x.com'')" by (simp add: demo_contact_body_def)
  have h3: "demo_contact_body ''message'' = Some (BStr ''hi'')" by (simp add: demo_contact_body_def)
  have h4: "demo_contact_body ''subject'' = None" by (simp add: demo_contact_body_def)
  have h5: "\<not> list_ex (eq_match ''_id'' (BObjectId 8)) (contacts_collection demo_db)"
    by (simp add: demo_db_def)
  have h6: "\<bar>1001 - 999 :: int\<bar> \<le> 2" by simp
  have m: "millis 999 = 0" "millis 1001 = 1000" by (simp_all add: millis_def)
  from contact_submission_without_subject [OF h1 h2 h3 h4 h5 h6]
  obtain c doc where
    p: "post_contact None None 8 999 1001 demo_contact_body demo_db =
          ((Inr c, []), demo_db\<lparr>contacts_collection := contacts_collection demo_db @ [doc]\<rparr>)"
    and f: "cf_subject c = []" "cf_status c = NEW" "cf_id c = str_objectid 8" "length (cf_id c) = 24"
      "cf_name c = ''A''" "cf_email c = ''a@x.com''" "cf_message c = ''hi''"
      "cf_createdAt c = Some (millis 999)" "cf_updatedAt c = Some (millis 1001)"
      "doc ''_id'' = Some (BObjectId 8)"
    and r: "\<forall>oid'. str_objectid oid' = cf_id c \<longrightarrow>
                 find_one None ''_id'' (BObjectId oid') (contacts_collection demo_db @ [doc]) =
                   Inr (Some doc)"
    and v: "ContactForm_of (convert_objectid doc) = Inr c"
    by blast
  from r f(3) have r': "find_one None ''_id'' (BObjectId 8) (contacts_collection demo_db @ [doc]) =
      Inr (Some doc)" by simp
  have "post_contact None None 8 999 1001 demo_contact_body demo_db =
             ((Inr c, []), demo_db\<lparr>contacts_collection := contacts_collection demo_db @ [doc]\<rparr>)
           \<and> cf_subject c = [] \<and> cf_status c = NEW
           \<and> cf_id c = str_objectid 8 \<and> length (cf_id c) = 24
           \<and> cf_name c = ''A'' \<and> cf_email c = ''a@x.com'' \<and> cf_message c = ''hi''
           \<and> cf_createdAt c = Some 0 \<and> cf_updatedAt c = Some 1000
           \<and> doc ''_id'' = Some (BObjectId 8)
           \<and> find_one None ''_id'' (BObjectId 8) (contacts_collection demo_db @ [doc]) = Inr (Some doc)
           \<and> ContactForm_of (convert_objectid doc) = Inr c"
    using p f r' v unfolding m by simp
  then have e: "\<exists>c doc. post_contact None None 8 999 1001 demo_contact_body demo_db =
             ((Inr c, []), demo_db\<lparr>contacts_collection := contacts_collection demo_db @ [doc]\<rparr>)
           \<and> cf_subject c = [] \<and> cf_status c = NEW
           \<and> cf_id c = str_objectid 8 \<and> length (cf_id c) = 24
           \<and> cf_name c = ''A'' \<and> cf_email c = ''a@x.com'' \<and> cf_message c = ''hi''
           \<and> cf_createdAt c = Some 0 \<and> cf_updatedAt c = Some 1000
           \<and> doc ''_id'' = Some (BObjectId 8)
           \<and> find_one None ''_id'' (BObjectId 8) (contacts_collection demo_db @ [doc]) = Inr (Some doc)
           \<and> ContactForm_of (convert_objectid doc) = Inr c"
    by (intro exI)
  show ?thesis
    by (rule conjI [OF h1 conjI [OF h2 conjI [OF h3 conjI [OF h4 conjI [OF h5 conjI [OF h6 e]]]]]])
qed

section \<open>Mapping a stored document to its model and back\<close>

lemma the_strs_Some: "the_strs ys = Some xs \<longleftrightarrow> ys = map BStr xs"
  by (induction ys arbitrary: xs rule: the_strs.induct) auto

lemma the_strs_map: "the_strs (map BStr xs) = Some xs"
  by (simp add: the_strs_Some)

lemma req_str_keeps:
  "req_str d k = Some s \<Longrightarrow> d k = Some v \<Longrightarrow> has_type TStr v \<Longrightarrow> BStr s = v"
  by (cases v) (auto simp: req_str_def)

lemma opt_str_keeps:
  "opt_str d k dflt = Some s \<Longrightarrow> d k = Some v \<Longrightarrow> has_type TStr v \<Longrightarrow> BStr s = v"
  by (cases v) (auto simp: opt_str_def)

lemma opt_int_keeps:
  "opt_int d k dflt = Some i \<Longrightarrow> d k = Some v \<Longrightarrow> has_type TInt v \<Longrightarrow> BInt i = v"
  by (cases v) (auto simp: opt_int_def)

lemma opt_bool_keeps:
  "opt_bool d k dflt = Some b \<Longrightarrow> d k = Some v \<Longrightarrow> has_type TBool v \<Longrightarrow> BBool b = v"
  by (cases v) (auto simp: opt_bool_def)

lemma opt_datetime_keeps:
  "opt_datetime d k = Some t \<Longrightarrow> d k = Some v \<Longrightarrow> has_type TOptDatetime v \<Longrightarrow> dump_datetime t = v"
  by (cases v) (auto simp: opt_datetime_def dump_datetime_def)

lemma req_str_list_keeps:
  "req_str_list d k = Some xs \<Longrightarrow> d k = Some v \<Longrightarrow> has_type TStrList v \<Longrightarrow> BArray (map BStr xs) = v"
  by (cases v) (auto simp: req_str_list_def the_strs_Some the_strs_map split: option.splits)

lemma opt_status_keeps:
  "opt_status d k = Some st \<Longrightarrow> d k = Some v \<Longrightarrow> has_type TStatus v \<Longrightarrow>
     BStr (ContactStatus_value st) = v"
  by (cases v) (auto simp: opt_status_def ContactStatus_value_def split: if_splits)

lemmas reader_keeps = req_str_keeps opt_str_keeps opt_int_keeps opt_bool_keeps opt_datetime_keeps
  req_str_list_keeps opt_status_keeps

lemma req_str_absent: "req_str d k = Some s \<Longrightarrow> d k = None \<Longrightarrow> False"
  by (simp add: req_str_def)

lemma req_str_list_absent: "req_str_list d k = Some xs \<Longrightarrow> d k = None \<Longrightarrow> False"
  by (simp add: req_str_list_def)

lemma opt_str_default: "opt_str d k dflt = Some s \<Longrightarrow> d k = None \<Longrightarrow> s = dflt"
  by (simp add: opt_str_def)

lemma opt_int_default: "opt_int d k dflt = Some i \<Longrightarrow> d k = None \<Longrightarrow> i = dflt"
  by (simp add: opt_int_def)

lemma opt_bool_default: "opt_bool d k dflt = Some b \<Longrightarrow> d k = None \<Longrightarrow> b = dflt"
  by (simp add: opt_bool_def)

lemma opt_datetime_default: "opt_datetime d k = Some t \<Longrightarrow> d k = None \<Longrightarrow> dump_datetime t = BNull"
  by (simp add: opt_datetime_def dump_datetime_def)

lemma opt_status_default:
  "opt_status d k = Some st \<Longrightarrow> d k = None \<Longrightarrow> ContactStatus_value st = ''new''"
  by (auto simp: opt_status_def ContactStatus_value_def)

lemmas reader_defaults = req_str_absent req_str_list_absent opt_str_default opt_int_default
  opt_bool_default opt_datetime_default opt_status_default

lemma convert_objectid_other: "k \<noteq> ''_id'' \<Longrightarrow> convert_objectid d k = d k"
  by (simp add: convert_objectid_def split: option.splits)

lemma convert_objectid_id:
  "convert_objectid d ''_id'' = map_option (\<lambda>v. BStr (py_str v)) (d ''_id'')"
  by (simp add: convert_objectid_def split: option.splits)

lemma converted_id:
  assumes "req_str (convert_objectid d) ''_id'' = Some s"
  shows "\<exists>v. d ''_id'' = Some v \<and> s = py_str v"
  using assms by (cases "d ''_id''") (auto simp: req_str_def convert_objectid_id)

lemma Experience_of_Inr:
  assumes "Experience_of d = Inr x"
  shows "req_str d ''_id'' = Some (exp_id x) \<and>
     req_str d ''position'' = Some (exp_position x) \<and>
     req_str d ''company'' = Some (exp_company x) \<and>
     req_str d ''location'' = Some (exp_location x) \<and>
     req_str d ''period'' = Some (exp_period x) \<and>
     req_str d ''description'' = Some (exp_description x) \<and>
     req_str_list d ''achievements'' = Some (exp_achievements x) \<and>
     opt_int d ''order'' 0 = Some (exp_order x) \<and>
     opt_bool d ''isActive'' True = Some (exp_isActive x) \<and>
     opt_datetime d ''createdAt'' = Some (exp_createdAt x) \<and>
     opt_datetime d ''updatedAt'' = Some (exp_updatedAt x)"
  using assms unfolding Experience_of_def
  by (auto split: option.splits simp: bind_eq_Some_conv)

lemma Experience_dump_dom: "dom (Experience_dump a x) = insert (id_key a) (fst ` set Experience_fields)"
  by (auto simp: Experience_dump_def Experience_fields_def id_key_def split: if_splits)

lemma Experience_roundtrip:
  assumes "Experience_of (convert_objectid d) = Inr x"
  shows "(\<forall>(k, t, dflt)\<in>set Experience_fields.
          (\<forall>v. d k = Some v \<and> has_type t v \<longrightarrow> Experience_dump a x k = Some v)
          \<and> (d k = None \<longrightarrow> dflt \<noteq> None \<and> Experience_dump a x k = dflt))
     \<and> (\<exists>v. d ''_id'' = Some v \<and> Experience_dump a x (id_key a) = Some (BStr (py_str v)))
     \<and> dom (Experience_dump a x) = insert (id_key a) (fst ` set Experience_fields)"
proof -
  note r = Experience_of_Inr [OF assms]
  have i: "\<exists>v. d ''_id'' = Some v \<and> Experience_dump a x (id_key a) = Some (BStr (py_str v))"
    using converted_id [of d "exp_id x"] r by (auto simp: Experience_dump_def id_key_def)
  have k0: "(\<forall>v. d ''position'' = Some v \<and> has_type TStr v \<longrightarrow> Experience_dump a x ''position'' = Some v)
      \<and> (d ''position'' = None \<longrightarrow> False)"
    using r by (auto simp: Experience_dump_def id_key_def convert_objectid_other
        dest: reader_keeps reader_defaults)
  have k1: "(\<forall>v. d ''company'' = Some v \<and> has_type TStr v \<longrightarrow> Experience_dump a x ''company'' = Some v)
      \<and> (d ''company'' = None \<longrightarrow> False)"
    using r by (auto simp: Experience_dump_def id_key_def convert_objectid_other
        dest: reader_keeps reader_defaults)
  have k2: "(\<forall>v. d ''location'' = Some v \<and> has_type TStr v \<longrightarrow> Experience_dump a x ''location'' = Some v)
      \<and> (d ''location'' = None \<longrightarrow> False)"
    using r by (auto simp: Experience_dump_def id_key_def convert_objectid_other
        dest: reader_keeps reader_defaults)
  have k3: "(\<forall>v. d ''period'' = Some v \<and> has_type TStr v \<longrightarrow> Experience_dump a x ''period'' = Some v)
      \<and> (d ''period'' = None \<longrightarrow> False)"
    using r by (auto simp: Experience_dump_def id_key_def convert_objectid_other
        dest: reader_keeps reader_defaults)
  have k4: "(\<forall>v. d ''description'' = Some v \<and> has_type TStr v \<longrightarrow> Experience_dump a x ''description'' = Some v)
      \<and> (d ''description'' = None \<longrightarrow> False)"
    using r by (auto simp: Experience_dump_def id_key_def convert_objectid_other
        dest: reader_keeps reader_defaults)
  have k5: "(\<forall>v. d ''achievements'' = Some v \<and> has_type TStrList v \<longrightarrow> Experience_dump a x ''achievements'' = Some v)
      \<and> (d ''achievements'' = None \<longrightarrow> False)"
    using r by (auto simp: Experience_dump_def id_key_def convert_objectid_other
        dest: reader_keeps reader_defaults)
  have k6: "(\<forall>v. d ''order'' = Some v \<and> has_type TInt v \<longrightarrow> Experience_dump a x ''order'' = Some v)
      \<and> (d ''order'' = None \<longrightarrow> Experience_dump a x ''order'' = Some (BInt 0))"
    using r by (auto simp: Experience_dump_def id_key_def convert_objectid_other
        dest: reader_keeps reader_defaults)
  have k7: "(\<forall>v. d ''isActive'' = Some v \<and> has_type TBool v \<longrightarrow> Experience_dump a x ''isActive'' = Some v)
      \<and> (d ''isActive'' = None \<longrightarrow> Experience_dump a x ''isActive'' = Some (BBool True))"
    using r by (auto simp: Experience_dump_def id_key_def convert_objectid_other
        dest: reader_keeps reader_defaults)
  have k8: "(\<forall>v. d ''createdAt'' = Some v \<and> has_type TOptDatetime v \<longrightarrow> Experience_dump a x ''createdAt'' = Some v)
      \<and> (d ''createdAt'' = None \<longrightarrow> Experience_dump a x ''createdAt'' = Some (BNull))"
    using r by (auto simp: Experience_dump_def id_key_def convert_objectid_other
        dest: reader_keeps reader_defaults)
  have k9: "(\<forall>v. d ''updatedAt'' = Some v \<and> has_type TOptDatetime v \<longrightarrow> Experience_dump a x ''updatedAt'' = Some v)
      \<and> (d ''updatedAt'' = None \<longrightarrow> Experience_dump a x ''updatedAt'' = Some (BNull))"
    using r by (auto simp: Experience_dump_def id_key_def convert_objectid_other
        dest: reader_keeps reader_defaults)
  have f: "\<forall>(k, t, dflt)\<in>set Experience_fields.
          (\<forall>v. d k = Some v \<and> has_type t v \<longrightarrow> Experience_dump a x k = Some v)
          \<and> (d k = None \<longrightarrow> dflt \<noteq> None \<and> Experience_dump a x k = dflt)"
    unfolding Experience_fields_def using k0 k1 k2 k3 k4 k5 k6 k7 k8 k9 by simp
  from f i Experience_dump_dom [of a x] show ?thesis by (intro conjI)
qed

lemma Accomplishment_of_Inr:
  assumes "Accomplishment_of d = Inr x"
  shows "req_str d ''_id'' = Some (acc_id x) \<and>
     req_str d ''title'' = Some (acc_title x) \<and>
     req_str d ''description'' = Some (acc_description x) \<and>
     req_str d ''impact'' = Some (acc_impact x) \<and>
     req_str_list d ''technologies'' = Some (acc_technologies x) \<and>
     opt_int d ''order'' 0 = Some (acc_order x) \<and>
     opt_bool d ''isActive'' True = Some (acc_isActive x) \<and>
     opt_datetime d ''createdAt'' = Some (acc_createdAt x) \<and>
     opt_datetime d ''updatedAt'' = Some (acc_updatedAt x)"
  using assms unfolding Accomplishment_of_def
  by (auto split: option.splits simp: bind_eq_Some_conv)

lemma Accomplishment_dump_dom: "dom (Accomplishment_dump a x) = insert (id_key a) (fst ` set Accomplishment_fields)"
  by (auto simp: Accomplishment_dump_def Accomplishment_fields_def id_key_def split: if_splits)

lemma Accomplishment_roundtrip:
  assumes "Accomplishment_of (convert_objectid d) = Inr x"
  shows "(\<forall>(k, t, dflt)\<in>set Accomplishment_fields.
          (\<forall>v. d k = Some v \<and> has_type t v \<longrightarrow> Accomplishment_dump a x k = Some v)
          \<and> (d k = None \<longrightarrow> dflt \<noteq> None \<and> Accomplishment_dump a x k = dflt))
     \<and> (\<exists>v. d ''_id'' = Some v \<and> Accomplishment_dump a x (id_key a) = Some (BStr (py_str v)))
     \<and> dom (Accomplishment_dump a x) = insert (id_key a) (fst ` set Accomplishment_fields)"
proof -
  note r = Accomplishment_of_Inr [OF assms]
  have i: "\<exists>v. d ''_id'' = Some v \<and> Accomplishment_dump a x (id_key a) = Some (BStr (py_str v))"
    using converted_id [of d "acc_id x"] r by (auto simp: Accomplishment_dump_def id_key_def)
  have k0: "(\<forall>v. d ''title'' = Some v \<and> has_type TStr v \<longrightarrow> Accomplishment_dump a x ''title'' = Some v)
      \<and> (d ''title'' = None \<longrightarrow> False)"
    using r by (auto simp: Accomplishment_dump_def id_key_def convert_objectid_other
        dest: reader_keeps reader_defaults)
  have k1: "(\<forall>v. d ''description'' = Some v \<and> has_type TStr v \<longrightarrow> Accomplishment_dump a x ''description'' = Some v)
      \<and> (d ''description'' = None \<longrightarrow> False)"
    using r by (auto simp: Accomplishment_dump_def id_key_def convert_objectid_other
        dest: reader_keeps reader_defaults)
  have k2: "(\<forall>v. d ''impact'' = Some v \<and> has_type TStr v \<longrightarrow> Accomplishment_dump a x ''impact'' = Some v)
      \<and> (d ''impact'' = None \<longrightarrow> False)"
    using r by (auto simp: Accomplishment_dump_def id_key_def convert_objectid_other
        dest: reader_keeps reader_defaults)
  have k3: "(\<forall>v. d ''technologies'' = Some v \<and> has_type TStrList v \<longrightarrow> Accomplishment_dump a x ''technologies'' = Some v)
      \<and> (d ''technologies'' = None \<longrightarrow> False)"
    using r by (auto simp: Accomplishment_dump_def id_key_def convert_objectid_other
        dest: reader_keeps reader_defaults)
  have k4: "(\<forall>v. d ''order'' = Some v \<and> has_type TInt v \<longrightarrow> Accomplishment_dump a x ''order'' = Some v)
      \<and> (d ''order'' = None \<longrightarrow> Accomplishment_dump a x ''order'' = Some (BInt 0))"
    using r by (auto simp: Accomplishment_dump_def id_key_def convert_objectid_other
        dest: reader_keeps reader_defaults)
  have k5: "(\<forall>v. d ''isActive'' = Some v \<and> has_type TBool v \<longrightarrow> Accomplishment_dump a x ''isActive'' = Some v)
      \<and> (d ''isActive'' = None \<longrightarrow> Accomplishment_dump a x ''isActive'' = Some (BBool True))"
    using r by (auto simp: Accomplishment_dump_def id_key_def convert_objectid_other
        dest: reader_keeps reader_defaults)
  have k6: "(\<forall>v. d ''createdAt'' = Some v \<and> has_type TOptDatetime v \<longrightarrow> Accomplishment_dump a x ''createdAt'' = Some v)
      \<and> (d ''createdAt'' = None \<longrightarrow> Accomplishment_dump a x ''createdAt'' = Some (BNull))"
    using r by (auto simp: Accomplishment_dump_def id_key_def convert_objectid_other
        dest: reader_keeps reader_defaults)
  have k7: "(\<forall>v. d ''updatedAt'' = Some v \<and> has_type TOptDatetime v \<longrightarrow> Accomplishment_dump a x ''updatedAt'' = Some v)
      \<and> (d ''updatedAt'' = None \<longrightarrow> Accomplishment_dump a x ''updatedAt'' = Some (BNull))"
    using r by (auto simp: Accomplishment_dump_def id_key_def convert_objectid_other
        dest: reader_keeps reader_defaults)
  have f: "\<forall>(k, t, dflt)\<in>set Accomplishment_fields.
          (\<forall>v. d k = Some v \<and> has_type t v \<longrightarrow> Accomplishment_dump a x k = Some v)
          \<and> (d k = None \<longrightarrow> dflt \<noteq> None \<and> Accomplishment_dump a x k = dflt)"
    unfolding Accomplishment_fields_def using k0 k1 k2 k3 k4 k5 k6 k7 by simp
  from f i Accomplishment_dump_dom [of a x] show ?thesis by (intro conjI)
qed

lemma ContactForm_of_Inr:
  assumes "ContactForm_of d = Inr x"
  shows "req_str d ''_id'' = Some (cf_id x) \<and>
     req_str d ''name'' = Some (cf_name x) \<and>
     req_str d ''email'' = Some (cf_email x) \<and>
     opt_str d ''subject'' [] = Some (cf_subject x) \<and>
     req_str d ''message'' = Some (cf_message x) \<and>
     opt_status d ''status'' = Some (cf_status x) \<and>
     opt_datetime d ''createdAt'' = Some (cf_createdAt x) \<and>
     opt_datetime d ''updatedAt'' = Some (cf_updatedAt x)"
  using assms unfolding ContactForm_of_def
  by (auto split: option.splits simp: bind_eq_Some_conv)

lemma ContactForm_dump_dom: "dom (ContactForm_dump a x) = insert (id_key a) (fst ` set ContactForm_fields)"
  by (auto simp: ContactForm_dump_def ContactForm_fields_def id_key_def split: if_splits)

lemma ContactForm_roundtrip:
  assumes "ContactForm_of (convert_objectid d) = Inr x"
  shows "(\<forall>(k, t, dflt)\<in>set ContactForm_fields.
          (\<forall>v. d k = Some v \<and> has_type t v \<longrightarrow> ContactForm_dump a x k = Some v)
          \<and> (d k = None \<longrightarrow> dflt \<noteq> None \<and> ContactForm_dump a x k = dflt))
     \<and> (\<exists>v. d ''_id'' = Some v \<and> ContactForm_dump a x (id_key a) = Some (BStr (py_str v)))
     \<and> dom (ContactForm_dump a x) = insert (id_key a) (fst ` set ContactForm_fields)"
proof -
  note r = ContactForm_of_Inr [OF assms]
  have i: "\<exists>v. d ''_id'' = Some v \<and> ContactForm_dump a x (id_key a) = Some (BStr (py_str v))"
    using converted_id [of d "cf_id x"] r by (auto simp: ContactForm_dump_def id_key_def)
  have k0: "(\<forall>v. d ''name'' = Some v \<and> has_type TStr v \<longrightarrow> ContactForm_dump a x ''name'' = Some v)
      \<and> (d ''name'' = None \<longrightarrow> False)"
    using r by (auto simp: ContactForm_dump_def id_key_def convert_objectid_other
        dest: reader_keeps reader_defaults)
  have k1: "(\<forall>v. d ''email'' = Some v \<and> has_type TStr v \<longrightarrow> ContactForm_dump a x ''email'' = Some v)
      \<and> (d ''email'' = None \<longrightarrow> False)"
    using r by (auto simp: ContactForm_dump_def id_key_def convert_objectid_other
        dest: reader_keeps reader_defaults)
  have k2: "(\<forall>v. d ''subject'' = Some v \<and> has_type TStr v \<longrightarrow> ContactForm_dump a x ''subject'' = Some v)
      \<and> (d ''subject'' = None \<longrightarrow> ContactForm_dump a x ''subject'' = Some (BStr []))"
    using r by (auto simp: ContactForm_dump_def id_key_def convert_objectid_other
        dest: reader_keeps reader_defaults)
  have k3: "(\<forall>v. d ''message'' = Some v \<and> has_type TStr v \<longrightarrow> ContactForm_dump a x ''message'' = Some v)
      \<and> (d ''message'' = None \<longrightarrow> False)"
    using r by (auto simp: ContactForm_dump_def id_key_def convert_objectid_other
        dest: reader_keeps reader_defaults)
  have k4: "(\<forall>v. d ''status'' = Some v \<and> has_type TStatus v \<longrightarrow> ContactForm_dump a x ''status'' = Some v)
      \<and> (d ''status'' = None \<longrightarrow> ContactForm_dump a x ''status'' = Some (BStr ''new''))"
    using r by (auto simp: ContactForm_dump_def id_key_def convert_objectid_other
        dest: reader_keeps reader_defaults)
  have k5: "(\<forall>v. d ''createdAt'' = Some v \<and> has_type TOptDatetime v \<longrightarrow> ContactForm_dump a x ''createdAt'' = Some v)
      \<and> (d ''createdAt'' = None \<longrightarrow> ContactForm_dump a x ''createdAt'' = Some (BNull))"
    using r by (auto simp: ContactForm_dump_def id_key_def convert_objectid_other
        dest: reader_keeps reader_defaults)
  have k6: "(\<forall>v. d ''updatedAt'' = Some v \<and> has_type TOptDatetime v \<longrightarrow> ContactForm_dump a x ''updatedAt'' = Some v)
      \<and> (d ''updatedAt'' = None \<longrightarrow> ContactForm_dump a x ''updatedAt'' = Some (BNull))"
    using r by (auto simp: ContactForm_dump_def id_key_def convert_objectid_other
        dest: reader_keeps reader_defaults)
  have f: "\<forall>(k, t, dflt)\<in>set ContactForm_fields.
          (\<forall>v. d k = Some v \<and> has_type t v \<longrightarrow> ContactForm_dump a x k = Some v)
          \<and> (d k = None \<longrightarrow> dflt \<noteq> None \<and> ContactForm_dump a x k = dflt)"
    unfolding ContactForm_fields_def using k0 k1 k2 k3 k4 k5 k6 by simp
  from f i ContactForm_dump_dom [of a x] show ?thesis by (intro conjI)
qed

lemma Profile_of_Inr:
  assumes "Profile_of d = Inr x"
  shows "req_str d ''_id'' = Some (prof_id x) \<and>
     req_str d ''name'' = Some (prof_name x) \<and>
     req_str d ''title'' = Some (prof_title x) \<and>
     req_str d ''description'' = Some (prof_description x) \<and>
     req_str d ''location'' = Some (prof_location x) \<and>
     req_str d ''email'' = Some (prof_email x) \<and>
     req_str d ''phone'' = Some (prof_phone x) \<and>
     opt_bool d ''isActive'' True = Some (prof_isActive x) \<and>
     opt_datetime d ''updatedAt'' = Some (prof_updatedAt x)"
  using assms unfolding Profile_of_def
  by (auto split: option.splits simp: bind_eq_Some_conv)

lemma Profile_dump_dom: "dom (Profile_dump a x) = insert (id_key a) (fst ` set Profile_fields)"
  by (auto simp: Profile_dump_def Profile_fields_def id_key_def split: if_splits)

lemma Profile_roundtrip:
  assumes "Profile_of (convert_objectid d) = Inr x"
  shows "(\<forall>(k, t, dflt)\<in>set Profile_fields.
          (\<forall>v. d k = Some v \<and> has_type t v \<longrightarrow> Profile_dump a x k = Some v)
          \<and> (d k = None \<longrightarrow> dflt \<noteq> None \<and> Profile_dump a x k = dflt))
     \<and> (\<exists>v. d ''_id'' = Some v \<and> Profile_dump a x (id_key a) = Some (BStr (py_str v)))
     \<and> dom (Profile_dump a x) = insert (id_key a) (fst ` set Profile_fields)"
proof -
  note r = Profile_of_Inr [OF assms]
  have i: "\<exists>v. d ''_id'' = Some v \<and> Profile_dump a x (id_key a) = Some (BStr (py_str v))"
    using converted_id [of d "prof_id x"] r by (auto simp: Profile_dump_def id_key_def)
  have k0: "(\<forall>v. d ''name'' = Some v \<and> has_type TStr v \<longrightarrow> Profile_dump a x ''name'' = Some v)
      \<and> (d ''name'' = None \<longrightarrow> False)"
    using r by (auto simp: Profile_dump_def id_key_def convert_objectid_other
        dest: reader_keeps reader_defaults)
  have k1: "(\<forall>v. d ''title'' = Some v \<and> has_type TStr v \<longrightarrow> Profile_dump a x ''title'' = Some v)
      \<and> (d ''title'' = None \<longrightarrow> False)"
    using r by (auto simp: Profile_dump_def id_key_def convert_objectid_other
        dest: reader_keeps reader_defaults)
  have k2: "(\<forall>v. d ''description'' = Some v \<and> has_type TStr v \<longrightarrow> Profile_dump a x ''description'' = Some v)
      \<and> (d ''description'' = None \<longrightarrow> False)"
    using r by (auto simp: Profile_dump_def id_key_def convert_objectid_other
        dest: reader_keeps reader_defaults)
  have k3: "(\<forall>v. d ''location'' = Some v \<and> has_type TStr v \<longrightarrow> Profile_dump a x ''location'' = Some v)
      \<and> (d ''location'' = None \<longrightarrow> False)"
    using r by (auto simp: Profile_dump_def id_key_def convert_objectid_other
        dest: reader_keeps reader_defaults)
  have k4: "(\<forall>v. d ''email'' = Some v \<and> has_type TStr v \<longrightarrow> Profile_dump a x ''email'' = Some v)
      \<and> (d ''email'' = None \<longrightarrow> False)"
    using r by (auto simp: Profile_dump_def id_key_def convert_objectid_other
        dest: reader_keeps reader_defaults)
  have k5: "(\<forall>v. d ''phone'' = Some v \<and> has_type TStr v \<longrightarrow> Profile_dump a x ''phone'' = Some v)
      \<and> (d ''phone'' = None \<longrightarrow> False)"
    using r by (auto simp: Profile_dump_def id_key_def convert_objectid_other
        dest: reader_keeps reader_defaults)
  have k6: "(\<forall>v. d ''isActive'' = Some v \<and> has_type TBool v \<longrightarrow> Profile_dump a x ''isActive'' = Some v)
      \<and> (d ''isActive'' = None \<longrightarrow> Profile_dump a x ''isActive'' = Some (BBool True))"
    using r by (auto simp: Profile_dump_def id_key_def convert_objectid_other
        dest: reader_keeps reader_defaults)
  have k7: "(\<forall>v. d ''updatedAt'' = Some v \<and> has_type TOptDatetime v \<longrightarrow> Profile_dump a x ''updatedAt'' = Some v)
      \<and> (d ''updatedAt'' = None \<longrightarrow> Profile_dump a x ''updatedAt'' = Some (BNull))"
    using r by (auto simp: Profile_dump_def id_key_def convert_objectid_other
        dest: reader_keeps reader_defaults)
  have f: "\<forall>(k, t, dflt)\<in>set Profile_fields.
          (\<forall>v. d k = Some v \<and> has_type t v \<longrightarrow> Profile_dump a x k = Some v)
          \<and> (d k = None \<longrightarrow> dflt \<noteq> None \<and> Profile_dump a x k = dflt)"
    unfolding Profile_fields_def using k0 k1 k2 k3 k4 k5 k6 k7 by simp
  from f i Profile_dump_dom [of a x] show ?thesis by (intro conjI)
qed

lemma Testimonial_of_Inr:
  assumes "Testimonial_of d = Inr x"
  shows "req_str d ''_id'' = Some (tst_id x) \<and>
     req_str d ''name'' = Some (tst_name x) \<and>
     req_str d ''title'' = Some (tst_title x) \<and>
     opt_str d ''company'' [] = Some (tst_company x) \<and>
     req_str d ''testimonial'' = Some (tst_testimonial x) \<and>
     opt_str d ''relationship'' [] = Some (tst_relationship x) \<and>
     opt_str d ''date'' [] = Some (tst_date x) \<and>
     opt_int d ''order'' 0 = Some (tst_order x) \<and>
     opt_bool d ''isActive'' True = Some (tst_isActive x) \<and>
     opt_datetime d ''createdAt'' = Some (tst_createdAt x) \<and>
     opt_datetime d ''updatedAt'' = Some (tst_updatedAt x)"
  using assms unfolding Testimonial_of_def
  by (auto split: option.splits simp: bind_eq_Some_conv)

lemma Testimonial_dump_dom: "dom (Testimonial_dump a x) = insert (id_key a) (fst ` set Testimonial_fields)"
  by (auto simp: Testimonial_dump_def Testimonial_fields_def id_key_def split: if_splits)

lemma Testimonial_roundtrip:
  assumes "Testimonial_of (convert_objectid d) = Inr x"
  shows "(\<forall>(k, t, dflt)\<in>set Testimonial_fields.
          (\<forall>v. d k = Some v \<and> has_type t v \<longrightarrow> Testimonial_dump a x k = Some v)
          \<and> (d k = None \<longrightarrow> dflt \<noteq> None \<and> Testimonial_dump a x k = dflt))
     \<and> (\<exists>v. d ''_id'' = Some v \<and> Testimonial_dump a x (id_key a) = Some (BStr (py_str v)))
     \<and> dom (Testimonial_dump a x) = insert (id_key a) (fst ` set Testimonial_fields)"
proof -
  note r = Testimonial_of_Inr [OF assms]
  have i: "\<exists>v. d ''_id'' = Some v \<and> Testimonial_dump a x (id_key a) = Some (BStr (py_str v))"
    using converted_id [of d "tst_id x"] r by (auto simp: Testimonial_dump_def id_key_def)
  have k0: "(\<forall>v. d ''name'' = Some v \<and> has_type TStr v \<longrightarrow> Testimonial_dump a x ''name'' = Some v)
      \<and> (d ''name'' = None \<longrightarrow> False)"
    using r by (auto simp: Testimonial_dump_def id_key_def convert_objectid_other
        dest: reader_keeps reader_defaults)
  have k1: "(\<forall>v. d ''title'' = Some v \<and> has_type TStr v \<longrightarrow> Testimonial_dump a x ''title'' = Some v)
      \<and> (d ''title'' = None \<longrightarrow> False)"
    using r by (auto simp: Testimonial_dump_def id_key_def convert_objectid_other
        dest: reader_keeps reader_defaults)
  have k2: "(\<forall>v. d ''company'' = Some v \<and> has_type TStr v \<longrightarrow> Testimonial_dump a x ''company'' = Some v)
      \<and> (d ''company'' = None \<longrightarrow> Testimonial_dump a x ''company'' = Some (BStr []))"
    using r by (auto simp: Testimonial_dump_def id_key_def convert_objectid_other
        dest: reader_keeps reader_defaults)
  have k3: "(\<forall>v. d ''testimonial'' = Some v \<and> has_type TStr v \<longrightarrow> Testimonial_dump a x ''testimonial'' = Some v)
      \<and> (d ''testimonial'' = None \<longrightarrow> False)"
    using r by (auto simp: Testimonial_dump_def id_key_def convert_objectid_other
        dest: reader_keeps reader_defaults)
  have k4: "(\<forall>v. d ''relationship'' = Some v \<and> has_type TStr v \<longrightarrow> Testimonial_dump a x ''relationship'' = Some v)
      \<and> (d ''relationship'' = None \<longrightarrow> Testimonial_dump a x ''relationship'' = Some (BStr []))"
    using r by (auto simp: Testimonial_dump_def id_key_def convert_objectid_other
        dest: reader_keeps reader_defaults)
  have k5: "(\<forall>v. d ''date'' = Some v \<and> has_type TStr v \<longrightarrow> Testimonial_dump a x ''date'' = Some v)
      \<and> (d ''date'' = None \<longrightarrow> Testimonial_dump a x ''date'' = Some (BStr []))"
    using r by (auto simp: Testimonial_dump_def id_key_def convert_objectid_other
        dest: reader_keeps reader_defaults)
  have k6: "(\<forall>v. d ''order'' = Some v \<and> has_type TInt v \<longrightarrow> Testimonial_dump a x ''order'' = Some v)
      \<and> (d ''order'' = None \<longrightarrow> Testimonial_dump a x ''order'' = Some (BInt 0))"
    using r by (auto simp: Testimonial_dump_def id_key_def convert_objectid_other
        dest: reader_keeps reader_defaults)
  have k7: "(\<forall>v. d ''isActive'' = Some v \<and> has_type TBool v \<longrightarrow> Testimonial_dump a x ''isActive'' = Some v)
      \<and> (d ''isActive'' = None \<longrightarrow> Testimonial_dump a x ''isActive'' = Some (BBool True))"
    using r by (auto simp: Testimonial_dump_def id_key_def convert_objectid_other
        dest: reader_keeps reader_defaults)
  have k8: "(\<forall>v. d ''createdAt'' = Some v \<and> has_type TOptDatetime v \<longrightarrow> Testimonial_dump a x ''createdAt'' = Some v)
      \<and> (d ''createdAt'' = None \<longrightarrow> Testimonial_dump a x ''createdAt'' = Some (BNull))"
    using r by (auto simp: Testimonial_dump_def id_key_def convert_objectid_other
        dest: reader_keeps reader_defaults)
  have k9: "(\<forall>v. d ''updatedAt'' = Some v \<and> has_type TOptDatetime v \<longrightarrow> Testimonial_dump a x ''updatedAt'' = Some v)
      \<and> (d ''updatedAt'' = None \<longrightarrow> Testimonial_dump a x ''updatedAt'' = Some (BNull))"
    using r by (auto simp: Testimonial_dump_def id_key_def convert_objectid_other
        dest: reader_keeps reader_defaults)
  have f: "\<forall>(k, t, dflt)\<in>set Testimonial_fields.
          (\<forall>v. d k = Some v \<and> has_type t v \<longrightarrow> Testimonial_dump a x k = Some v)
          \<and> (d k = None \<longrightarrow> dflt \<noteq> None \<and> Testimonial_dump a x k = dflt)"
    unfolding Testimonial_fields_def using k0 k1 k2 k3 k4 k5 k6 k7 k8 k9 by simp
  from f i Testimonial_dump_dom [of a x] show ?thesis by (intro conjI)
qed

lemma Experience_of_demo:
  "Experience_of (convert_objectid (demo_experience w i b)) =
     Inr \<lparr>exp_id = str_objectid w, exp_position = ''Engineer'', exp_company = ''Acme'', exp_location = ''Pune'', exp_period = ''2020'', exp_description = ''Work'', exp_achievements = [''Shipped''], exp_order = i, exp_isActive = b, exp_createdAt = None, exp_updatedAt = None\<rparr>"
  by (simp add: Experience_of_def convert_objectid_def demo_experience_def req_str_def req_str_list_def opt_str_def
      opt_int_def opt_bool_def opt_datetime_def opt_status_def)

lemma Accomplishment_of_demo:
  "Accomplishment_of (convert_objectid (demo_accomplishment w i b)) =
     Inr \<lparr>acc_id = str_objectid w, acc_title = ''Migration'', acc_description = ''Moved'', acc_impact = ''Faster'', acc_technologies = [''Python''], acc_order = i, acc_isActive = b, acc_createdAt = None, acc_updatedAt = None\<rparr>"
  by (simp add: Accomplishment_of_def convert_objectid_def demo_accomplishment_def req_str_def req_str_list_def opt_str_def
      opt_int_def opt_bool_def opt_datetime_def opt_status_def)

lemma ContactForm_of_demo:
  "ContactForm_of (convert_objectid (demo_contact w)) =
     Inr \<lparr>cf_id = str_objectid w, cf_name = ''A'', cf_email = ''a@x.com'', cf_subject = [], cf_message = ''hi'', cf_status = NEW, cf_createdAt = Some 1000, cf_updatedAt = Some 1002\<rparr>"
  by (simp add: ContactForm_of_def convert_objectid_def demo_contact_def req_str_def req_str_list_def opt_str_def
      opt_int_def opt_bool_def opt_datetime_def opt_status_def)

lemma Profile_of_demo:
  "Profile_of (convert_objectid (demo_profile w b)) =
     Inr \<lparr>prof_id = str_objectid w, prof_name = ''Dayal'', prof_title = ''Engineer'', prof_description = ''About'', prof_location = ''Pune'', prof_email = ''d@x.com'', prof_phone = ''123'', prof_isActive = b, prof_updatedAt = None\<rparr>"
  by (simp add: Profile_of_def convert_objectid_def demo_profile_def req_str_def req_str_list_def opt_str_def
      opt_int_def opt_bool_def opt_datetime_def opt_status_def)

lemma Testimonial_of_demo:
  "Testimonial_of (convert_objectid (demo_testimonial w i b)) =
     Inr \<lparr>tst_id = str_objectid w, tst_name = ''Ann'', tst_title = ''Lead'', tst_company = [], tst_testimonial = ''Great'', tst_relationship = [], tst_date = [], tst_order = i, tst_isActive = b, tst_createdAt = None, tst_updatedAt = None\<rparr>"
  by (simp add: Testimonial_of_def convert_objectid_def demo_testimonial_def req_str_def req_str_list_def opt_str_def
      opt_int_def opt_bool_def opt_datetime_def opt_status_def)

text \<open>
  C8, as amended. For a stored document of each of the five entities that its model
  accepts: every key of the document that the model declares, and whose stored value
  has the declared type, comes back from the serialised model with the stored value (a
  stored value of another type that the model accepts is converted, and what comes back
  is the converted value); a declared key that the document lacks has a default, and
  comes back with it; the identifier \<^verbatim>\<open>_id\<close> comes back as the string
  \<^verbatim>\<open>str(_id)\<close>, under the key \<^verbatim>\<open>id\<close> (under \<^verbatim>\<open>_id\<close> when the model is serialised
  by alias). The serialised model has the declared keys and no others: a key of the
  document that the model does not declare is not carried over.
\<close>

theorem roundtrip_declared_fields:
  "(Experience_of (convert_objectid d1) = Inr x1 \<longrightarrow>
       (\<forall>(k, t, dflt)\<in>set Experience_fields.
          (\<forall>v. d1 k = Some v \<and> has_type t v \<longrightarrow> Experience_dump a x1 k = Some v)
          \<and> (d1 k = None \<longrightarrow> dflt \<noteq> None \<and> Experience_dump a x1 k = dflt))
       \<and> (\<exists>v. d1 ''_id'' = Some v \<and> Experience_dump a x1 (id_key a) = Some (BStr (py_str v)))
       \<and> dom (Experience_dump a x1) = insert (id_key a) (fst ` set Experience_fields))
   \<and> (Accomplishment_of (convert_objectid d2) = Inr x2 \<longrightarrow>
       (\<forall>(k, t, dflt)\<in>set Accomplishment_fields.
          (\<forall>v. d2 k = Some v \<and> has_type t v \<longrightarrow> Accomplishment_dump a x2 k = Some v)
          \<and> (d2 k = None \<longrightarrow> dflt \<noteq> None \<and> Accomplishment_dump a x2 k = dflt))
       \<and> (\<exists>v. d2 ''_id'' = Some v \<and> Accomplishment_dump a x2 (id_key a) = Some (BStr (py_str v)))
       \<and> dom (Accomplishment_dump a x2) = insert (id_key a) (fst ` set Accomplishment_fields))
   \<and> (ContactForm_of (convert_objectid d3) = Inr x3 \<longrightarrow>
       (\<forall>(k, t, dflt)\<in>set ContactForm_fields.
          (\<forall>v. d3 k = Some v \<and> has_type t v \<longrightarrow> ContactForm_dump a x3 k = Some v)
          \<and> (d3 k = None \<longrightarrow> dflt \<noteq> None \<and> ContactForm_dump a x3 k = dflt))
       \<and> (\<exists>v. d3 ''_id'' = Some v \<and> ContactForm_dump a x3 (id_key a) = Some (BStr (py_str v)))
       \<and> dom (ContactForm_dump a x3) = insert (id_key a) (fst ` set ContactForm_fields))
   \<and> (Profile_of (convert_objectid d4) = Inr x4 \<longrightarrow>
       (\<forall>(k, t, dflt)\<in>set Profile_fields.
          (\<forall>v. d4 k = Some v \<and> has_type t v \<longrightarrow> Profile_dump a x4 k = Some v)
          \<and> (d4 k = None \<longrightarrow> dflt \<noteq> None \<and> Profile_dump a x4 k = dflt))
       \<and> (\<exists>v. d4 ''_id'' = Some v \<and> Profile_dump a x4 (id_key a) = Some (BStr (py_str v)))
       \<and> dom (Profile_dump a x4) = insert (id_key a) (fst ` set Profile_fields))
   \<and> (Testimonial_of (convert_objectid d5) = Inr x5 \<longrightarrow>
       (\<forall>(k, t, dflt)\<in>set Testimonial_fields.
          (\<forall>v. d5 k = Some v \<and> has_type t v \<longrightarrow> Testimonial_dump a x5 k = Some v)
          \<and> (d5 k = None \<longrightarrow> dflt \<noteq> None \<and> Testimonial_dump a x5 k = dflt))
       \<and> (\<exists>v. d5 ''_id'' = Some v \<and> Testimonial_dump a x5 (id_key a) = Some (BStr (py_str v)))
       \<and> dom (Testimonial_dump a x5) = insert (id_key a) (fst ` set Testimonial_fields))"
proof -
  have e1: "Experience_of (convert_objectid d1) = Inr x1 \<longrightarrow>
       (\<forall>(k, t, dflt)\<in>set Experience_fields.
          (\<forall>v. d1 k = Some v \<and> has_type t v \<longrightarrow> Experience_dump a x1 k = Some v)
          \<and> (d1 k = None \<longrightarrow> dflt \<noteq> None \<and> Experience_dump a x1 k = dflt))
       \<and> (\<exists>v. d1 ''_id'' = Some v \<and> Experience_dump a x1 (id_key a) = Some (BStr (py_str v)))
       \<and> dom (Experience_dump a x1) = insert (id_key a) (fst ` set Experience_fields)"
    by (rule impI) (rule Experience_roundtrip)
  have e2: "Accomplishment_of (convert_objectid d2) = Inr x2 \<longrightarrow>
       (\<forall>(k, t, dflt)\<in>set Accomplishment_fields.
          (\<forall>v. d2 k = Some v \<and> has_type t v \<longrightarrow> Accomplishment_dump a x2 k = Some v)
          \<and> (d2 k = None \<longrightarrow> dflt \<noteq> None \<and> Accomplishment_dump a x2 k = dflt))
       \<and> (\<exists>v. d2 ''_id'' = Some v \<and> Accomplishment_dump a x2 (id_key a) = Some (BStr (py_str v)))
       \<and> dom (Accomplishment_dump a x2) = insert (id_key a) (fst ` set Accomplishment_fields)"
    by (rule impI) (rule Accomplishment_roundtrip)
  have e3: "ContactForm_of (convert_objectid d3) = Inr x3 \<longrightarrow>
       (\<forall>(k, t, dflt)\<in>set ContactForm_fields.
          (\<forall>v. d3 k = Some v \<and> has_type t v \<longrightarrow> ContactForm_dump a x3 k = Some v)
          \<and> (d3 k = None \<longrightarrow> dflt \<noteq> None \<and> ContactForm_dump a x3 k = dflt))
       \<and> (\<exists>v. d3 ''_id'' = Some v \<and> ContactForm_dump a x3 (id_key a) = Some (BStr (py_str v)))
       \<and> dom (ContactForm_dump a x3) = insert (id_key a) (fst ` set ContactForm_fields)"
    by (rule impI) (rule ContactForm_roundtrip)
  have e4: "Profile_of (convert_objectid d4) = Inr x4 \<longrightarrow>
       (\<forall>(k, t, dflt)\<in>set Profile_fields.
          (\<forall>v. d4 k = Some v \<and> has_type t v \<longrightarrow> Profile_dump a x4 k = Some v)
          \<and> (d4 k = None \<longrightarrow> dflt \<noteq> None \<and> Profile_dump a x4 k = dflt))
       \<and> (\<exists>v. d4 ''_id'' = Some v \<and> Profile_dump a x4 (id_key a) = Some (BStr (py_str v)))
       \<and> dom (Profile_dump a x4) = insert (id_key a) (fst ` set Profile_fields)"
    by (rule impI) (rule Profile_roundtrip)
  have e5: "Testimonial_of (convert_objectid d5) = Inr x5 \<longrightarrow>
       (\<forall>(k, t, dflt)\<in>set Testimonial_fields.
          (\<forall>v. d5 k = Some v \<and> has_type t v \<longrightarrow> Testimonial_dump a x5 k = Some v)
          \<and> (d5 k = None \<longrightarrow> dflt \<noteq> None \<and> Testimonial_dump a x5 k = dflt))
       \<and> (\<exists>v. d5 ''_id'' = Some v \<and> Testimonial_dump a x5 (id_key a) = Some (BStr (py_str v)))
       \<and> dom (Testimonial_dump a x5) = insert (id_key a) (fst ` set Testimonial_fields)"
    by (rule impI) (rule Testimonial_roundtrip)
  show ?thesis
    by (rule conjI [OF e1 conjI [OF e2 conjI [OF e3 conjI [OF e4 e5]]]])
qed

text \<open>
  The theorem at one stored document of each entity.
\<close>

theorem roundtrip_declared_fields_witness:
  "Experience_of (convert_objectid (demo_experience 1 2 True)) =
       Inr \<lparr>exp_id = str_objectid 1, exp_position = ''Engineer'', exp_company = ''Acme'', exp_location = ''Pune'', exp_period = ''2020'', exp_description = ''Work'', exp_achievements = [''Shipped''], exp_order = 2, exp_isActive = True, exp_createdAt = None, exp_updatedAt = None\<rparr>
   \<and> Accomplishment_of (convert_objectid (demo_accomplishment 4 0 True)) =
       Inr \<lparr>acc_id = str_objectid 4, acc_title = ''Migration'', acc_description = ''Moved'', acc_impact = ''Faster'', acc_technologies = [''Python''], acc_order = 0, acc_isActive = True, acc_createdAt = None, acc_updatedAt = None\<rparr>
   \<and> ContactForm_of (convert_objectid (demo_contact 8)) =
       Inr \<lparr>cf_id = str_objectid 8, cf_name = ''A'', cf_email = ''a@x.com'', cf_subject = [], cf_message = ''hi'', cf_status = NEW, cf_createdAt = Some 1000, cf_updatedAt = Some 1002\<rparr>
   \<and> Profile_of (convert_objectid (demo_profile 5 True)) =
       Inr \<lparr>prof_id = str_objectid 5, prof_name = ''Dayal'', prof_title = ''Engineer'', prof_description = ''About'', prof_location = ''Pune'', prof_email = ''d@x.com'', prof_phone = ''123'', prof_isActive = True, prof_updatedAt = None\<rparr>
   \<and> Testimonial_of (convert_objectid (demo_testimonial 7 3 True)) =
       Inr \<lparr>tst_id = str_objectid 7, tst_name = ''Ann'', tst_title = ''Lead'', tst_company = [], tst_testimonial = ''Great'', tst_relationship = [], tst_date = [], tst_order = 3, tst_isActive = True, tst_createdAt = None, tst_updatedAt = None\<rparr>
   \<and> (list_all (\<lambda>(k, t, dflt).
          (\<forall>v. (demo_experience 1 2 True) k = Some v \<and> has_type t v \<longrightarrow> Experience_dump False 
          \<lparr>exp_id = str_objectid 1, exp_position = ''Engineer'', exp_company = ''Acme'', exp_location = ''Pune'', exp_period = ''2020'', exp_description = ''Work'', exp_achievements = [''Shipped''], exp_order = 2, exp_isActive = True, exp_createdAt = None, exp_updatedAt = None\<rparr> k = Some v)
          \<and> ((demo_experience 1 2 True) k = None \<longrightarrow> dflt \<noteq> None \<and> Experience_dump False 
          \<lparr>exp_id = str_objectid 1, exp_position = ''Engineer'', exp_company = ''Acme'', exp_location = ''Pune'', exp_period = ''2020'', exp_description = ''Work'', exp_achievements = [''Shipped''], exp_order = 2, exp_isActive = True, exp_createdAt = None, exp_updatedAt = None\<rparr> k = dflt)) Experience_fields
       \<and> (\<exists>v. (demo_experience 1 2 True) ''_id'' = Some v \<and> Experience_dump False 
          \<lparr>exp_id = str_objectid 1, exp_position = ''Engineer'', exp_company = ''Acme'', exp_location = ''Pune'', exp_period = ''2020'', exp_description = ''Work'', exp_achievements = [''Shipped''], exp_order = 2, exp_isActive = True, exp_createdAt = None, exp_updatedAt = None\<rparr> (id_key False) = Some (BStr (py_str v)))
       \<and> dom (Experience_dump False 
          \<lparr>exp_id = str_objectid 1, exp_position = ''Engineer'', exp_company = ''Acme'', exp_location = ''Pune'', exp_period = ''2020'', exp_description = ''Work'', exp_achievements = [''Shipped''], exp_order = 2, exp_isActive = True, exp_createdAt = None, exp_updatedAt = None\<rparr>) = insert (id_key False) (fst ` set Experience_fields))
   \<and> (list_all (\<lambda>(k, t, dflt).
          (\<forall>v. (demo_accomplishment 4 0 True) k = Some v \<and> has_type t v \<longrightarrow> Accomplishment_dump False 
          \<lparr>acc_id = str_objectid 4, acc_title = ''Migration'', acc_description = ''Moved'', acc_impact = ''Faster'', acc_technologies = [''Python''], acc_order = 0, acc_isActive = True, acc_createdAt = None, acc_updatedAt = None\<rparr> k = Some v)
          \<and> ((demo_accomplishment 4 0 True) k = None \<longrightarrow> dflt \<noteq> None \<and> Accomplishment_dump False 
          \<lparr>acc_id = str_objectid 4, acc_title = ''Migration'', acc_description = ''Moved'', acc_impact = ''Faster'', acc_technologies = [''Python''], acc_order = 0, acc_isActive = True, acc_createdAt = None, acc_updatedAt = None\<rparr> k = dflt)) Accomplishment_fields
       \<and> (\<exists>v. (demo_accomplishment 4 0 True) ''_id'' = Some v \<and> Accomplishment_dump False 
          \<lparr>acc_id = str_objectid 4, acc_title = ''Migration'', acc_description = ''Moved'', acc_impact = ''Faster'', acc_technologies = [''Python''], acc_order = 0, acc_isActive = True, acc_createdAt = None, acc_updatedAt = None\<rparr> (id_key False) = Some (BStr (py_str v)))
       \<and> dom (Accomplishment_dump False 
          \<lparr>acc_id = str_objectid 4, acc_title = ''Migration'', acc_description = ''Moved'', acc_impact = ''Faster'', acc_technologies = [''Python''], acc_order = 0, acc_isActive = True, acc_createdAt = None, acc_updatedAt = None\<rparr>) = insert (id_key False) (fst ` set Accomplishment_fields))
   \<and> (list_all (\<lambda>(k, t, dflt).
          (\<forall>v. (demo_contact 8) k = Some v \<and> has_type t v \<longrightarrow> ContactForm_dump False 
          \<lparr>cf_id = str_objectid 8, cf_name = ''A'', cf_email = ''a@x.com'', cf_subject = [], cf_message = ''hi'', cf_status = NEW, cf_createdAt = Some 1000, cf_updatedAt = Some 1002\<rparr> k = Some v)
          \<and> ((demo_contact 8) k = None \<longrightarrow> dflt \<noteq> None \<and> ContactForm_dump False 
          \<lparr>cf_id = str_objectid 8, cf_name = ''A'', cf_email = ''a@x.com'', cf_subject = [], cf_message = ''hi'', cf_status = NEW, cf_createdAt = Some 1000, cf_updatedAt = Some 1002\<rparr> k = dflt)) ContactForm_fields
       \<and> (\<exists>v. (demo_contact 8) ''_id'' = Some v \<and> ContactForm_dump False 
          \<lparr>cf_id = str_objectid 8, cf_name = ''A'', cf_email = ''a@x.com'', cf_subject = [], cf_message = ''hi'', cf_status = NEW, cf_createdAt = Some 1000, cf_updatedAt = Some 1002\<rparr> (id_key False) = Some (BStr (py_str v)))
       \<and> dom (ContactForm_dump False 
          \<lparr>cf_id = str_objectid 8, cf_name = ''A'', cf_email = ''a@x.com'', cf_subject = [], cf_message = ''hi'', cf_status = NEW, cf_createdAt = Some 1000, cf_updatedAt = Some 1002\<rparr>) = insert (id_key False) (fst ` set ContactForm_fields))
   \<and> (list_all (\<lambda>(k, t, dflt).
          (\<forall>v. (demo_profile 5 True) k = Some v \<and> has_type t v \<longrightarrow> Profile_dump False 
          \<lparr>prof_id = str_objectid 5, prof_name = ''Dayal'', prof_title = ''Engineer'', prof_description = ''About'', prof_location = ''Pune'', prof_email = ''d@x.com'', prof_phone = ''123'', prof_isActive = True, prof_updatedAt = None\<rparr> k = Some v)
          \<and> ((demo_profile 5 True) k = None \<longrightarrow> dflt \<noteq> None \<and> Profile_dump False 
          \<lparr>prof_id = str_objectid 5, prof_name = ''Dayal'', prof_title = ''Engineer'', prof_description = ''About'', prof_location = ''Pune'', prof_email = ''d@x.com'', prof_phone = ''123'', prof_isActive = True, prof_updatedAt = None\<rparr> k = dflt)) Profile_fields
       \<and> (\<exists>v. (demo_profile 5 True) ''_id'' = Some v \<and> Profile_dump False 
          \<lparr>prof_id = str_objectid 5, prof_name = ''Dayal'', prof_title = ''Engineer'', prof_description = ''About'', prof_location = ''Pune'', prof_email = ''d@x.com'', prof_phone = ''123'', prof_isActive = True, prof_updatedAt = None\<rparr> (id_key False) = Some (BStr (py_str v)))
       \<and> dom (Profile_dump False 
          \<lparr>prof_id = str_objectid 5, prof_name = ''Dayal'', prof_title = ''Engineer'', prof_description = ''About'', prof_location = ''Pune'', prof_email = ''d@x.com'', prof_phone = ''123'', prof_isActive = True, prof_updatedAt = None\<rparr>) = insert (id_key False) (fst ` set Profile_fields))
   \<and> (list_all (\<lambda>(k, t, dflt).
          (\<forall>v. (demo_testimonial 7 3 True) k = Some v \<and> has_type t v \<longrightarrow> Testimonial_dump False 
          \<lparr>tst_id = str_objectid 7, tst_name = ''Ann'', tst_title = ''Lead'', tst_company = [], tst_testimonial = ''Great'', tst_relationship = [], tst_date = [], tst_order = 3, tst_isActive = True, tst_createdAt = None, tst_updatedAt = None\<rparr> k = Some v)
          \<and> ((demo_testimonial 7 3 True) k = None \<longrightarrow> dflt \<noteq> None \<and> Testimonial_dump False 
          \<lparr>tst_id = str_objectid 7, tst_name = ''Ann'', tst_title = ''Lead'', tst_company = [], tst_testimonial = ''Great'', tst_relationship = [], tst_date = [], tst_order = 3, tst_isActive = True, tst_createdAt = None, tst_updatedAt = None\<rparr> k = dflt)) Testimonial_fields
       \<and> (\<exists>v. (demo_testimonial 7 3 True) ''_id'' = Some v \<and> Testimonial_dump False 
          \<lparr>tst_id = str_objectid 7, tst_name = ''Ann'', tst_title = ''Lead'', tst_company = [], tst_testimonial = ''Great'', tst_relationship = [], tst_date = [], tst_order = 3, tst_isActive = True, tst_createdAt = None, tst_updatedAt = None\<rparr> (id_key False) = Some (BStr (py_str v)))
       \<and> dom (Testimonial_dump False 
          \<lparr>tst_id = str_objectid 7, tst_name = ''Ann'', tst_title = ''Lead'', tst_company = [], tst_testimonial = ''Great'', tst_relationship = [], tst_date = [], tst_order = 3, tst_isActive = True, tst_createdAt = None, tst_updatedAt = None\<rparr>) = insert (id_key False) (fst ` set Testimonial_fields))"
proof -
  have h1: "Experience_of (convert_objectid (demo_experience 1 2 True)) =
       Inr \<lparr>exp_id = str_objectid 1, exp_position = ''Engineer'', exp_company = ''Acme'', exp_location = ''Pune'', exp_period = ''2020'', exp_description = ''Work'', exp_achievements = [''Shipped''], exp_order = 2, exp_isActive = True, exp_createdAt = None, exp_updatedAt = None\<rparr>"
    by (rule Experience_of_demo)
  have h2: "Accomplishment_of (convert_objectid (demo_accomplishment 4 0 True)) =
       Inr \<lparr>acc_id = str_objectid 4, acc_title = ''Migration'', acc_description = ''Moved'', acc_impact = ''Faster'', acc_technologies = [''Python''], acc_order = 0, acc_isActive = True, acc_createdAt = None, acc_updatedAt = None\<rparr>"
    by (rule Accomplishment_of_demo)
  have h3: "ContactForm_of (convert_objectid (demo_contact 8)) =
       Inr \<lparr>cf_id = str_objectid 8, cf_name = ''A'', cf_email = ''a@x.com'', cf_subject = [], cf_message = ''hi'', cf_status = NEW, cf_createdAt = Some 1000, cf_updatedAt = Some 1002\<rparr>"
    by (rule ContactForm_of_demo)
  have h4: "Profile_of (convert_objectid (demo_profile 5 True)) =
       Inr \<lparr>prof_id = str_objectid 5, prof_name = ''Dayal'', prof_title = ''Engineer'', prof_description = ''About'', prof_location = ''Pune'', prof_email = ''d@x.com'', prof_phone = ''123'', prof_isActive = True, prof_updatedAt = None\<rparr>"
    by (rule Profile_of_demo)
  have h5: "Testimonial_of (convert_objectid (demo_testimonial 7 3 True)) =
       Inr \<lparr>tst_id = str_objectid 7, tst_name = ''Ann'', tst_title = ''Lead'', tst_company = [], tst_testimonial = ''Great'', tst_relationship = [], tst_date = [], tst_order = 3, tst_isActive = True, tst_createdAt = None, tst_updatedAt = None\<rparr>"
    by (rule Testimonial_of_demo)
  note t = roundtrip_declared_fields [where a = False
      and ?d1.0 = "demo_experience 1 2 True"
      and ?x1.0 = "\<lparr>exp_id = str_objectid 1, exp_position = ''Engineer'', exp_company = ''Acme'', exp_location = ''Pune'', exp_period = ''2020'', exp_description = ''Work'', exp_achievements = [''Shipped''], exp_order = 2, exp_isActive = True, exp_createdAt = None, exp_updatedAt = None\<rparr>"
      and ?d2.0 = "demo_accomplishment 4 0 True"
      and ?x2.0 = "\<lparr>acc_id = str_objectid 4, acc_title = ''Migration'', acc_description = ''Moved'', acc_impact = ''Faster'', acc_technologies = [''Python''], acc_order = 0, acc_isActive = True, acc_createdAt = None, acc_updatedAt = None\<rparr>"
      and ?d3.0 = "demo_contact 8"
      and ?x3.0 = "\<lparr>cf_id = str_objectid 8, cf_name = ''A'', cf_email = ''a@x.com'', cf_subject = [], cf_message = ''hi'', cf_status = NEW, cf_createdAt = Some 1000, cf_updatedAt = Some 1002\<rparr>"
      and ?d4.0 = "demo_profile 5 True"
      and ?x4.0 = "\<lparr>prof_id = str_objectid 5, prof_name = ''Dayal'', prof_title = ''Engineer'', prof_description = ''About'', prof_location = ''Pune'', prof_email = ''d@x.com'', prof_phone = ''123'', prof_isActive = True, prof_updatedAt = None\<rparr>"
      and ?d5.0 = "demo_testimonial 7 3 True"
      and ?x5.0 = "\<lparr>tst_id = str_objectid 7, tst_name = ''Ann'', tst_title = ''Lead'', tst_company = [], tst_testimonial = ''Great'', tst_relationship = [], tst_date = [], tst_order = 3, tst_isActive = True, tst_createdAt = None, tst_updatedAt = None\<rparr>"
    ]
  note c1 = t [THEN conjunct1, THEN mp, OF h1]
  note c2 = t [THEN conjunct2, THEN conjunct1, THEN mp, OF h2]
  note c3 = t [THEN conjunct2, THEN conjunct2, THEN conjunct1, THEN mp, OF h3]
  note c4 = t [THEN conjunct2, THEN conjunct2, THEN conjunct2, THEN conjunct1, THEN mp, OF h4]
  note c5 = t [THEN conjunct2, THEN conjunct2, THEN conjunct2, THEN conjunct2, THEN mp, OF h5]
  show ?thesis
    by (rule conjI [OF h1 conjI [OF h2 conjI [OF h3 conjI [OF h4 conjI [OF h5
          conjI [OF c1 [unfolded Ball_set] conjI [OF c2 [unfolded Ball_set]
          conjI [OF c3 [unfolded Ball_set] conjI [OF c4 [unfolded Ball_set]
          c5 [unfolded Ball_set]]]]]]]]]])
qed

text \<open>
  C8 as stated fails: a profile document that also stores \<^verbatim>\<open>createdAt\<close> (the model
  \<^verbatim>\<open>Profile\<close> declares \<^verbatim>\<open>updatedAt\<close> only) is accepted, and the serialised model
  has no \<^verbatim>\<open>createdAt\<close>, whichever way it is serialised.
\<close>

theorem roundtrip_drops_undeclared_key:
  "Profile_of (convert_objectid ((demo_profile 5 True)(''createdAt'' \<mapsto> BDate 1000))) =
     Inr \<lparr>prof_id = str_objectid 5, prof_name = ''Dayal'', prof_title = ''Engineer'',
          prof_description = ''About'', prof_location = ''Pune'', prof_email = ''d@x.com'',
          prof_phone = ''123'', prof_isActive = True, prof_updatedAt = None\<rparr>
   \<and> ((demo_profile 5 True)(''createdAt'' \<mapsto> BDate 1000)) ''createdAt'' = Some (BDate 1000)
   \<and> Profile_dump False \<lparr>prof_id = str_objectid 5, prof_name = ''Dayal'', prof_title = ''Engineer'',
          prof_description = ''About'', prof_location = ''Pune'', prof_email = ''d@x.com'',
          prof_phone = ''123'', prof_isActive = True, prof_updatedAt = None\<rparr> ''createdAt'' = None
   \<and> Profile_dump True \<lparr>prof_id = str_objectid 5, prof_name = ''Dayal'', prof_title = ''Engineer'',
          prof_description = ''About'', prof_location = ''Pune'', prof_email = ''d@x.com'',
          prof_phone = ''123'', prof_isActive = True, prof_updatedAt = None\<rparr> ''createdAt'' = None"
  by (simp add: Profile_of_def convert_objectid_def demo_profile_def req_str_def opt_bool_def
      opt_datetime_def Profile_dump_def id_key_def)

section \<open>Documents that have the declared types\<close>

lemma conforms_typed:
  "conforms fs d \<Longrightarrow> (k, t, dflt) \<in> set fs \<Longrightarrow> d k = Some v \<Longrightarrow> has_type t v"
  by (fastforce simp: conforms_def list_all_iff)

lemma conforms_required:
  "conforms fs d \<Longrightarrow> (k, t, None) \<in> set fs \<Longrightarrow> \<exists>v. d k = Some v \<and> has_type t v"
  by (fastforce simp: conforms_def list_all_iff split: option.splits)

lemma conforms_id: "conforms fs d \<Longrightarrow> \<exists>v. d ''_id'' = Some v"
  by (auto simp: conforms_def)

lemma conforms_id_str:
  assumes "conforms fs d"
  shows "\<exists>s. req_str (convert_objectid d) ''_id'' = Some s"
  using conforms_id [OF assms] by (auto simp: req_str_def convert_objectid_id)

lemma conforms_req_str:
  assumes "conforms fs d" and "(k, TStr, None) \<in> set fs" and "k \<noteq> ''_id''"
  shows "\<exists>s. req_str (convert_objectid d) k = Some s"
proof -
  from conforms_required [OF assms(1,2)] obtain v where "d k = Some v" "has_type TStr v" by blast
  then show ?thesis using assms(3)
    by (cases v) (simp_all add: req_str_def convert_objectid_other)
qed

lemma conforms_req_str_list:
  assumes "conforms fs d" and "(k, TStrList, None) \<in> set fs" and "k \<noteq> ''_id''"
  shows "\<exists>s. req_str_list (convert_objectid d) k = Some s"
proof -
  from conforms_required [OF assms(1,2)] obtain v where "d k = Some v" "has_type TStrList v" by blast
  then show ?thesis using assms(3)
    by (cases v) (auto simp: req_str_list_def convert_objectid_other)
qed

lemma conforms_opt_str:
  assumes "conforms fs d" and "(k, TStr, z) \<in> set fs" and "k \<noteq> ''_id''"
  shows "\<exists>s. opt_str (convert_objectid d) k dflt = Some s"
proof (cases "d k")
  case None
  then show ?thesis using assms(3) by (simp add: opt_str_def convert_objectid_other)
next
  case (Some v)
  with conforms_typed [OF assms(1,2)] have "has_type TStr v" by simp
  with Some show ?thesis using assms(3)
    by (cases v) (simp_all add: opt_str_def convert_objectid_other)
qed

lemma conforms_opt_int:
  assumes "conforms fs d" and "(k, TInt, z) \<in> set fs" and "k \<noteq> ''_id''"
  shows "\<exists>s. opt_int (convert_objectid d) k dflt = Some s"
proof (cases "d k")
  case None
  then show ?thesis using assms(3) by (simp add: opt_int_def convert_objectid_other)
next
  case (Some v)
  with conforms_typed [OF assms(1,2)] have "has_type TInt v" by simp
  with Some show ?thesis using assms(3)
    by (cases v) (simp_all add: opt_int_def convert_objectid_other)
qed

lemma conforms_opt_bool:
  assumes "conforms fs d" and "(k, TBool, z) \<in> set fs" and "k \<noteq> ''_id''"
  shows "\<exists>s. opt_bool (convert_objectid d) k dflt = Some s"
proof (cases "d k")
  case None
  then show ?thesis using assms(3) by (simp add: opt_bool_def convert_objectid_other)
next
  case (Some v)
  with conforms_typed [OF assms(1,2)] have "has_type TBool v" by simp
  with Some show ?thesis using assms(3)
    by (cases v) (simp_all add: opt_bool_def convert_objectid_other)
qed

lemma conforms_opt_datetime:
  assumes "conforms fs d" and "(k, TOptDatetime, z) \<in> set fs" and "k \<noteq> ''_id''"
  shows "\<exists>s. opt_datetime (convert_objectid d) k = Some s"
proof (cases "d k")
  case None
  then show ?thesis using assms(3) by (simp add: opt_datetime_def convert_objectid_other)
next
  case (Some v)
  with conforms_typed [OF assms(1,2)] have "has_type TOptDatetime v" by simp
  with Some show ?thesis using assms(3)
    by (cases v) (simp_all add: opt_datetime_def convert_objectid_other)
qed

lemma Experience_conforms:
  assumes c: "conforms Experience_fields d"
  shows "\<exists>x. Experience_of (convert_objectid d) = Inr x"
proof -
  from conforms_id_str [OF c] obtain i where i: "req_str (convert_objectid d) ''_id'' = Some i" by blast
  have "\<exists>s. req_str (convert_objectid d) ''position'' = Some s"
    by (rule conforms_req_str [OF c]) (simp_all add: Experience_fields_def)
  then obtain v0 where r0: "req_str (convert_objectid d) ''position'' = Some v0" by blast
  have "\<exists>s. req_str (convert_objectid d) ''company'' = Some s"
    by (rule conforms_req_str [OF c]) (simp_all add: Experience_fields_def)
  then obtain v1 where r1: "req_str (convert_objectid d) ''company'' = Some v1" by blast
  have "\<exists>s. req_str (convert_objectid d) ''location'' = Some s"
    by (rule conforms_req_str [OF c]) (simp_all add: Experience_fields_def)
  then obtain v2 where r2: "req_str (convert_objectid d) ''location'' = Some v2" by blast
  have "\<exists>s. req_str (convert_objectid d) ''period'' = Some s"
    by (rule conforms_req_str [OF c]) (simp_all add: Experience_fields_def)
  then obtain v3 where r3: "req_str (convert_objectid d) ''period'' = Some v3" by blast
  have "\<exists>s. req_str (convert_objectid d) ''description'' = Some s"
    by (rule conforms_req_str [OF c]) (simp_all add: Experience_fields_def)
  then obtain v4 where r4: "req_str (convert_objectid d) ''description'' = Some v4" by blast
  have "\<exists>s. req_str_list (convert_objectid d) ''achievements'' = Some s"
    by (rule conforms_req_str_list [OF c]) (simp_all add: Experience_fields_def)
  then obtain v5 where r5: "req_str_list (convert_objectid d) ''achievements'' = Some v5" by blast
  have "\<exists>s. opt_int (convert_objectid d) ''order'' 0 = Some s"
    by (rule conforms_opt_int [OF c]) (simp_all add: Experience_fields_def)
  then obtain v6 where r6: "opt_int (convert_objectid d) ''order'' 0 = Some v6" by blast
  have "\<exists>s. opt_bool (convert_objectid d) ''isActive'' True = Some s"
    by (rule conforms_opt_bool [OF c]) (simp_all add: Experience_fields_def)
  then obtain v7 where r7: "opt_bool (convert_objectid d) ''isActive'' True = Some v7" by blast
  have "\<exists>s. opt_datetime (convert_objectid d) ''createdAt'' = Some s"
    by (rule conforms_opt_datetime [OF c]) (simp_all add: Experience_fields_def)
  then obtain v8 where r8: "opt_datetime (convert_objectid d) ''createdAt'' = Some v8" by blast
  have "\<exists>s. opt_datetime (convert_objectid d) ''updatedAt'' = Some s"
    by (rule conforms_opt_datetime [OF c]) (simp_all add: Experience_fields_def)
  then obtain v9 where r9: "opt_datetime (convert_objectid d) ''updatedAt'' = Some v9" by blast
  show ?thesis by (simp add: Experience_of_def i r0 r1 r2 r3 r4 r5 r6 r7 r8 r9)
qed

lemma Experience_conforms_demo: "conforms Experience_fields (demo_experience w i b)"
  by (simp add: conforms_def Experience_fields_def demo_experience_def)

lemma Accomplishment_conforms:
  assumes c: "conforms Accomplishment_fields d"
  shows "\<exists>x. Accomplishment_of (convert_objectid d) = Inr x"
proof -
  from conforms_id_str [OF c] obtain i where i: "req_str (convert_objectid d) ''_id'' = Some i" by blast
  have "\<exists>s. req_str (convert_objectid d) ''title'' = Some s"
    by (rule conforms_req_str [OF c]) (simp_all add: Accomplishment_fields_def)
  then obtain v0 where r0: "req_str (convert_objectid d) ''title'' = Some v0" by blast
  have "\<exists>s. req_str (convert_objectid d) ''description'' = Some s"
    by (rule conforms_req_str [OF c]) (simp_all add: Accomplishment_fields_def)
  then obtain v1 where r1: "req_str (convert_objectid d) ''description'' = Some v1" by blast
  have "\<exists>s. req_str (convert_objectid d) ''impact'' = Some s"
    by (rule conforms_req_str [OF c]) (simp_all add: Accomplishment_fields_def)
  then obtain v2 where r2: "req_str (convert_objectid d) ''impact'' = Some v2" by blast
  have "\<exists>s. req_str_list (convert_objectid d) ''technologies'' = Some s"
    by (rule conforms_req_str_list [OF c]) (simp_all add: Accomplishment_fields_def)
  then obtain v3 where r3: "req_str_list (convert_objectid d) ''technologies'' = Some v3" by blast
  have "\<exists>s. opt_int (convert_objectid d) ''order'' 0 = Some s"
    by (rule conforms_opt_int [OF c]) (simp_all add: Accomplishment_fields_def)
  then obtain v4 where r4: "opt_int (convert_objectid d) ''order'' 0 = Some v4" by blast
  have "\<exists>s. opt_bool (convert_objectid d) ''isActive'' True = Some s"
    by (rule conforms_opt_bool [OF c]) (simp_all add: Accomplishment_fields_def)
  then obtain v5 where r5: "opt_bool (convert_objectid d) ''isActive'' True = Some v5" by blast
  have "\<exists>s. opt_datetime (convert_objectid d) ''createdAt'' = Some s"
    by (rule conforms_opt_datetime [OF c]) (simp_all add: Accomplishment_fields_def)
  then obtain v6 where r6: "opt_datetime (convert_objectid d) ''createdAt'' = Some v6" by blast
  have "\<exists>s. opt_datetime (convert_objectid d) ''updatedAt'' = Some s"
    by (rule conforms_opt_datetime [OF c]) (simp_all add: Accomplishment_fields_def)
  then obtain v7 where r7: "opt_datetime (convert_objectid d) ''updatedAt'' = Some v7" by blast
  show ?thesis by (simp add: Accomplishment_of_def i r0 r1 r2 r3 r4 r5 r6 r7)
qed

lemma Accomplishment_conforms_demo: "conforms Accomplishment_fields (demo_accomplishment w i b)"
  by (simp add: conforms_def Accomplishment_fields_def demo_accomplishment_def)

lemma Profile_conforms:
  assumes c: "conforms Profile_fields d"
  shows "\<exists>x. Profile_of (convert_objectid d) = Inr x"
proof -
  from conforms_id_str [OF c] obtain i where i: "req_str (convert_objectid d) ''_id'' = Some i" by blast
  have "\<exists>s. req_str (convert_objectid d) ''name'' = Some s"
    by (rule conforms_req_str [OF c]) (simp_all add: Profile_fields_def)
  then obtain v0 where r0: "req_str (convert_objectid d) ''name'' = Some v0" by blast
  have "\<exists>s. req_str (convert_objectid d) ''title'' = Some s"
    by (rule conforms_req_str [OF c]) (simp_all add: Profile_fields_def)
  then obtain v1 where r1: "req_str (convert_objectid d) ''title'' = Some v1" by blast
  have "\<exists>s. req_str (convert_objectid d) ''description'' = Some s"
    by (rule conforms_req_str [OF c]) (simp_all add: Profile_fields_def)
  then obtain v2 where r2: "req_str (convert_objectid d) ''description'' = Some v2" by blast
  have "\<exists>s. req_str (convert_objectid d) ''location'' = Some s"
    by (rule conforms_req_str [OF c]) (simp_all add: Profile_fields_def)
  then obtain v3 where r3: "req_str (convert_objectid d) ''location'' = Some v3" by blast
  have "\<exists>s. req_str (convert_objectid d) ''email'' = Some s"
    by (rule conforms_req_str [OF c]) (simp_all add: Profile_fields_def)
  then obtain v4 where r4: "req_str (convert_objectid d) ''email'' = Some v4" by blast
  have "\<exists>s. req_str (convert_objectid d) ''phone'' = Some s"
    by (rule conforms_req_str [OF c]) (simp_all add: Profile_fields_def)
  then obtain v5 where r5: "req_str (convert_objectid d) ''phone'' = Some v5" by blast
  have "\<exists>s. opt_bool (convert_objectid d) ''isActive'' True = Some s"
    by (rule conforms_opt_bool [OF c]) (simp_all add: Profile_fields_def)
  then obtain v6 where r6: "opt_bool (convert_objectid d) ''isActive'' True = Some v6" by blast
  have "\<exists>s. opt_datetime (convert_objectid d) ''updatedAt'' = Some s"
    by (rule conforms_opt_datetime [OF c]) (simp_all add: Profile_fields_def)
  then obtain v7 where r7: "opt_datetime (convert_objectid d) ''updatedAt'' = Some v7" by blast
  show ?thesis by (simp add: Profile_of_def i r0 r1 r2 r3 r4 r5 r6 r7)
qed

lemma Profile_conforms_demo: "conforms Profile_fields (demo_profile w b)"
  by (simp add: conforms_def Profile_fields_def demo_profile_def)

lemma Testimonial_conforms:
  assumes c: "conforms Testimonial_fields d"
  shows "\<exists>x. Testimonial_of (convert_objectid d) = Inr x"
proof -
  from conforms_id_str [OF c] obtain i where i: "req_str (convert_objectid d) ''_id'' = Some i" by blast
  have "\<exists>s. req_str (convert_objectid d) ''name'' = Some s"
    by (rule conforms_req_str [OF c]) (simp_all add: Testimonial_fields_def)
  then obtain v0 where r0: "req_str (convert_objectid d) ''name'' = Some v0" by blast
  have "\<exists>s. req_str (convert_objectid d) ''title'' = Some s"
    by (rule conforms_req_str [OF c]) (simp_all add: Testimonial_fields_def)
  then obtain v1 where r1: "req_str (convert_objectid d) ''title'' = Some v1" by blast
  have "\<exists>s. opt_str (convert_objectid d) ''company'' [] = Some s"
    by (rule conforms_opt_str [OF c]) (simp_all add: Testimonial_fields_def)
  then obtain v2 where r2: "opt_str (convert_objectid d) ''company'' [] = Some v2" by blast
  have "\<exists>s. req_str (convert_objectid d) ''testimonial'' = Some s"
    by (rule conforms_req_str [OF c]) (simp_all add: Testimonial_fields_def)
  then obtain v3 where r3: "req_str (convert_objectid d) ''testimonial'' = Some v3" by blast
  have "\<exists>s. opt_str (convert_objectid d) ''relationship'' [] = Some s"
    by (rule conforms_opt_str [OF c]) (simp_all add: Testimonial_fields_def)
  then obtain v4 where r4: "opt_str (convert_objectid d) ''relationship'' [] = Some v4" by blast
  have "\<exists>s. opt_str (convert_objectid d) ''date'' [] = Some s"
    by (rule conforms_opt_str [OF c]) (simp_all add: Testimonial_fields_def)
  then obtain v5 where r5: "opt_str (convert_objectid d) ''date'' [] = Some v5" by blast
  have "\<exists>s. opt_int (convert_objectid d) ''order'' 0 = Some s"
    by (rule conforms_opt_int [OF c]) (simp_all add: Testimonial_fields_def)
  then obtain v6 where r6: "opt_int (convert_objectid d) ''order'' 0 = Some v6" by blast
  have "\<exists>s. opt_bool (convert_objectid d) ''isActive'' True = Some s"
    by (rule conforms_opt_bool [OF c]) (simp_all add: Testimonial_fields_def)
  then obtain v7 where r7: "opt_bool (convert_objectid d) ''isActive'' True = Some v7" by blast
  have "\<exists>s. opt_datetime (convert_objectid d) ''createdAt'' = Some s"
    by (rule conforms_opt_datetime [OF c]) (simp_all add: Testimonial_fields_def)
  then obtain v8 where r8: "opt_datetime (convert_objectid d) ''createdAt'' = Some v8" by blast
  have "\<exists>s. opt_datetime (convert_objectid d) ''updatedAt'' = Some s"
    by (rule conforms_opt_datetime [OF c]) (simp_all add: Testimonial_fields_def)
  then obtain v9 where r9: "opt_datetime (convert_objectid d) ''updatedAt'' = Some v9" by blast
  show ?thesis by (simp add: Testimonial_of_def i r0 r1 r2 r3 r4 r5 r6 r7 r8 r9)
qed

lemma Testimonial_conforms_demo: "conforms Testimonial_fields (demo_testimonial w i b)"
  by (simp add: conforms_def Testimonial_fields_def demo_testimonial_def)

section \<open>The listing endpoints\<close>

lemma collect_valid:
  "\<forall>d\<in>set ds. \<exists>x. model (convert_objectid d) = Inr x \<Longrightarrow>
   collect model ds acc = Inr (acc @ map (\<lambda>d. projr (model (convert_objectid d))) ds)"
  by (induction ds arbitrary: acc) auto

lemma sorted_by_int_key:
  "sorted (map (\<lambda>d. (2::nat, f d, ([]::string))) ds) \<Longrightarrow> sorted (map (f :: 'a \<Rightarrow> int) ds)"
  by (induction ds) auto

lemma active_valid:
  assumes "is_active d" and "\<forall>v. d ''isActive'' = Some v \<longrightarrow> has_type TBool v"
    and "opt_bool (convert_objectid d) ''isActive'' True = Some b"
  shows "b"
proof (cases "d ''isActive''")
  case None
  with assms(1) show ?thesis by (simp add: is_active_def eq_match_def)
next
  case (Some w)
  with assms(2) have "has_type TBool w" by simp
  with Some assms(1,3) show ?thesis
    by (cases w) (simp_all add: is_active_def eq_match_def opt_bool_def convert_objectid_other)
qed

lemma order_valid:
  assumes "\<forall>v. d ''order'' = Some v \<longrightarrow> has_type TInt v"
    and "opt_int (convert_objectid d) ''order'' 0 = Some i"
  shows "i = (case d ''order'' of Some (BInt j) \<Rightarrow> j | _ \<Rightarrow> 0)"
    and "d ''order'' \<noteq> None \<Longrightarrow> bson_sort_key (d ''order'') = (2, i, [])"
proof -
  show "i = (case d ''order'' of Some (BInt j) \<Rightarrow> j | _ \<Rightarrow> 0)"
  proof (cases "d ''order''")
    case None
    with assms(2) show ?thesis by (simp add: opt_int_def convert_objectid_other)
  next
    case (Some w)
    with assms(1) have "has_type TInt w" by simp
    with Some assms(2) show ?thesis
      by (cases w) (simp_all add: opt_int_def convert_objectid_other)
  qed
  show "bson_sort_key (d ''order'') = (2, i, [])" if "d ''order'' \<noteq> None"
  proof -
    from that obtain w where w: "d ''order'' = Some w" by blast
    with assms(1) have "has_type TInt w" by simp
    with w assms(2) show ?thesis
      by (cases w) (simp_all add: opt_int_def convert_objectid_other bson_sort_key_def)
  qed
qed

lemma find_sorted_active:
  "find_sorted None ''isActive'' (BBool True) ''order'' coll =
     Inr (sort_key (\<lambda>d. bson_sort_key (d ''order'')) (filter is_active coll))"
  by (simp add: find_sorted_def is_active_def [abs_def])

lemma listing_valid:
  fixes model :: "document \<Rightarrow> exn + 'a"
  assumes reads: "\<And>d x. model d = Inr x \<Longrightarrow>
            opt_int d ''order'' 0 = Some (order_of x) \<and> opt_bool d ''isActive'' True = Some (active_of x)"
    and valid: "\<forall>d\<in>set coll. is_active d \<longrightarrow> (\<exists>x. model (convert_objectid d) = Inr x)"
    and typed: "\<forall>d\<in>set coll. is_active d \<longrightarrow>
            (\<forall>v. d ''order'' = Some v \<longrightarrow> has_type TInt v) \<and>
            (\<forall>v. d ''isActive'' = Some v \<longrightarrow> has_type TBool v)"
  shows "\<exists>docs. mset docs = mset (filter is_active coll) \<and>
           sorted (map (\<lambda>d. bson_sort_key (d ''order'')) docs) \<and>
           listing model p dt None coll = (Inr (map (\<lambda>d. projr (model (convert_objectid d))) docs), []) \<and>
           (\<forall>x\<in>set (map (\<lambda>d. projr (model (convert_objectid d))) docs). active_of x) \<and>
           map order_of (map (\<lambda>d. projr (model (convert_objectid d))) docs) =
             map (\<lambda>d. case d ''order'' of Some (BInt j) \<Rightarrow> j | _ \<Rightarrow> 0) docs \<and>
           ((\<forall>d\<in>set coll. is_active d \<longrightarrow> d ''order'' \<noteq> None) \<longrightarrow>
              sorted (map order_of (map (\<lambda>d. projr (model (convert_objectid d))) docs)))"
proof -
  define docs where "docs = sort_key (\<lambda>d. bson_sort_key (d ''order'')) (filter is_active coll)"
  let ?m = "\<lambda>d. projr (model (convert_objectid d))"
  have set_docs: "set docs = {d \<in> set coll. is_active d}"
    by (simp add: docs_def)
  have m: "mset docs = mset (filter is_active coll)"
    by (simp add: docs_def)
  have s: "sorted (map (\<lambda>d. bson_sort_key (d ''order'')) docs)"
    by (simp add: docs_def)
  have v: "\<forall>d\<in>set docs. \<exists>x. model (convert_objectid d) = Inr x"
    using valid set_docs by blast
  have ty: "(\<forall>v. d ''order'' = Some v \<longrightarrow> has_type TInt v) \<and>
            (\<forall>v. d ''isActive'' = Some v \<longrightarrow> has_type TBool v)" if "d \<in> set docs" for d
    using typed set_docs that by blast
  have r: "listing model p dt None coll = (Inr (map ?m docs), [])"
    using collect_valid [OF v, of "[]"] by (simp add: listing_def find_sorted_active docs_def)
  have rd: "opt_int (convert_objectid d) ''order'' 0 = Some (order_of (?m d)) \<and>
            opt_bool (convert_objectid d) ''isActive'' True = Some (active_of (?m d))"
    if "d \<in> set docs" for d
  proof -
    from v that obtain x where "model (convert_objectid d) = Inr x" by blast
    then show ?thesis using reads [of "convert_objectid d" x] by simp
  qed
  have a: "\<forall>x\<in>set (map ?m docs). active_of x"
  proof -
    have "active_of (?m d)" if "d \<in> set docs" for d
      using active_valid [of d "active_of (?m d)"] rd [OF that] ty [OF that] that set_docs by simp
    then show ?thesis by auto
  qed
  have e: "map order_of (map ?m docs) = map (\<lambda>d. case d ''order'' of Some (BInt j) \<Rightarrow> j | _ \<Rightarrow> 0) docs"
  proof -
    have "order_of (?m d) = (case d ''order'' of Some (BInt j) \<Rightarrow> j | _ \<Rightarrow> 0)" if "d \<in> set docs" for d
      using order_valid(1) [of d "order_of (?m d)"] rd [OF that] ty [OF that] by simp
    then show ?thesis by simp
  qed
  have o: "sorted (map order_of (map ?m docs))"
    if h: "\<forall>d\<in>set coll. is_active d \<longrightarrow> d ''order'' \<noteq> None"
  proof -
    have "bson_sort_key (d ''order'') = (2, order_of (?m d), [])" if "d \<in> set docs" for d
      using order_valid(2) [of d "order_of (?m d)"] rd [OF that] ty [OF that] that set_docs h by simp
    then have "map (\<lambda>d. bson_sort_key (d ''order'')) docs = map (\<lambda>d. (2, order_of (?m d), [])) docs"
      by simp
    with s have "sorted (map (\<lambda>d. (2::nat, order_of (?m d), ([]::string))) docs)" by simp
    then have "sorted (map (\<lambda>d. order_of (?m d)) docs)" by (rule sorted_by_int_key)
    then show ?thesis by (simp add: comp_def)
  qed
  from m s r a e o show ?thesis by blast
qed

lemma listing_none_active:
  assumes "\<forall>d\<in>set coll. \<not> is_active d"
  shows "listing model p dt None coll = (Inr [], [])"
proof -
  from assms have "filter is_active coll = []" by (simp add: filter_empty_conv)
  then show ?thesis by (simp add: listing_def find_sorted_active)
qed

text \<open>
  C6. For each listing endpoint, on a store that answers: when no document of the
  collection is matched by the condition \<^verbatim>\<open>{"isActive": True}\<close>, the endpoint returns
  the empty list as a successful response and logs nothing.
\<close>

theorem listing_without_active_is_empty:
  "((\<forall>d\<in>set (experiences_collection store). \<not> is_active d) \<longrightarrow>
       get_experiences None store = (Inr [], []))
   \<and> ((\<forall>d\<in>set (accomplishments_collection store). \<not> is_active d) \<longrightarrow>
       get_accomplishments None store = (Inr [], []))
   \<and> ((\<forall>d\<in>set (testimonials_collection store). \<not> is_active d) \<longrightarrow>
       get_testimonials None store = (Inr [], []))"
  by (simp add: get_experiences_def get_accomplishments_def get_testimonials_def listing_none_active)

lemma demo_inactive:
  "\<not> is_active (demo_experience w i False)" "\<not> is_active (demo_accomplishment w i False)"
  "\<not> is_active (demo_testimonial w i False)" "\<not> is_active (demo_profile w False)"
  by (simp_all add: is_active_def eq_match_def demo_experience_def demo_accomplishment_def
      demo_testimonial_def demo_profile_def)

lemma demo_active:
  "is_active (demo_experience w i True)" "is_active (demo_accomplishment w i True)"
  "is_active (demo_testimonial w i True)" "is_active (demo_profile w True)"
  by (simp_all add: is_active_def eq_match_def demo_experience_def demo_accomplishment_def
      demo_testimonial_def demo_profile_def)

text \<open>
  The theorem at a database whose experiences and testimonials are all inactive and
  whose accomplishments are empty.
\<close>

theorem listing_without_active_is_empty_witness:
  "list_all (\<lambda>d. \<not> is_active d)
      (experiences_collection (demo_db\<lparr>experiences_collection := [demo_experience 2 1 False],
        accomplishments_collection := [], testimonials_collection := [demo_testimonial 6 0 False]\<rparr>))
   \<and> list_all (\<lambda>d. \<not> is_active d)
      (accomplishments_collection (demo_db\<lparr>experiences_collection := [demo_experience 2 1 False],
        accomplishments_collection := [], testimonials_collection := [demo_testimonial 6 0 False]\<rparr>))
   \<and> list_all (\<lambda>d. \<not> is_active d)
      (testimonials_collection (demo_db\<lparr>experiences_collection := [demo_experience 2 1 False],
        accomplishments_collection := [], testimonials_collection := [demo_testimonial 6 0 False]\<rparr>))
   \<and> get_experiences None (demo_db\<lparr>experiences_collection := [demo_experience 2 1 False],
        accomplishments_collection := [], testimonials_collection := [demo_testimonial 6 0 False]\<rparr>) =
       (Inr [], [])
   \<and> get_accomplishments None (demo_db\<lparr>experiences_collection := [demo_experience 2 1 False],
        accomplishments_collection := [], testimonials_collection := [demo_testimonial 6 0 False]\<rparr>) =
       (Inr [], [])
   \<and> get_testimonials None (demo_db\<lparr>experiences_collection := [demo_experience 2 1 False],
        accomplishments_collection := [], testimonials_collection := [demo_testimonial 6 0 False]\<rparr>) =
       (Inr [], [])"
proof -
  define quiet where "quiet = demo_db\<lparr>experiences_collection := [demo_experience 2 1 False],
        accomplishments_collection := [], testimonials_collection := [demo_testimonial 6 0 False]\<rparr>"
  have h1: "\<forall>d\<in>set (experiences_collection quiet). \<not> is_active d"
    by (simp add: quiet_def demo_inactive)
  have h2: "\<forall>d\<in>set (accomplishments_collection quiet). \<not> is_active d"
    by (simp add: quiet_def)
  have h3: "\<forall>d\<in>set (testimonials_collection quiet). \<not> is_active d"
    by (simp add: quiet_def demo_inactive)
  note t = listing_without_active_is_empty [of quiet]
  note c1 = t [THEN conjunct1, THEN mp, OF h1]
  note c2 = t [THEN conjunct2, THEN conjunct1, THEN mp, OF h2]
  note c3 = t [THEN conjunct2, THEN conjunct2, THEN mp, OF h3]
  show ?thesis
    unfolding quiet_def [symmetric]
    by (rule conjI [OF h1 [unfolded Ball_set] conjI [OF h2 [unfolded Ball_set]
          conjI [OF h3 [unfolded Ball_set] conjI [OF c1 conjI [OF c2 c3]]]]])
qed

section \<open>What a listing returns\<close>

lemma Experience_reads:
  "Experience_of d = Inr x \<Longrightarrow>
     opt_int d ''order'' 0 = Some (exp_order x) \<and> opt_bool d ''isActive'' True = Some (exp_isActive x)"
  by (simp add: Experience_of_Inr)

lemma Experience_typed:
  assumes "conforms Experience_fields d"
  shows "(\<forall>v. d ''order'' = Some v \<longrightarrow> has_type TInt v) \<and>
         (\<forall>v. d ''isActive'' = Some v \<longrightarrow> has_type TBool v)"
proof -
  have "(''order'', TInt, Some (BInt 0)) \<in> set Experience_fields"
    and "(''isActive'', TBool, Some (BBool True)) \<in> set Experience_fields"
    by (simp_all add: Experience_fields_def)
  with conforms_typed [OF assms] show ?thesis by blast
qed

lemma get_experiences_valid:
  assumes "\<forall>d\<in>set (experiences_collection store). is_active d \<longrightarrow> conforms Experience_fields d"
  shows "(\<exists>docs. mset docs = mset (filter is_active (experiences_collection store))
       \<and> sorted (map (\<lambda>d. bson_sort_key (d ''order'')) docs)
       \<and> get_experiences None store =
           (Inr (map (\<lambda>d. projr (Experience_of (convert_objectid d))) docs), [])
       \<and> (\<forall>x\<in>set (map (\<lambda>d. projr (Experience_of (convert_objectid d))) docs). exp_isActive x)
       \<and> map exp_order (map (\<lambda>d. projr (Experience_of (convert_objectid d))) docs) =
           map (\<lambda>d. case d ''order'' of Some (BInt j) \<Rightarrow> j | _ \<Rightarrow> 0) docs
       \<and> ((\<forall>d\<in>set (experiences_collection store). is_active d \<longrightarrow> d ''order'' \<noteq> None) \<longrightarrow>
            sorted (map exp_order (map (\<lambda>d. projr (Experience_of (convert_objectid d))) docs))))"
proof -
  from assms Experience_conforms
  have v: "\<forall>d\<in>set (experiences_collection store).
        is_active d \<longrightarrow> (\<exists>x. Experience_of (convert_objectid d) = Inr x)"
    by blast
  from assms Experience_typed
  have t: "\<forall>d\<in>set (experiences_collection store). is_active d \<longrightarrow>
            (\<forall>v. d ''order'' = Some v \<longrightarrow> has_type TInt v) \<and>
            (\<forall>v. d ''isActive'' = Some v \<longrightarrow> has_type TBool v)"
    by blast
  show ?thesis
    unfolding get_experiences_def
    using listing_valid [where model = Experience_of and order_of = exp_order and active_of = exp_isActive
        and coll = "experiences_collection store", OF Experience_reads v t]
    by blast
qed

lemma Accomplishment_reads:
  "Accomplishment_of d = Inr x \<Longrightarrow>
     opt_int d ''order'' 0 = Some (acc_order x) \<and> opt_bool d ''isActive'' True = Some (acc_isActive x)"
  by (simp add: Accomplishment_of_Inr)

lemma Accomplishment_typed:
  assumes "conforms Accomplishment_fields d"
  shows "(\<forall>v. d ''order'' = Some v \<longrightarrow> has_type TInt v) \<and>
         (\<forall>v. d ''isActive'' = Some v \<longrightarrow> has_type TBool v)"
proof -
  have "(''order'', TInt, Some (BInt 0)) \<in> set Accomplishment_fields"
    and "(''isActive'', TBool, Some (BBool True)) \<in> set Accomplishment_fields"
    by (simp_all add: Accomplishment_fields_def)
  with conforms_typed [OF assms] show ?thesis by blast
qed

lemma get_accomplishments_valid:
  assumes "\<forall>d\<in>set (accomplishments_collection store). is_active d \<longrightarrow> conforms Accomplishment_fields d"
  shows "(\<exists>docs. mset docs = mset (filter is_active (accomplishments_collection store))
       \<and> sorted (map (\<lambda>d. bson_sort_key (d ''order'')) docs)
       \<and> get_accomplishments None store =
           (Inr (map (\<lambda>d. projr (Accomplishment_of (convert_objectid d))) docs), [])
       \<and> (\<forall>x\<in>set (map (\<lambda>d. projr (Accomplishment_of (convert_objectid d))) docs). acc_isActive x)
       \<and> map acc_order (map (\<lambda>d. projr (Accomplishment_of (convert_objectid d))) docs) =
           map (\<lambda>d. case d ''order'' of Some (BInt j) \<Rightarrow> j | _ \<Rightarrow> 0) docs
       \<and> ((\<forall>d\<in>set (accomplishments_collection store). is_active d \<longrightarrow> d ''order'' \<noteq> None) \<longrightarrow>
            sorted (map acc_order (map (\<lambda>d. projr (Accomplishment_of (convert_objectid d))) docs))))"
proof -
  from assms Accomplishment_conforms
  have v: "\<forall>d\<in>set (accomplishments_collection store).
        is_active d \<longrightarrow> (\<exists>x. Accomplishment_of (convert_objectid d) = Inr x)"
    by blast
  from assms Accomplishment_typed
  have t: "\<forall>d\<in>set (accomplishments_collection store). is_active d \<longrightarrow>
            (\<forall>v. d ''order'' = Some v \<longrightarrow> has_type TInt v) \<and>
            (\<forall>v. d ''isActive'' = Some v \<longrightarrow> has_type TBool v)"
    by blast
  show ?thesis
    unfolding get_accomplishments_def
    using listing_valid [where model = Accomplishment_of and order_of = acc_order and active_of = acc_isActive
        and coll = "accomplishments_collection store", OF Accomplishment_reads v t]
    by blast
qed

lemma Testimonial_reads:
  "Testimonial_of d = Inr x \<Longrightarrow>
     opt_int d ''order'' 0 = Some (tst_order x) \<and> opt_bool d ''isActive'' True = Some (tst_isActive x)"
  by (simp add: Testimonial_of_Inr)

lemma Testimonial_typed:
  assumes "conforms Testimonial_fields d"
  shows "(\<forall>v. d ''order'' = Some v \<longrightarrow> has_type TInt v) \<and>
         (\<forall>v. d ''isActive'' = Some v \<longrightarrow> has_type TBool v)"
proof -
  have "(''order'', TInt, Some (BInt 0)) \<in> set Testimonial_fields"
    and "(''isActive'', TBool, Some (BBool True)) \<in> set Testimonial_fields"
    by (simp_all add: Testimonial_fields_def)
  with conforms_typed [OF assms] show ?thesis by blast
qed

lemma get_testimonials_valid:
  assumes "\<forall>d\<in>set (testimonials_collection store). is_active d \<longrightarrow> conforms Testimonial_fields d"
  shows "(\<exists>docs. mset docs = mset (filter is_active (testimonials_collection store))
       \<and> sorted (map (\<lambda>d. bson_sort_key (d ''order'')) docs)
       \<and> get_testimonials None store =
           (Inr (map (\<lambda>d. projr (Testimonial_of (convert_objectid d))) docs), [])
       \<and> (\<forall>x\<in>set (map (\<lambda>d. projr (Testimonial_of (convert_objectid d))) docs). tst_isActive x)
       \<and> map tst_order (map (\<lambda>d. projr (Testimonial_of (convert_objectid d))) docs) =
           map (\<lambda>d. case d ''order'' of Some (BInt j) \<Rightarrow> j | _ \<Rightarrow> 0) docs
       \<and> ((\<forall>d\<in>set (testimonials_collection store). is_active d \<longrightarrow> d ''order'' \<noteq> None) \<longrightarrow>
            sorted (map tst_order (map (\<lambda>d. projr (Testimonial_of (convert_objectid d))) docs))))"
proof -
  from assms Testimonial_conforms
  have v: "\<forall>d\<in>set (testimonials_collection store).
        is_active d \<longrightarrow> (\<exists>x. Testimonial_of (convert_objectid d) = Inr x)"
    by blast
  from assms Testimonial_typed
  have t: "\<forall>d\<in>set (testimonials_collection store). is_active d \<longrightarrow>
            (\<forall>v. d ''order'' = Some v \<longrightarrow> has_type TInt v) \<and>
            (\<forall>v. d ''isActive'' = Some v \<longrightarrow> has_type TBool v)"
    by blast
  show ?thesis
    unfolding get_testimonials_def
    using listing_valid [where model = Testimonial_of and order_of = tst_order and active_of = tst_isActive
        and coll = "testimonials_collection store", OF Testimonial_reads v t]
    by blast
qed

text \<open>
  C1, as amended. For each listing endpoint, on a store that answers and in which
  every document matched by \<^verbatim>\<open>{"isActive": True}\<close> has an identifier, has every
  required key of the entity, and stores under each declared key a value of the declared
  type: the response is the list of the models of exactly the matched documents (as
  many response items as matched documents, \<open>docs\<close> being a rearrangement of them),
  in the store's ascending order of the stored \<^verbatim>\<open>order\<close> key, where a document
  without that key comes before every number; every item of the response has
  \<^verbatim>\<open>isActive\<close> true; the \<^verbatim>\<open>order\<close> of an item is the stored one, and 0 for a
  document that stores none; and when every matched document stores its \<^verbatim>\<open>order\<close>,
  the \<^verbatim>\<open>order\<close> fields of the response are non-decreasing.
\<close>

theorem listing_active_sorted:
  "((\<forall>d\<in>set (experiences_collection store). is_active d \<longrightarrow> conforms Experience_fields d) \<longrightarrow>
    (\<exists>docs. mset docs = mset (filter is_active (experiences_collection store))
       \<and> sorted (map (\<lambda>d. bson_sort_key (d ''order'')) docs)
       \<and> get_experiences None store =
           (Inr (map (\<lambda>d. projr (Experience_of (convert_objectid d))) docs), [])
       \<and> (\<forall>x\<in>set (map (\<lambda>d. projr (Experience_of (convert_objectid d))) docs). exp_isActive x)
       \<and> map exp_order (map (\<lambda>d. projr (Experience_of (convert_objectid d))) docs) =
           map (\<lambda>d. case d ''order'' of Some (BInt j) \<Rightarrow> j | _ \<Rightarrow> 0) docs
       \<and> ((\<forall>d\<in>set (experiences_collection store). is_active d \<longrightarrow> d ''order'' \<noteq> None) \<longrightarrow>
            sorted (map exp_order (map (\<lambda>d. projr (Experience_of (convert_objectid d))) docs)))))
   \<and> ((\<forall>d\<in>set (accomplishments_collection store). is_active d \<longrightarrow> conforms Accomplishment_fields d) \<longrightarrow>
    (\<exists>docs. mset docs = mset (filter is_active (accomplishments_collection store))
       \<and> sorted (map (\<lambda>d. bson_sort_key (d ''order'')) docs)
       \<and> get_accomplishments None store =
           (Inr (map (\<lambda>d. projr (Accomplishment_of (convert_objectid d))) docs), [])
       \<and> (\<forall>x\<in>set (map (\<lambda>d. projr (Accomplishment_of (convert_objectid d))) docs). acc_isActive x)
       \<and> map acc_order (map (\<lambda>d. projr (Accomplishment_of (convert_objectid d))) docs) =
           map (\<lambda>d. case d ''order'' of Some (BInt j) \<Rightarrow> j | _ \<Rightarrow> 0) docs
       \<and> ((\<forall>d\<in>set (accomplishments_collection store). is_active d \<longrightarrow> d ''order'' \<noteq> None) \<longrightarrow>
            sorted (map acc_order (map (\<lambda>d. projr (Accomplishment_of (convert_objectid d))) docs)))))
   \<and> ((\<forall>d\<in>set (testimonials_collection store). is_active d \<longrightarrow> conforms Testimonial_fields d) \<longrightarrow>
    (\<exists>docs. mset docs = mset (filter is_active (testimonials_collection store))
       \<and> sorted (map (\<lambda>d. bson_sort_key (d ''order'')) docs)
       \<and> get_testimonials None store =
           (Inr (map (\<lambda>d. projr (Testimonial_of (convert_objectid d))) docs), [])
       \<and> (\<forall>x\<in>set (map (\<lambda>d. projr (Testimonial_of (convert_objectid d))) docs). tst_isActive x)
       \<and> map tst_order (map (\<lambda>d. projr (Testimonial_of (convert_objectid d))) docs) =
           map (\<lambda>d. case d ''order'' of Some (BInt j) \<Rightarrow> j | _ \<Rightarrow> 0) docs
       \<and> ((\<forall>d\<in>set (testimonials_collection store). is_active d \<longrightarrow> d ''order'' \<noteq> None) \<longrightarrow>
            sorted (map tst_order (map (\<lambda>d. projr (Testimonial_of (convert_objectid d))) docs)))))"
  using get_experiences_valid [of store] get_accomplishments_valid [of store]
    get_testimonials_valid [of store]
  by blast

lemma demo_db_conforms:
  "\<forall>d\<in>set (experiences_collection demo_db). is_active d \<longrightarrow> conforms Experience_fields d"
  "\<forall>d\<in>set (accomplishments_collection demo_db). is_active d \<longrightarrow> conforms Accomplishment_fields d"
  "\<forall>d\<in>set (testimonials_collection demo_db). is_active d \<longrightarrow> conforms Testimonial_fields d"
  by (simp_all add: demo_db_def Experience_conforms_demo Accomplishment_conforms_demo
      Testimonial_conforms_demo)

lemma demo_db_ordered:
  "\<forall>d\<in>set (experiences_collection demo_db). is_active d \<longrightarrow> d ''order'' \<noteq> None"
  "\<forall>d\<in>set (accomplishments_collection demo_db). is_active d \<longrightarrow> d ''order'' \<noteq> None"
  "\<forall>d\<in>set (testimonials_collection demo_db). is_active d \<longrightarrow> d ''order'' \<noteq> None"
  by (simp_all add: demo_db_def demo_experience_def demo_accomplishment_def demo_testimonial_def)

text \<open>
  The theorem at \<open>demo_db\<close>, whose active documents all have the declared types and
  all store their order.
\<close>

theorem listing_active_sorted_witness:
  "list_all (\<lambda>d. is_active d \<longrightarrow> conforms Experience_fields d) (experiences_collection demo_db)
   \<and> list_all (\<lambda>d. is_active d \<longrightarrow> conforms Accomplishment_fields d)
       (accomplishments_collection demo_db)
   \<and> list_all (\<lambda>d. is_active d \<longrightarrow> conforms Testimonial_fields d) (testimonials_collection demo_db)
   \<and> list_all (\<lambda>d. is_active d \<longrightarrow> d ''order'' \<noteq> None) (experiences_collection demo_db)
   \<and> list_all (\<lambda>d. is_active d \<longrightarrow> d ''order'' \<noteq> None) (accomplishments_collection demo_db)
   \<and> list_all (\<lambda>d. is_active d \<longrightarrow> d ''order'' \<noteq> None) (testimonials_collection demo_db)
   \<and> (\<exists>docs. mset docs = mset (filter is_active (experiences_collection demo_db))
       \<and> sorted (map (\<lambda>d. bson_sort_key (d ''order'')) docs)
       \<and> get_experiences None demo_db =
           (Inr (map (\<lambda>d. projr (Experience_of (convert_objectid d))) docs), [])
       \<and> (\<forall>x\<in>set (map (\<lambda>d. projr (Experience_of (convert_objectid d))) docs). exp_isActive x)
       \<and> map exp_order (map (\<lambda>d. projr (Experience_of (convert_objectid d))) docs) =
           map (\<lambda>d. case d ''order'' of Some (BInt j) \<Rightarrow> j | _ \<Rightarrow> 0) docs
       \<and> sorted (map exp_order (map (\<lambda>d. projr (Experience_of (convert_objectid d))) docs)))
   \<and> (\<exists>docs. mset docs = mset (filter is_active (accomplishments_collection demo_db))
       \<and> sorted (map (\<lambda>d. bson_sort_key (d ''order'')) docs)
       \<and> get_accomplishments None demo_db =
           (Inr (map (\<lambda>d. projr (Accomplishment_of (convert_objectid d))) docs), [])
       \<and> (\<forall>x\<in>set (map (\<lambda>d. projr (Accomplishment_of (convert_objectid d))) docs). acc_isActive x)
       \<and> map acc_order (map (\<lambda>d. projr (Accomplishment_of (convert_objectid d))) docs) =
           map (\<lambda>d. case d ''order'' of Some (BInt j) \<Rightarrow> j | _ \<Rightarrow> 0) docs
       \<and> sorted (map acc_order (map (\<lambda>d. projr (Accomplishment_of (convert_objectid d))) docs)))
   \<and> (\<exists>docs. mset docs = mset (filter is_active (testimonials_collection demo_db))
       \<and> sorted (map (\<lambda>d. bson_sort_key (d ''order'')) docs)
       \<and> get_testimonials None demo_db =
           (Inr (map (\<lambda>d. projr (Testimonial_of (convert_objectid d))) docs), [])
       \<and> (\<forall>x\<in>set (map (\<lambda>d. projr (Testimonial_of (convert_objectid d))) docs). tst_isActive x)
       \<and> map tst_order (map (\<lambda>d. projr (Testimonial_of (convert_objectid d))) docs) =
           map (\<lambda>d. case d ''order'' of Some (BInt j) \<Rightarrow> j | _ \<Rightarrow> 0) docs
       \<and> sorted (map tst_order (map (\<lambda>d. projr (Testimonial_of (convert_objectid d))) docs)))"
proof -
  note t = listing_active_sorted [of demo_db]
  from t [THEN conjunct1, THEN mp, OF demo_db_conforms(1)] demo_db_ordered(1)
  have e1: "(\<exists>docs. mset docs = mset (filter is_active (experiences_collection demo_db))
       \<and> sorted (map (\<lambda>d. bson_sort_key (d ''order'')) docs)
       \<and> get_experiences None demo_db =
           (Inr (map (\<lambda>d. projr (Experience_of (convert_objectid d))) docs), [])
       \<and> (\<forall>x\<in>set (map (\<lambda>d. projr (Experience_of (convert_objectid d))) docs). exp_isActive x)
       \<and> map exp_order (map (\<lambda>d. projr (Experience_of (convert_objectid d))) docs) =
           map (\<lambda>d. case d ''order'' of Some (BInt j) \<Rightarrow> j | _ \<Rightarrow> 0) docs
       \<and> sorted (map exp_order (map (\<lambda>d. projr (Experience_of (convert_objectid d))) docs)))"
    by blast
  from t [THEN conjunct2, THEN conjunct1, THEN mp, OF demo_db_conforms(2)] demo_db_ordered(2)
  have e2: "(\<exists>docs. mset docs = mset (filter is_active (accomplishments_collection demo_db))
       \<and> sorted (map (\<lambda>d. bson_sort_key (d ''order'')) docs)
       \<and> get_accomplishments None demo_db =
           (Inr (map (\<lambda>d. projr (Accomplishment_of (convert_objectid d))) docs), [])
       \<and> (\<forall>x\<in>set (map (\<lambda>d. projr (Accomplishment_of (convert_objectid d))) docs). acc_isActive x)
       \<and> map acc_order (map (\<lambda>d. projr (Accomplishment_of (convert_objectid d))) docs) =
           map (\<lambda>d. case d ''order'' of Some (BInt j) \<Rightarrow> j | _ \<Rightarrow> 0) docs
       \<and> sorted (map acc_order (map (\<lambda>d. projr (Accomplishment_of (convert_objectid d))) docs)))"
    by blast
  from t [THEN conjunct2, THEN conjunct2, THEN mp, OF demo_db_conforms(3)] demo_db_ordered(3)
  have e3: "(\<exists>docs. mset docs = mset (filter is_active (testimonials_collection demo_db))
       \<and> sorted (map (\<lambda>d. bson_sort_key (d ''order'')) docs)
       \<and> get_testimonials None demo_db =
           (Inr (map (\<lambda>d. projr (Testimonial_of (convert_objectid d))) docs), [])
       \<and> (\<forall>x\<in>set (map (\<lambda>d. projr (Testimonial_of (convert_objectid d))) docs). tst_isActive x)
       \<and> map tst_order (map (\<lambda>d. projr (Testimonial_of (convert_objectid d))) docs) =
           map (\<lambda>d. case d ''order'' of Some (BInt j) \<Rightarrow> j | _ \<Rightarrow> 0) docs
       \<and> sorted (map tst_order (map (\<lambda>d. projr (Testimonial_of (convert_objectid d))) docs)))"
    by blast
  show ?thesis
    by (rule conjI [OF demo_db_conforms(1) [unfolded Ball_set] conjI [OF demo_db_conforms(2) [unfolded Ball_set]
          conjI [OF demo_db_conforms(3) [unfolded Ball_set] conjI [OF demo_db_ordered(1) [unfolded Ball_set]
          conjI [OF demo_db_ordered(2) [unfolded Ball_set] conjI [OF demo_db_ordered(3) [unfolded Ball_set]
          conjI [OF e1 conjI [OF e2 e3]]]]]]]])
qed

lemma get_experiences_demo:
  "get_experiences None demo_db =
     (Inr [\<lparr>exp_id = str_objectid 3, exp_position = ''Engineer'', exp_company = ''Acme'',
            exp_location = ''Pune'', exp_period = ''2020'', exp_description = ''Work'',
            exp_achievements = [''Shipped''], exp_order = 1, exp_isActive = True,
            exp_createdAt = None, exp_updatedAt = None\<rparr>,
           \<lparr>exp_id = str_objectid 1, exp_position = ''Engineer'', exp_company = ''Acme'',
            exp_location = ''Pune'', exp_period = ''2020'', exp_description = ''Work'',
            exp_achievements = [''Shipped''], exp_order = 2, exp_isActive = True,
            exp_createdAt = None, exp_updatedAt = None\<rparr>], [])"
proof -
  have k: "bson_sort_key (demo_experience w i b ''order'') = (2, i, [])" for w i b
    by (simp add: demo_experience_def bson_sort_key_def)
  show ?thesis
    by (simp add: get_experiences_def listing_def find_sorted_active demo_db_def demo_active
        demo_inactive k Experience_of_demo)
qed

text \<open>
  C1 as stated fails, in two ways. An active experience without \<^verbatim>\<open>position\<close> makes
  the endpoint answer 500 instead of a list. And of two active experiences that have the
  declared types, one with the order -1 and one without \<^verbatim>\<open>order\<close>, the store puts
  the second first, the model gives it the default order 0, and the response has the
  orders 0, -1.
\<close>

theorem listing_counterexample:
  "is_active ((demo_experience 1 0 True)(''position'' := None))
   \<and> get_experiences None
        (demo_db\<lparr>experiences_collection := [(demo_experience 1 0 True)(''position'' := None)]\<rparr>) =
       (Inl (HTTPException 500 ''Failed to fetch experiences''),
        [LogError ''Error fetching experiences: '' (ValidationError ''Experience'')])
   \<and> map exp_order (projr (fst (get_experiences None
        (demo_db\<lparr>experiences_collection :=
           [demo_experience 1 (- 1) True, (demo_experience 2 0 True)(''order'' := None)]\<rparr>)))) = [0, - 1]
   \<and> \<not> sorted (map exp_order (projr (fst (get_experiences None
        (demo_db\<lparr>experiences_collection :=
           [demo_experience 1 (- 1) True, (demo_experience 2 0 True)(''order'' := None)]\<rparr>)))))"
proof -
  define bad where "bad = (demo_experience 1 0 True)(''position'' := None)"
  define late where "late = (demo_experience 2 0 True)(''order'' := None)"
  have a1: "is_active bad"
    by (simp add: bad_def is_active_def eq_match_def demo_experience_def)
  have v1: "Experience_of (convert_objectid bad) = Inl (ValidationError ''Experience'')"
    by (simp add: bad_def Experience_of_def convert_objectid_def demo_experience_def req_str_def)
  have r1: "get_experiences None (demo_db\<lparr>experiences_collection := [bad]\<rparr>) =
       (Inl (HTTPException 500 ''Failed to fetch experiences''),
        [LogError ''Error fetching experiences: '' (ValidationError ''Experience'')])"
    by (simp add: get_experiences_def listing_def find_sorted_active a1 v1 server_error_def)
  have a2: "is_active late"
    by (simp add: late_def is_active_def eq_match_def demo_experience_def)
  have k2: "bson_sort_key (late ''order'') = (1, 0, [])"
    by (simp add: late_def bson_sort_key_def)
  have k1: "bson_sort_key (demo_experience 1 (- 1) True ''order'') = (2, - 1, [])"
    by (simp add: demo_experience_def bson_sort_key_def)
  have v2: "Experience_of (convert_objectid late) =
     Inr \<lparr>exp_id = str_objectid 2, exp_position = ''Engineer'', exp_company = ''Acme'',
          exp_location = ''Pune'', exp_period = ''2020'', exp_description = ''Work'',
          exp_achievements = [''Shipped''], exp_order = 0, exp_isActive = True,
          exp_createdAt = None, exp_updatedAt = None\<rparr>"
    by (simp add: late_def Experience_of_def convert_objectid_def demo_experience_def req_str_def
        req_str_list_def opt_int_def opt_bool_def opt_datetime_def)
  have r2: "map exp_order (projr (fst (get_experiences None
        (demo_db\<lparr>experiences_collection := [demo_experience 1 (- 1) True, late]\<rparr>)))) = [0, - 1]"
    by (simp add: get_experiences_def listing_def find_sorted_active demo_active a2 k1 k2 v2
        Experience_of_demo)
  from a1 r1 r2 show ?thesis unfolding bad_def late_def by simp
qed

section \<open>The profile endpoint\<close>

lemma find_first_of_filter: "filter P xs = x # ys \<Longrightarrow> List.find P xs = Some x"
  by (induction xs) (auto split: if_splits)

lemma find_none_active: "\<forall>d\<in>set coll. \<not> is_active d \<Longrightarrow> List.find is_active coll = None"
  by (simp add: find_None_iff)

lemma find_one_active:
  "find_one None ''isActive'' (BBool True) coll = Inr (List.find is_active coll)"
  by (simp add: find_one_def is_active_def [abs_def])

lemma active_nonempty: "is_active d \<Longrightarrow> d \<noteq> Map.empty"
  by (auto simp: is_active_def eq_match_def)

lemma get_profile_none_active:
  assumes "\<forall>d\<in>set (profile_collection store). \<not> is_active d"
  shows "get_profile None store = (Inl (HTTPException 404 ''Profile not found''), [])"
  by (simp add: get_profile_def find_one_active find_none_active [OF assms])

lemma get_profile_first_active:
  assumes "filter is_active (profile_collection store) = d # ds"
  shows "get_profile None store =
           (case Profile_of (convert_objectid d) of
              Inl e \<Rightarrow> server_error ''Error fetching profile: '' ''Failed to fetch profile'' e
            | Inr p \<Rightarrow> (Inr p, []))"
proof -
  have f: "List.find is_active (profile_collection store) = Some d"
    using assms by (rule find_first_of_filter)
  have "d \<in> set (filter is_active (profile_collection store))"
    unfolding assms by simp
  then have "d \<noteq> Map.empty" by (simp add: active_nonempty)
  then show ?thesis by (simp add: get_profile_def find_one_active f)
qed

text \<open>
  C2, as amended. On a store that answers: when no profile document is matched by
  \<^verbatim>\<open>{"isActive": True}\<close>, the handler fails with the 404 \<^verbatim>\<open>Profile not found\<close>,
  which reaches the caller as it is (it is not the 500 of the general clause, and
  nothing is logged). When exactly one document \<open>d\<close> is matched, and \<open>d\<close> has an
  identifier, has every required key of \<^verbatim>\<open>Profile\<close> and stores under each declared
  key a value of the declared type, the model accepts \<open>d\<close> and the handler returns
  that model, logging nothing: every declared key that \<open>d\<close> stores has the
  stored value, every declared key that \<open>d\<close> lacks has its default, and
  \<^verbatim>\<open>id\<close> is \<^verbatim>\<open>str\<close> of the stored identifier.
\<close>

theorem profile_not_found_or_returned:
  "((\<forall>d\<in>set (profile_collection store). \<not> is_active d) \<longrightarrow>
      get_profile None store = (Inl (HTTPException 404 ''Profile not found''), []))
   \<and> (filter is_active (profile_collection store') = [d] \<and> conforms Profile_fields d \<longrightarrow>
      (\<exists>p. Profile_of (convert_objectid d) = Inr p
         \<and> get_profile None store' = (Inr p, [])
         \<and> (\<forall>(k, t, dflt)\<in>set Profile_fields.
              (\<forall>v. d k = Some v \<longrightarrow> Profile_dump a p k = Some v)
              \<and> (d k = None \<longrightarrow> Profile_dump a p k = dflt))
         \<and> (\<exists>v. d ''_id'' = Some v \<and> prof_id p = py_str v)))"
proof (intro conjI impI)
  assume "\<forall>d\<in>set (profile_collection store). \<not> is_active d"
  then show "get_profile None store = (Inl (HTTPException 404 ''Profile not found''), [])"
    by (rule get_profile_none_active)
next
  assume h: "filter is_active (profile_collection store') = [d] \<and> conforms Profile_fields d"
  then have c: "conforms Profile_fields d" by simp
  from Profile_conforms [OF c] obtain p where v: "Profile_of (convert_objectid d) = Inr p" by blast
  from h v have g: "get_profile None store' = (Inr p, [])"
    by (simp add: get_profile_first_active)
  have f: "\<forall>(k, t, dflt)\<in>set Profile_fields.
              (\<forall>v. d k = Some v \<longrightarrow> Profile_dump a p k = Some v)
              \<and> (d k = None \<longrightarrow> Profile_dump a p k = dflt)"
  proof -
    have "(\<forall>v. d k = Some v \<longrightarrow> Profile_dump a p k = Some v)
              \<and> (d k = None \<longrightarrow> Profile_dump a p k = dflt)"
      if m: "(k, t, dflt) \<in> set Profile_fields" for k t dflt
    proof -
      from Profile_roundtrip [OF v, of a, THEN conjunct1, THEN bspec, OF m]
      have r: "(\<forall>v. d k = Some v \<and> has_type t v \<longrightarrow> Profile_dump a p k = Some v)
          \<and> (d k = None \<longrightarrow> dflt \<noteq> None \<and> Profile_dump a p k = dflt)"
        by simp
      from conforms_typed [OF c m] have "has_type t v" if "d k = Some v" for v
        using that by simp
      with r show ?thesis by blast
    qed
    then show ?thesis by (auto simp only: split_paired_all prod.case Ball_def)
  qed
  have "req_str (convert_objectid d) ''_id'' = Some (prof_id p)"
    using Profile_of_Inr [OF v] by simp
  then have i: "\<exists>v. d ''_id'' = Some v \<and> prof_id p = py_str v"
    by (rule converted_id)
  show "\<exists>p. Profile_of (convert_objectid d) = Inr p
         \<and> get_profile None store' = (Inr p, [])
         \<and> (\<forall>(k, t, dflt)\<in>set Profile_fields.
              (\<forall>v. d k = Some v \<longrightarrow> Profile_dump a p k = Some v)
              \<and> (d k = None \<longrightarrow> Profile_dump a p k = dflt))
         \<and> (\<exists>v. d ''_id'' = Some v \<and> prof_id p = py_str v)"
    by (rule exI [of _ p]) (rule conjI [OF v conjI [OF g conjI [OF f i]]])
qed

text \<open>
  The theorem at a database whose only profile is inactive, and at \<open>demo_db\<close>, whose
  only profile is active and has the declared types; that profile stores no
  \<^verbatim>\<open>updatedAt\<close>, which the returned model has as \<^verbatim>\<open>None\<close>.
\<close>

theorem profile_not_found_or_returned_witness:
  "list_all (\<lambda>d. \<not> is_active d)
      (profile_collection (demo_db\<lparr>profile_collection := [demo_profile 9 False]\<rparr>))
   \<and> filter is_active (profile_collection demo_db) = [demo_profile 5 True]
   \<and> conforms Profile_fields (demo_profile 5 True)
   \<and> get_profile None (demo_db\<lparr>profile_collection := [demo_profile 9 False]\<rparr>) =
       (Inl (HTTPException 404 ''Profile not found''), [])
   \<and> get_profile None demo_db =
       (Inr \<lparr>prof_id = str_objectid 5, prof_name = ''Dayal'', prof_title = ''Engineer'',
            prof_description = ''About'', prof_location = ''Pune'', prof_email = ''d@x.com'',
            prof_phone = ''123'', prof_isActive = True, prof_updatedAt = None\<rparr>, [])
   \<and> list_all (\<lambda>(k, t, dflt).
        (\<forall>v. demo_profile 5 True k = Some v \<longrightarrow>
           Profile_dump True \<lparr>prof_id = str_objectid 5, prof_name = ''Dayal'', prof_title = ''Engineer'',
            prof_description = ''About'', prof_location = ''Pune'', prof_email = ''d@x.com'',
            prof_phone = ''123'', prof_isActive = True, prof_updatedAt = None\<rparr> k = Some v)
        \<and> (demo_profile 5 True k = None \<longrightarrow>
           Profile_dump True \<lparr>prof_id = str_objectid 5, prof_name = ''Dayal'', prof_title = ''Engineer'',
            prof_description = ''About'', prof_location = ''Pune'', prof_email = ''d@x.com'',
            prof_phone = ''123'', prof_isActive = True, prof_updatedAt = None\<rparr> k = dflt))
       Profile_fields
   \<and> (\<exists>v. demo_profile 5 True ''_id'' = Some v \<and> str_objectid 5 = py_str v)"
proof -
  define P where "P = \<lparr>prof_id = str_objectid 5, prof_name = ''Dayal'', prof_title = ''Engineer'',
            prof_description = ''About'', prof_location = ''Pune'', prof_email = ''d@x.com'',
            prof_phone = ''123'', prof_isActive = True, prof_updatedAt = None\<rparr>"
  have h1: "\<forall>d\<in>set (profile_collection (demo_db\<lparr>profile_collection := [demo_profile 9 False]\<rparr>)).
              \<not> is_active d"
    by (simp add: demo_inactive)
  have h2: "filter is_active (profile_collection demo_db) = [demo_profile 5 True]"
    by (simp add: demo_db_def demo_active)
  have h3: "conforms Profile_fields (demo_profile 5 True)"
    by (rule Profile_conforms_demo)
  have h4: "Profile_of (convert_objectid (demo_profile 5 True)) = Inr P"
    unfolding P_def by (rule Profile_of_demo)
  note t = profile_not_found_or_returned
         [of "demo_db\<lparr>profile_collection := [demo_profile 9 False]\<rparr>" demo_db "demo_profile 5 True" True]
  note c1 = t [THEN conjunct1, THEN mp, OF h1]
  from t [THEN conjunct2, THEN mp, OF conjI [OF h2 h3]]
  obtain p where pp: "Profile_of (convert_objectid (demo_profile 5 True)) = Inr p
     \<and> get_profile None demo_db = (Inr p, [])
     \<and> (\<forall>(k, t, dflt)\<in>set Profile_fields.
              (\<forall>v. demo_profile 5 True k = Some v \<longrightarrow> Profile_dump True p k = Some v)
              \<and> (demo_profile 5 True k = None \<longrightarrow> Profile_dump True p k = dflt))
     \<and> (\<exists>v. demo_profile 5 True ''_id'' = Some v \<and> prof_id p = py_str v)" ..
  note p1 = pp [THEN conjunct1]
  note p2 = pp [THEN conjunct2, THEN conjunct1]
  note p3 = pp [THEN conjunct2, THEN conjunct2, THEN conjunct1]
  note p4 = pp [THEN conjunct2, THEN conjunct2, THEN conjunct2]
  from p1 have e: "p = P" unfolding h4 by (simp only: sum.inject)
  have i: "prof_id P = str_objectid 5" by (simp add: P_def)
  note c2 = p2 [unfolded e]
  note c3 = p3 [unfolded e Ball_set]
  note c4 = p4 [unfolded e i]
  show ?thesis
    unfolding P_def [symmetric]
    by (rule conjI [OF h1 [unfolded Ball_set] conjI [OF h2 conjI [OF h3
          conjI [OF c1 conjI [OF c2 conjI [OF c3 c4]]]]]])
qed

text \<open>
  C2 as stated fails: when the one active profile document has no \<^verbatim>\<open>phone\<close>, the
  handler does not return it; it answers with the generic 500.
\<close>

theorem profile_counterexample:
  "filter is_active (profile_collection
      (demo_db\<lparr>profile_collection := [(demo_profile 5 True)(''phone'' := None)]\<rparr>)) =
     [(demo_profile 5 True)(''phone'' := None)]
   \<and> get_profile None (demo_db\<lparr>profile_collection := [(demo_profile 5 True)(''phone'' := None)]\<rparr>) =
       (Inl (HTTPException 500 ''Failed to fetch profile''),
        [LogError ''Error fetching profile: '' (ValidationError ''Profile'')])"
proof -
  define bad where "bad = (demo_profile 5 True)(''phone'' := None)"
  have a: "is_active bad"
    by (simp add: bad_def is_active_def eq_match_def demo_profile_def)
  have v: "Profile_of (convert_objectid bad) = Inl (ValidationError ''Profile'')"
    by (simp add: bad_def Profile_of_def convert_objectid_def demo_profile_def req_str_def)
  have f: "filter is_active (profile_collection (demo_db\<lparr>profile_collection := [bad]\<rparr>)) = [bad]"
    by (simp add: a)
  have "get_profile None (demo_db\<lparr>profile_collection := [bad]\<rparr>) =
       (Inl (HTTPException 500 ''Failed to fetch profile''),
        [LogError ''Error fetching profile: '' (ValidationError ''Profile'')])"
    by (simp add: get_profile_first_active [OF f] v server_error_def)
  with f show ?thesis unfolding bad_def by simp
qed

end
